theory Spec2Isabelle
  imports Complex_Main
begin

section \<open>The GPU simulation engine of OpenBCSim (GpuAlgorithm.cpp)\<close>

text \<open>
  A shallow embedding of \<^verbatim>\<open>bcsim::GpuAlgorithm\<close>. The object is a record, every member
  function takes the object and returns the object it leaves behind together with its
  outcome: \<open>Inr\<close> for a normal return and \<open>Inl\<close> for the exception thrown. An exception
  does not undo the assignments made before it, so the state is returned in both cases.

  Conventions of the model:
  \<^item> \<^verbatim>\<open>float\<close> is \<open>real\<close> and \<^verbatim>\<open>std::complex<float>\<close> is \<open>complex\<close>; rounding is not modelled.
  \<^item> CUDA and cuFFT calls wrapped in \<^verbatim>\<open>cudaErrorCheck\<close> are taken to succeed; allocation
    never fails. The ghost member \<open>num_allocations\<close> counts the RAII resources created so
    far, and the content of fresh memory is whatever the platform's \<open>garbage\<close> says.
  \<^item> Reading a vector out of range, dereferencing a null smart pointer and dividing by zero
    are undefined in C++; the model stops there with \<open>UndefinedBehaviour\<close>.
  \<^item> Console output is not part of the state.
  \<^item> Whatever the translation unit uses without defining it (constants, device queries,
    the projection kernels' arithmetic, the B-spline helpers, the base class) is a field of
    the record \<open>platform\<close>, so every theorem holds for each choice of them.
\<close>

subsection \<open>Errors\<close>

datatype error =
    RuntimeError string
  | LogicError string
  | InvalidArgument string
  | OutOfRange string
  | LengthError string
  | UndefinedBehaviour string

subsection \<open>Values handed in by the caller\<close>

type_synonym vector3 = "real \<times> real \<times> real"

record Scanline =
  get_origin :: vector3
  get_direction :: vector3
  get_lateral_dir :: vector3
  get_elevational_dir :: vector3
  get_timestamp :: real

record ScanSequence =
  scanlines :: "Scanline list"
  line_length :: real

definition get_num_lines :: "ScanSequence \<Rightarrow> int" where
  "get_num_lines seq = int (length (scanlines seq))"

record ExcitationSignal =
  samples :: "real list"
  center_index :: nat
  sampling_frequency :: real
  demod_freq :: real

record Interval =
  first :: real
  last :: real

record LUTBeamProfile =
  getNumSamplesRadial :: int
  getNumSamplesLateral :: int
  getNumSamplesElevational :: int
  getRangeRange :: Interval
  getLateralRange :: Interval
  getElevationalRange :: Interval
  sampleProfile :: "real \<Rightarrow> real \<Rightarrow> real \<Rightarrow> real"

text \<open>The dynamic type of an \<^verbatim>\<open>IBeamProfile\<close>; \<open>OtherBeamProfile\<close> is any further subclass.\<close>

datatype IBeamProfile =
    GaussianBeamProfile real real
  | LUTProfile LUTBeamProfile
  | OtherBeamProfile

datatype BeamProfileType = NOT_CONFIGURED | ANALYTICAL | LOOKUP

record PointScatterer =
  pos :: vector3
  amplitude :: real

record FixedScatterers =
  scatterers :: "PointScatterer list"

record SplineScatterers =
  spline_degree :: int
  knot_vector :: "real list"
  control_points :: "vector3 list list"
  amplitudes :: "real list"

text \<open>
  Modelled from the spec: the accessors of the scatterer classes are declared outside this
  translation unit. A spline collection holds \<open>N_spline\<close> control-point sequences, each of
  length \<open>num_control_points\<close>; the common length is read off the first sequence.
\<close>

definition num_scatterers_fixed :: "FixedScatterers \<Rightarrow> nat" where
  "num_scatterers_fixed sc = length (scatterers sc)"

definition num_scatterers :: "SplineScatterers \<Rightarrow> nat" where
  "num_scatterers sc = length (control_points sc)"

definition get_num_control_points :: "SplineScatterers \<Rightarrow> nat" where
  "get_num_control_points sc = (case control_points sc of [] \<Rightarrow> 0 | c # _ \<Rightarrow> length c)"

subsection \<open>Kernel parameter blocks\<close>

record LUTExtent =
  r_min :: real
  r_max :: real
  l_min :: real
  l_max :: real
  e_min :: real
  e_max :: real

text \<open>A 3D table: its extent as handed to \<^verbatim>\<open>TableExtent3D\<close>, and the samples in linear memory.\<close>

record DeviceBeamProfile =
  table_extent :: "int \<times> int \<times> int"
  table_samples :: "real list"

text \<open>
  The members common to \<^verbatim>\<open>FixedAlgKernelParams\<close> and \<^verbatim>\<open>SplineAlgKernelParams\<close>. Device
  pointers are replaced by the content they point to; the output pointer \<^verbatim>\<open>res\<close> is not a
  member here, it is the buffer the launch accumulates into.
\<close>

record AlgKernelParams =
  rad_dir :: vector3
  lat_dir :: vector3
  ele_dir :: vector3
  origin :: vector3
  fs_hertz :: real
  num_time_samples :: nat
  sigma_lateral :: real
  sigma_elevational :: real
  sound_speed :: real
  demod_freq_param :: real
  lut_tex :: DeviceBeamProfile
  lut :: LUTExtent

record FixedAlgKernelParams = AlgKernelParams +
  point_xs :: "real list"
  point_ys :: "real list"
  point_zs :: "real list"
  point_as :: "real list"
  num_scatterers_param :: nat

record SplineAlgKernelParams = AlgKernelParams +
  control_xs :: "real list"
  control_ys :: "real list"
  control_zs :: "real list"
  control_as :: "real list"
  cs_idx_start :: int
  cs_idx_end :: int
  NUM_SPLINES :: nat
  eval_basis_offset_elements :: nat
  eval_basis :: "real list"

subsection \<open>The base class and the platform\<close>

text \<open>The members of \<^verbatim>\<open>BaseAlgorithm\<close> that this translation unit reads.\<close>

record BaseAlgorithm =
  m_param_verbose :: bool
  m_param_sound_speed :: real
  m_radial_decimation :: nat
  m_param_use_arc_projection :: bool
  m_enable_phase_delay :: bool

record cudaDeviceProp =
  maxGridSize0 :: int

record platform =
  cudaGetDeviceCount :: int
  cudaGetDeviceProperties :: "int \<Rightarrow> cudaDeviceProp"
  garbage_complex :: "nat \<Rightarrow> nat \<Rightarrow> complex"
  garbage_float :: "nat \<Rightarrow> nat \<Rightarrow> real"
  MAX_NUM_CUDA_STREAMS :: int
  MAX_SPLINE_DEGREE :: int
  compute_num_rf_samples :: "real \<Rightarrow> real \<Rightarrow> real \<Rightarrow> nat"
  BaseAlgorithm_set_parameter ::
    "string \<Rightarrow> string \<Rightarrow> BaseAlgorithm \<Rightarrow> (error + unit) \<times> BaseAlgorithm"
  discrete_hilbert_mask :: "nat \<Rightarrow> complex list"
  FixedAlgKernel :: "bool \<Rightarrow> bool \<Rightarrow> bool \<Rightarrow> int \<Rightarrow> int \<Rightarrow> FixedAlgKernelParams \<Rightarrow> nat \<Rightarrow> complex"
  SplineAlgKernel :: "bool \<Rightarrow> bool \<Rightarrow> bool \<Rightarrow> int \<Rightarrow> int \<Rightarrow> SplineAlgKernelParams \<Rightarrow> nat \<Rightarrow> complex"
  bsplineBasis :: "nat \<Rightarrow> int \<Rightarrow> real \<Rightarrow> real list \<Rightarrow> real"
  get_lower_upper_inds :: "real list \<Rightarrow> real \<Rightarrow> int \<Rightarrow> int \<times> int"
  sanity_check_spline_lower_upper_bound :: "real list \<Rightarrow> int \<Rightarrow> int \<Rightarrow> bool"
  splineAlg2_updateConstantMemory :: "real list \<Rightarrow> nat \<Rightarrow> bool"

subsection \<open>The object\<close>

record GpuAlgorithm =
  base :: BaseAlgorithm
  m_param_cuda_device_no :: int
  m_can_change_cuda_device :: bool
  m_param_num_cuda_streams :: nat
  m_num_time_samples :: nat
  m_num_beams_allocated :: int
  m_param_threads_per_block :: int
  m_store_kernel_details :: bool
  m_num_fixed_scatterers :: nat
  m_num_spline_scatterers :: nat
  m_cur_device_prop :: cudaDeviceProp
  m_stream_wrappers :: "nat list"
  m_debug_data :: "string \<Rightarrow> real list"
  m_scan_seq :: "ScanSequence option"
  m_excitation :: ExcitationSignal
  m_cur_beam_profile_type :: BeamProfileType
  m_device_time_proj :: "complex list list"
  m_host_rf_lines :: "complex list list"
  m_device_excitation_fft :: "complex list option"
  m_fft_plan :: "nat option"
  m_analytical_sigma_lat :: real
  m_analytical_sigma_ele :: real
  m_device_beam_profile :: "DeviceBeamProfile option"
  m_lut_extent :: LUTExtent
  m_device_point_xs :: "real list option"
  m_device_point_ys :: "real list option"
  m_device_point_zs :: "real list option"
  m_device_point_as :: "real list option"
  m_device_control_xs :: "real list option"
  m_device_control_ys :: "real list option"
  m_device_control_zs :: "real list option"
  m_device_control_as :: "real list option"
  m_spline_degree :: int
  m_num_cs :: nat
  m_common_knots :: "real list"
  num_allocations :: nat

type_synonym 'a outcome = "(error + 'a) \<times> GpuAlgorithm"

text \<open>Fresh device or pinned host memory of \<open>n\<close> elements, the \<open>k\<close>-th resource created.\<close>

definition fresh_complex :: "platform \<Rightarrow> nat \<Rightarrow> nat \<Rightarrow> complex list" where
  "fresh_complex env k n = map (garbage_complex env k) [0..<n]"

definition fresh_float :: "platform \<Rightarrow> nat \<Rightarrow> nat \<Rightarrow> real list" where
  "fresh_float env k n = map (garbage_float env k) [0..<n]"

subsection \<open>Library functions\<close>

text \<open>
  \<^verbatim>\<open>std::stoi\<close>: skips leading white space, reads an optional sign and the longest run of
  decimal digits, throws \<^verbatim>\<open>std::invalid_argument\<close> when there is no digit and
  \<^verbatim>\<open>std::out_of_range\<close> when the value does not fit a 32-bit \<^verbatim>\<open>int\<close>.
\<close>

definition isspace :: "char \<Rightarrow> bool" where
  "isspace c = (c \<in> set [CHR '' '', CHR 0x09, CHR 0x0A, CHR 0x0B, CHR 0x0C, CHR 0x0D])"

definition isdigit :: "char \<Rightarrow> bool" where
  "isdigit c = (48 \<le> (of_char c :: nat) \<and> (of_char c :: nat) \<le> 57)"

definition digits_value :: "string \<Rightarrow> nat" where
  "digits_value ds = foldl (\<lambda>a c. 10 * a + ((of_char c :: nat) - 48)) 0 ds"

definition stoi :: "string \<Rightarrow> error + int" where
  "stoi str =
     (let s1 = dropWhile isspace str;
          neg = (case s1 of [] \<Rightarrow> False | c # _ \<Rightarrow> c = CHR ''-'');
          s2 = (case s1 of [] \<Rightarrow> [] | c # r \<Rightarrow> if c = CHR ''-'' \<or> c = CHR ''+'' then r else s1);
          ds = takeWhile isdigit s2;
          v = (if neg then - int (digits_value ds) else int (digits_value ds))
      in if ds = [] then Inl (InvalidArgument ''stoi'')
         else if v < - 2147483648 \<or> 2147483647 < v then Inl (OutOfRange ''stoi'')
         else Inr v)"

text \<open>\<^verbatim>\<open>std::to_string\<close> on an \<^verbatim>\<open>int\<close>.\<close>

fun nat_to_string :: "nat \<Rightarrow> string" where
  "nat_to_string n =
     (if n < 10 then [char_of (48 + n)]
      else nat_to_string (n div 10) @ [char_of (48 + n mod 10)])"

definition to_string :: "int \<Rightarrow> string" where
  "to_string i = (if i < 0 then CHR ''-'' # nat_to_string (nat (- i)) else nat_to_string (nat i))"

text \<open>
  Modelled from the spec: \<^verbatim>\<open>round_up_div\<close> is defined in a header outside this translation
  unit; the block count is the scatterer count divided by the threads per block, rounded up.
\<close>

definition round_up_div :: "int \<Rightarrow> int \<Rightarrow> int" where
  "round_up_div num den = (num + den - 1) div den"


definition x_of :: "vector3 \<Rightarrow> real" where
  "x_of v = fst v"

definition y_of :: "vector3 \<Rightarrow> real" where
  "y_of v = fst (snd v)"

definition z_of :: "vector3 \<Rightarrow> real" where
  "z_of v = snd (snd v)"

subsection \<open>Device kernels and cuFFT\<close>

text \<open>
  Modelled from the spec: the kernels behind \<^verbatim>\<open>cuda_kernels_c_interface.h\<close> and the cuFFT
  library are not part of this translation unit. Each launch works on the first \<open>n\<close>
  elements of the buffer it is given and leaves the rest alone: the memset kernel stores a
  value, the multiply kernel multiplies elementwise with a second buffer, the scale kernel
  multiplies by a factor, the demodulation kernel multiplies elementwise by a complex
  exponential at the normalized angular frequency, a projection kernel accumulates the
  scatterers' contributions, and \<^verbatim>\<open>cufftExecC2C\<close> is the unnormalised discrete Fourier
  transform of the plan's length.
\<close>

definition on_first :: "nat \<Rightarrow> (nat \<Rightarrow> 'a \<Rightarrow> 'a) \<Rightarrow> 'a list \<Rightarrow> 'a list" where
  "on_first n g ptr = map (\<lambda>i. g i (ptr ! i)) [0..<n] @ drop n ptr"

definition launch_MemsetKernel :: "complex list \<Rightarrow> complex \<Rightarrow> nat \<Rightarrow> complex list" where
  "launch_MemsetKernel ptr v n = on_first n (\<lambda>i x. v) ptr"

definition launch_MultiplyFftKernel :: "complex list \<Rightarrow> complex list \<Rightarrow> nat \<Rightarrow> complex list" where
  "launch_MultiplyFftKernel time_proj_fft filter_fft n = on_first n (\<lambda>i x. x * filter_fft ! i) time_proj_fft"

definition launch_ScaleSignalKernel :: "complex list \<Rightarrow> real \<Rightarrow> nat \<Rightarrow> complex list" where
  "launch_ScaleSignalKernel ptr factor n = on_first n (\<lambda>i x. x * of_real factor) ptr"

definition launch_DemodulateKernel :: "complex list \<Rightarrow> real \<Rightarrow> nat \<Rightarrow> complex list" where
  "launch_DemodulateKernel ptr w n = on_first n (\<lambda>i x. x * cis (- w * real i)) ptr"

definition CUFFT_FORWARD :: real where
  "CUFFT_FORWARD = - 1"

definition CUFFT_INVERSE :: real where
  "CUFFT_INVERSE = 1"

definition cufftExecC2C :: "nat \<Rightarrow> complex list \<Rightarrow> real \<Rightarrow> complex list" where
  "cufftExecC2C n ptr direction =
     on_first n (\<lambda>k x. \<Sum>j<n. ptr ! j * cis (direction * 2 * pi * real j * real k / real n)) ptr"

definition launch_FixedAlgKernel ::
  "platform \<Rightarrow> bool \<Rightarrow> bool \<Rightarrow> bool \<Rightarrow> int \<Rightarrow> int \<Rightarrow> FixedAlgKernelParams \<Rightarrow> complex list \<Rightarrow> complex list" where
  "launch_FixedAlgKernel env A P L num_blocks threads params res =
     on_first (num_time_samples params) (\<lambda>i x. x + FixedAlgKernel env A P L num_blocks threads params i) res"

definition launch_SplineAlgKernel ::
  "platform \<Rightarrow> bool \<Rightarrow> bool \<Rightarrow> bool \<Rightarrow> int \<Rightarrow> int \<Rightarrow> SplineAlgKernelParams \<Rightarrow> complex list \<Rightarrow> complex list" where
  "launch_SplineAlgKernel env A P L num_blocks threads params res =
     on_first (num_time_samples params) (\<lambda>i x. x + SplineAlgKernel env A P L num_blocks threads params i) res"

subsection \<open>Construction, parameters, streams\<close>

definition get_num_cuda_devices :: "platform \<Rightarrow> int" where
  "get_num_cuda_devices env = cudaGetDeviceCount env"

definition save_cuda_device_properties :: "platform \<Rightarrow> GpuAlgorithm \<Rightarrow> unit outcome" where
  "save_cuda_device_properties env s =
     (let num_devices = get_num_cuda_devices env in
      if m_param_cuda_device_no s < 0 \<or> m_param_cuda_device_no s \<ge> num_devices
      then (Inl (RuntimeError ''illegal CUDA device number''), s)
      else (Inr (), s\<lparr>m_cur_device_prop := cudaGetDeviceProperties env (m_param_cuda_device_no s)\<rparr>))"

definition create_dummy_lut_profile :: "GpuAlgorithm \<Rightarrow> GpuAlgorithm" where
  "create_dummy_lut_profile s =
     (let n = 16 :: nat;
          dummy_samples = replicate (n * n * n) (0 :: real)
      in s\<lparr>m_device_beam_profile :=
              Some \<lparr>table_extent = (int n, int n, int n), table_samples = dummy_samples\<rparr>,
            num_allocations := num_allocations s + 1\<rparr>)"

text \<open>
  The constructor. \<open>init\<close> supplies the members that the initialiser list leaves to the base
  class or leaves uninitialised; smart pointers and vectors start out empty.
\<close>

definition GpuAlgorithm_ctor :: "platform \<Rightarrow> GpuAlgorithm \<Rightarrow> unit outcome" where
  "GpuAlgorithm_ctor env init =
     (let s = init\<lparr>m_param_cuda_device_no := 0,
                   m_can_change_cuda_device := True,
                   m_param_num_cuda_streams := 2,
                   m_num_time_samples := 8192,
                   m_num_beams_allocated := - 1,
                   m_param_threads_per_block := 128,
                   m_store_kernel_details := False,
                   m_num_fixed_scatterers := 0,
                   m_num_spline_scatterers := 0,
                   m_stream_wrappers := [],
                   m_debug_data := (\<lambda>k. []),
                   m_scan_seq := None,
                   m_device_time_proj := [],
                   m_host_rf_lines := [],
                   m_device_excitation_fft := None,
                   m_fft_plan := None,
                   m_device_beam_profile := None,
                   m_device_point_xs := None, m_device_point_ys := None,
                   m_device_point_zs := None, m_device_point_as := None,
                   m_device_control_xs := None, m_device_control_ys := None,
                   m_device_control_zs := None, m_device_control_as := None,
                   m_common_knots := [],
                   num_allocations := 0\<rparr>
      in case save_cuda_device_properties env s of
           (Inl e, s') \<Rightarrow> (Inl e, s')
         | (Inr u, s') \<Rightarrow> (Inr (), create_dummy_lut_profile s'))"

definition set_parameter :: "platform \<Rightarrow> string \<Rightarrow> string \<Rightarrow> GpuAlgorithm \<Rightarrow> unit outcome" where
  "set_parameter env key val s =
     (if key = ''gpu_device'' then
        (if \<not> m_can_change_cuda_device s
         then (Inl (RuntimeError ''cannot change CUDA device now''), s)
         else let device_count = get_num_cuda_devices env in
           case stoi val of
             Inl e \<Rightarrow> (Inl e, s)
           | Inr device_no \<Rightarrow>
               if device_no < 0 \<or> device_no \<ge> device_count
               then (Inl (RuntimeError ''illegal device number''), s)
               else save_cuda_device_properties env (s\<lparr>m_param_cuda_device_no := device_no\<rparr>))
      else if key = ''cuda_streams'' then
        (case stoi val of
           Inl e \<Rightarrow> (Inl e, s)
         | Inr num_streams \<Rightarrow>
             if num_streams > MAX_NUM_CUDA_STREAMS env
             then (Inl (RuntimeError ''number of CUDA streams exceeds MAX_NUM_CUDA_STREAMS''), s)
             else if num_streams \<le> 0
             then (Inl (RuntimeError ''number of CUDA streams must be more than zero''), s)
             else (Inr (), s\<lparr>m_param_num_cuda_streams := nat num_streams\<rparr>))
      else if key = ''threads_per_block'' then
        (case stoi val of
           Inl e \<Rightarrow> (Inl e, s)
         | Inr threads_per_block \<Rightarrow>
             if threads_per_block \<le> 0
             then (Inl (RuntimeError ''invalid number of threads per block''), s)
             else (Inr (), s\<lparr>m_param_threads_per_block := threads_per_block\<rparr>))
      else if key = ''noise_amplitude'' then
        (Inl (RuntimeError ''noise is not yet implemented in GPU algorithms''), s)
      else if key = ''store_kernel_details'' then
        (if val = ''on'' \<or> val = ''true'' then (Inr (), s\<lparr>m_store_kernel_details := True\<rparr>)
         else if val = ''off'' \<or> val = ''false'' then (Inr (), s\<lparr>m_store_kernel_details := False\<rparr>)
         else (Inl (RuntimeError ''invalid value''), s))
      else
        (case BaseAlgorithm_set_parameter env key val (base s) of
           (r, b) \<Rightarrow> (r, s\<lparr>base := b\<rparr>)))"

text \<open>A stream handle is the serial number of its creation.\<close>

definition create_cuda_stream_wrappers :: "nat \<Rightarrow> GpuAlgorithm \<Rightarrow> GpuAlgorithm" where
  "create_cuda_stream_wrappers num_streams s =
     s\<lparr>m_stream_wrappers := map (\<lambda>i. num_allocations s + i) [0..<num_streams],
       num_allocations := num_allocations s + num_streams,
       m_can_change_cuda_device := False\<rparr>"

subsection \<open>Excitation, scan sequence, beam profile\<close>

definition set_excitation :: "platform \<Rightarrow> ExcitationSignal \<Rightarrow> GpuAlgorithm \<Rightarrow> unit outcome" where
  "set_excitation env new_excitation s0 =
     (let s1 = s0\<lparr>m_can_change_cuda_device := False\<rparr>;
          s2 = s1\<lparr>m_excitation := new_excitation\<rparr>;
          n = m_num_time_samples s2;
          s3 = s2\<lparr>m_device_excitation_fft := Some (fresh_complex env (num_allocations s2) n),
                  num_allocations := num_allocations s2 + 1\<rparr>
      in if n < length (samples (m_excitation s3))
         then (Inl (UndefinedBehaviour ''temp[i] out of range''), s3)
         else
           let temp = map (\<lambda>v. Complex v 0) (samples (m_excitation s3))
                      @ replicate (n - length (samples (m_excitation s3))) 0;
               s4 = s3\<lparr>m_device_excitation_fft := Some temp\<rparr>;
               s5 = s4\<lparr>m_fft_plan := Some n, num_allocations := num_allocations s4 + 1\<rparr>;
               s6 = s5\<lparr>m_device_excitation_fft := Some (cufftExecC2C n temp CUFFT_FORWARD)\<rparr>;
               mask = discrete_hilbert_mask env n;
               s7 = s6\<lparr>num_allocations := num_allocations s6 + 1\<rparr>
           in if length mask < n
              then (Inl (UndefinedBehaviour ''mask.data() read out of range''), s7)
              else
                let device_hilbert_mask = take n mask;
                    scaled = launch_ScaleSignalKernel (cufftExecC2C n temp CUFFT_FORWARD) (1 / real n) n;
                    masked = launch_MultiplyFftKernel scaled device_hilbert_mask n
                in (Inr (), s7\<lparr>m_device_excitation_fft := Some masked\<rparr>))"

definition set_scan_sequence :: "platform \<Rightarrow> ScanSequence \<Rightarrow> GpuAlgorithm \<Rightarrow> unit outcome" where
  "set_scan_sequence env new_scan_sequence s0 =
     (let s1 = s0\<lparr>m_can_change_cuda_device := False\<rparr>;
          s2 = s1\<lparr>m_scan_seq := Some new_scan_sequence\<rparr>;
          num_rf_samples = compute_num_rf_samples env (m_param_sound_speed (base s2))
                             (line_length new_scan_sequence)
                             (sampling_frequency (m_excitation s2))
      in if num_rf_samples > m_num_time_samples s2
         then (Inl (RuntimeError ''Too many RF samples required. TODO: remove limitation''), s2)
         else
           let num_beams = nat (get_num_lines new_scan_sequence) in
           if m_num_beams_allocated s2 < int num_beams
           then
             let k = num_allocations s2;
                 ns = m_param_num_cuda_streams s2;
                 n = m_num_time_samples s2
             in (Inr (),
                 s2\<lparr>m_device_time_proj := map (\<lambda>i. fresh_complex env (k + i) n) [0..<ns],
                    m_host_rf_lines := map (\<lambda>beam_no. fresh_complex env (k + ns + beam_no) n) [0..<num_beams],
                    num_allocations := k + ns + num_beams,
                    m_num_beams_allocated := int num_beams\<rparr>)
           else (Inr (), s2))"

definition set_analytical_profile :: "IBeamProfile \<Rightarrow> GpuAlgorithm \<Rightarrow> unit outcome" where
  "set_analytical_profile beam_profile s =
     (case beam_profile of
        GaussianBeamProfile sigma_lat sigma_ele \<Rightarrow>
          (Inr (), s\<lparr>m_cur_beam_profile_type := ANALYTICAL,
                     m_analytical_sigma_lat := sigma_lat,
                     m_analytical_sigma_ele := sigma_ele\<rparr>)
      | _ \<Rightarrow> (Inl (RuntimeError ''GpuAlgorithm: failed to cast beam profile''), s))"

text \<open>
  The three nested loops of \<^verbatim>\<open>set_lookup_profile\<close>: \<open>zi\<close> outermost, \<open>yi\<close> in the middle,
  \<open>xi\<close> innermost, one \<^verbatim>\<open>push_back\<close> per iteration. Integer counts are converted to
  \<^verbatim>\<open>float\<close> by the arithmetic; a count of one divides by zero, which gives a NaN or an
  infinity in the program and has no counterpart here.
\<close>

definition lut_sample :: "LUTBeamProfile \<Rightarrow> nat \<Rightarrow> nat \<Rightarrow> nat \<Rightarrow> real" where
  "lut_sample p zi yi xi =
     (let r_range = getRangeRange p;
          l_range = getLateralRange p;
          e_range = getElevationalRange p;
          x = first l_range + real xi * (last l_range - first l_range)
                / real_of_int (getNumSamplesLateral p - 1);
          y = first e_range + real yi * (last e_range - first e_range)
                / real_of_int (getNumSamplesElevational p - 1);
          z = first r_range + real zi * (last r_range - first r_range)
                / real_of_int (getNumSamplesRadial p - 1)
      in sampleProfile p z x y)"

definition lut_temp_samples :: "LUTBeamProfile \<Rightarrow> real list" where
  "lut_temp_samples p =
     concat (map (\<lambda>zi.
       concat (map (\<lambda>yi.
         map (\<lambda>xi. lut_sample p zi yi xi) [0..<nat (getNumSamplesElevational p)])
       [0..<nat (getNumSamplesLateral p)]))
     [0..<nat (getNumSamplesRadial p)])"

text \<open>The values of a 32-bit \<^verbatim>\<open>int\<close>.\<close>

definition fits_int :: "int \<Rightarrow> bool" where
  "fits_int v \<longleftrightarrow> - 2147483648 \<le> v \<and> v \<le> 2147483647"

text \<open>
  \<^verbatim>\<open>set_lookup_profile\<close>. The profile type is set to \<^verbatim>\<open>LOOKUP\<close> first. The sample count
  \<^verbatim>\<open>total\<close> is the product of the three \<^verbatim>\<open>int\<close> counts, evaluated from the left: a product
  that leaves the range of \<^verbatim>\<open>int\<close> is undefined behaviour. \<^verbatim>\<open>temp_samples.reserve(total)\<close>
  converts \<^verbatim>\<open>total\<close> to \<^verbatim>\<open>size_t\<close>: a negative \<^verbatim>\<open>total\<close> becomes a size beyond
  \<^verbatim>\<open>max_size()\<close>, and \<^verbatim>\<open>reserve\<close> throws \<^verbatim>\<open>std::length_error\<close>. Memory is taken to be
  available for every other \<^verbatim>\<open>total\<close>, as for every other allocation of this file, and the
  constructor of \<^verbatim>\<open>DeviceBeamProfileRAII\<close>, which is declared elsewhere, to keep the extent
  and the samples it is given.
\<close>

definition set_lookup_profile :: "IBeamProfile \<Rightarrow> GpuAlgorithm \<Rightarrow> unit outcome" where
  "set_lookup_profile beam_profile s =
     (case beam_profile of
        LUTProfile lut_beam_profile \<Rightarrow>
          (let s1 = s\<lparr>m_cur_beam_profile_type := LOOKUP\<rparr>;
               num_samples_rad = getNumSamplesRadial lut_beam_profile;
               num_samples_lat = getNumSamplesLateral lut_beam_profile;
               num_samples_ele = getNumSamplesElevational lut_beam_profile;
               r_range = getRangeRange lut_beam_profile;
               l_range = getLateralRange lut_beam_profile;
               e_range = getElevationalRange lut_beam_profile
           in if \<not> fits_int (num_samples_rad * num_samples_lat)
                 \<or> \<not> fits_int (num_samples_rad * num_samples_lat * num_samples_ele)
              then (Inl (UndefinedBehaviour ''signed integer overflow''), s1)
              else
                let total = num_samples_rad * num_samples_lat * num_samples_ele in
                if total < 0
                then (Inl (LengthError ''vector::reserve''), s1)
                else
                  let temp_samples = lut_temp_samples lut_beam_profile
                  in (Inr (),
                      s1\<lparr>m_device_beam_profile :=
                            Some \<lparr>table_extent = (num_samples_lat, num_samples_ele, num_samples_rad),
                                  table_samples = temp_samples\<rparr>,
                         num_allocations := num_allocations s1 + 1,
                         m_lut_extent := \<lparr>r_min = first r_range, r_max = last r_range,
                                          l_min = first l_range, l_max = last l_range,
                                          e_min = first e_range, e_max = last e_range\<rparr>\<rparr>))
      | _ \<Rightarrow> (Inl (RuntimeError ''GpuAlgorithm: failed to cast beam profile''), s))"


subsection \<open>Scatterers\<close>

definition clear_fixed_scatterers :: "GpuAlgorithm \<Rightarrow> unit outcome" where
  "clear_fixed_scatterers s = (Inr (), s\<lparr>m_num_fixed_scatterers := 0\<rparr>)"

definition clear_spline_scatterers :: "GpuAlgorithm \<Rightarrow> unit outcome" where
  "clear_spline_scatterers s = (Inr (), s\<lparr>m_num_spline_scatterers := 0\<rparr>)"

definition same_num_bytes :: "real list option \<Rightarrow> nat \<Rightarrow> bool" where
  "same_num_bytes b n = (case b of None \<Rightarrow> False | Some d \<Rightarrow> length d = n)"

definition copy_scatterers_to_device_fixed ::
  "platform \<Rightarrow> FixedScatterers \<Rightarrow> GpuAlgorithm \<Rightarrow> unit outcome" where
  "copy_scatterers_to_device_fixed env sc s0 =
     (let s1 = s0\<lparr>m_can_change_cuda_device := False\<rparr>;
          n = num_scatterers_fixed sc;
          s2 = s1\<lparr>num_allocations := num_allocations s1 + 1\<rparr>;
          reallocate_device_mem =
            (\<not> (same_num_bytes (m_device_point_xs s2) n \<and> same_num_bytes (m_device_point_ys s2) n
                \<and> same_num_bytes (m_device_point_zs s2) n \<and> same_num_bytes (m_device_point_as s2) n));
          k = num_allocations s2;
          s3 = (if reallocate_device_mem
                then s2\<lparr>m_device_point_xs := Some (fresh_float env k n),
                        m_device_point_ys := Some (fresh_float env (k + 1) n),
                        m_device_point_zs := Some (fresh_float env (k + 2) n),
                        m_device_point_as := Some (fresh_float env (k + 3) n),
                        num_allocations := k + 4\<rparr>
                else s2);
          s4 = s3\<lparr>m_device_point_xs := Some (map (\<lambda>p. x_of (pos p)) (scatterers sc))\<rparr>;
          s5 = s4\<lparr>m_device_point_ys := Some (map (\<lambda>p. y_of (pos p)) (scatterers sc))\<rparr>;
          s6 = s5\<lparr>m_device_point_zs := Some (map (\<lambda>p. z_of (pos p)) (scatterers sc))\<rparr>;
          s7 = s6\<lparr>m_device_point_as := Some (map amplitude (scatterers sc))\<rparr>
      in (Inr (), s7\<lparr>m_num_fixed_scatterers := n\<rparr>))"

definition add_fixed_scatterers :: "platform \<Rightarrow> FixedScatterers \<Rightarrow> GpuAlgorithm \<Rightarrow> unit outcome" where
  "add_fixed_scatterers env fixed_scatterers s = copy_scatterers_to_device_fixed env fixed_scatterers s"

text \<open>
  The reorganising loops of the spline upload. The inner loop runs over the control-point
  indices \<open>i\<close> of scatterer \<open>spline_no\<close> and stores at \<open>offset = spline_no + i * n\<close>; the outer
  loop runs over the scatterers and stores the amplitude first.
\<close>

fun reorganize_inner ::
  "vector3 list \<Rightarrow> nat \<Rightarrow> nat \<Rightarrow> nat list \<Rightarrow> real list \<times> real list \<times> real list
     \<Rightarrow> error + real list \<times> real list \<times> real list" where
  "reorganize_inner cps spline_no n [] acc = Inr acc"
| "reorganize_inner cps spline_no n (i # rest) (xs, ys, zs) =
     (let offset = spline_no + i * n in
      if i < length cps
      then reorganize_inner cps spline_no n rest
             (xs[offset := x_of (cps ! i)], ys[offset := y_of (cps ! i)], zs[offset := z_of (cps ! i)])
      else Inl (UndefinedBehaviour ''control_points[spline_no][i] out of range''))"

fun reorganize_outer ::
  "SplineScatterers \<Rightarrow> nat \<Rightarrow> nat \<Rightarrow> nat list \<Rightarrow> real list \<times> real list \<times> real list \<times> real list
     \<Rightarrow> error + real list \<times> real list \<times> real list \<times> real list" where
  "reorganize_outer sc n num_cs [] acc = Inr acc"
| "reorganize_outer sc n num_cs (spline_no # rest) (as, xs, ys, zs) =
     (if spline_no < length (amplitudes sc) \<and> spline_no < length (control_points sc)
      then (case reorganize_inner (control_points sc ! spline_no) spline_no n [0..<num_cs] (xs, ys, zs) of
              Inl e \<Rightarrow> Inl e
            | Inr (xs', ys', zs') \<Rightarrow>
                reorganize_outer sc n num_cs rest (as[spline_no := amplitudes sc ! spline_no], xs', ys', zs'))
      else Inl (UndefinedBehaviour ''amplitudes[spline_no] out of range''))"

definition copy_scatterers_to_device_spline ::
  "platform \<Rightarrow> SplineScatterers \<Rightarrow> GpuAlgorithm \<Rightarrow> unit outcome" where
  "copy_scatterers_to_device_spline env sc s0 =
     (let s1 = s0\<lparr>m_can_change_cuda_device := False\<rparr>;
          s2 = s1\<lparr>m_num_spline_scatterers := num_scatterers sc\<rparr>
      in if m_num_spline_scatterers s2 = 0
         then (Inl (RuntimeError ''No scatterers''), s2)
         else
           let s3 = s2\<lparr>m_spline_degree := spline_degree sc\<rparr>;
               s4 = s3\<lparr>m_num_cs := get_num_control_points sc\<rparr>
           in if m_spline_degree s4 > MAX_SPLINE_DEGREE env
              then (Inl (RuntimeError (''maximum spline degree supported is ''
                            @ to_string (MAX_SPLINE_DEGREE env))), s4)
              else
                let n = m_num_spline_scatterers s4;
                    total_num_cs = n * m_num_cs s4;
                    k = num_allocations s4;
                    s5 = s4\<lparr>m_device_control_xs := Some (fresh_float env k total_num_cs),
                            m_device_control_ys := Some (fresh_float env (k + 1) total_num_cs),
                            m_device_control_zs := Some (fresh_float env (k + 2) total_num_cs),
                            m_device_control_as := Some (fresh_float env (k + 3) n),
                            num_allocations := k + 4\<rparr>;
                    host_control_xs = replicate total_num_cs 0;
                    host_control_ys = replicate total_num_cs 0;
                    host_control_zs = replicate total_num_cs 0;
                    host_control_as = replicate n 0
                in case reorganize_outer sc n (m_num_cs s5) [0..<n]
                          (host_control_as, host_control_xs, host_control_ys, host_control_zs) of
                     Inl e \<Rightarrow> (Inl e, s5)
                   | Inr (as, xs, ys, zs) \<Rightarrow>
                       (Inr (), s5\<lparr>m_device_control_xs := Some xs,
                                   m_device_control_ys := Some ys,
                                   m_device_control_zs := Some zs,
                                   m_device_control_as := Some as,
                                   m_common_knots := knot_vector sc\<rparr>))"

definition add_spline_scatterers :: "platform \<Rightarrow> SplineScatterers \<Rightarrow> GpuAlgorithm \<Rightarrow> unit outcome" where
  "add_spline_scatterers env spline_scatterers s = copy_scatterers_to_device_spline env spline_scatterers s"

subsection \<open>Projection kernel dispatch\<close>

definition upd_time_proj :: "nat \<Rightarrow> (complex list \<Rightarrow> complex list) \<Rightarrow> GpuAlgorithm \<Rightarrow> GpuAlgorithm" where
  "upd_time_proj stream_no f s =
     s\<lparr>m_device_time_proj := (m_device_time_proj s)[stream_no := f (m_device_time_proj s ! stream_no)]\<rparr>"

text \<open>
  The struct of kernel arguments that each dispatch function fills in before the launch.
\<close>

definition fixed_kernel_params ::
  "Scanline \<Rightarrow> real list \<Rightarrow> real list \<Rightarrow> real list \<Rightarrow> real list \<Rightarrow> DeviceBeamProfile
     \<Rightarrow> GpuAlgorithm \<Rightarrow> FixedAlgKernelParams" where
  "fixed_kernel_params scanline xs ys zs as tex s =
     \<lparr>rad_dir = get_direction scanline,
      lat_dir = get_lateral_dir scanline,
      ele_dir = get_elevational_dir scanline,
      origin = get_origin scanline,
      fs_hertz = sampling_frequency (m_excitation s),
      num_time_samples = m_num_time_samples s,
      sigma_lateral = m_analytical_sigma_lat s,
      sigma_elevational = m_analytical_sigma_ele s,
      sound_speed = m_param_sound_speed (base s),
      demod_freq_param = demod_freq (m_excitation s),
      lut_tex = tex,
      lut = m_lut_extent s,
      point_xs = xs, point_ys = ys, point_zs = zs, point_as = as,
      num_scatterers_param = m_num_fixed_scatterers s\<rparr>"

definition spline_kernel_params ::
  "Scanline \<Rightarrow> real list \<Rightarrow> real list \<Rightarrow> real list \<Rightarrow> real list \<Rightarrow> DeviceBeamProfile
     \<Rightarrow> int \<Rightarrow> int \<Rightarrow> nat \<Rightarrow> real list \<Rightarrow> GpuAlgorithm \<Rightarrow> SplineAlgKernelParams" where
  "spline_kernel_params scanline xs ys zs as tex idx_start idx_end offset_elements basis s =
     \<lparr>rad_dir = get_direction scanline,
      lat_dir = get_lateral_dir scanline,
      ele_dir = get_elevational_dir scanline,
      origin = get_origin scanline,
      fs_hertz = sampling_frequency (m_excitation s),
      num_time_samples = m_num_time_samples s,
      sigma_lateral = m_analytical_sigma_lat s,
      sigma_elevational = m_analytical_sigma_ele s,
      sound_speed = m_param_sound_speed (base s),
      demod_freq_param = demod_freq (m_excitation s),
      lut_tex = tex,
      lut = m_lut_extent s,
      control_xs = xs, control_ys = ys, control_zs = zs, control_as = as,
      cs_idx_start = idx_start, cs_idx_end = idx_end,
      NUM_SPLINES = m_num_spline_scatterers s,
      eval_basis_offset_elements = offset_elements,
      eval_basis = basis\<rparr>"

definition fixed_projection_kernel ::
  "platform \<Rightarrow> nat \<Rightarrow> Scanline \<Rightarrow> int \<Rightarrow> GpuAlgorithm \<Rightarrow> unit outcome" where
  "fixed_projection_kernel env stream_no scanline num_blocks s =
     (if length (m_stream_wrappers s) \<le> stream_no \<or> length (m_device_time_proj s) \<le> stream_no
      then (Inl (UndefinedBehaviour ''stream_no out of range''), s)
      else case (m_device_point_xs s, m_device_point_ys s, m_device_point_zs s, m_device_point_as s,
                 m_device_beam_profile s) of
        (Some xs, Some ys, Some zs, Some as, Some tex) \<Rightarrow>
          (let params = fixed_kernel_params scanline xs ys zs as tex s;
               A = m_param_use_arc_projection (base s);
               P = m_enable_phase_delay (base s);
               threads = m_param_threads_per_block s;
               launch = (\<lambda>a p l. (Inr (), upd_time_proj stream_no
                                     (launch_FixedAlgKernel env a p l num_blocks threads params) s))
           in case m_cur_beam_profile_type s of
                NOT_CONFIGURED \<Rightarrow> (Inl (LogicError ''unknown beam profile type''), s)
              | ANALYTICAL \<Rightarrow>
                  (if \<not> A \<and> \<not> P \<and> \<not> False then launch False False False
                   else if \<not> A \<and> \<not> P \<and> False then launch False False True
                   else if \<not> A \<and> P \<and> \<not> False then launch False True False
                   else if \<not> A \<and> P \<and> False then launch False True True
                   else if A \<and> \<not> P \<and> \<not> False then launch True False False
                   else if A \<and> \<not> P \<and> False then launch True False True
                   else if A \<and> P \<and> \<not> False then launch True True False
                   else if A \<and> P \<and> False then launch True True True
                   else (Inl (LogicError ''this should never happen''), s))
              | LOOKUP \<Rightarrow>
                  (if \<not> A \<and> \<not> P \<and> \<not> True then launch False False False
                   else if \<not> A \<and> \<not> P \<and> True then launch False False True
                   else if \<not> A \<and> P \<and> \<not> True then launch False True False
                   else if \<not> A \<and> P \<and> True then launch False True True
                   else if A \<and> \<not> P \<and> \<not> True then launch True False False
                   else if A \<and> \<not> P \<and> True then launch True False True
                   else if A \<and> P \<and> \<not> True then launch True True False
                   else if A \<and> P \<and> True then launch True True True
                   else (Inl (LogicError ''this should never happen''), s)))
      | _ \<Rightarrow> (Inl (UndefinedBehaviour ''null device buffer''), s))"

definition spline_projection_kernel ::
  "platform \<Rightarrow> nat \<Rightarrow> Scanline \<Rightarrow> int \<Rightarrow> GpuAlgorithm \<Rightarrow> unit outcome" where
  "spline_projection_kernel env stream_no scanline num_blocks s =
     (if length (m_stream_wrappers s) \<le> stream_no \<or> length (m_device_time_proj s) \<le> stream_no
      then (Inl (UndefinedBehaviour ''stream_no out of range''), s)
      else
        let num_nonzero = m_spline_degree s + 1;
            offset_elements = nat ((num_nonzero * int stream_no) mod 2 ^ 64);
            host_basis_functions =
              map (\<lambda>i. bsplineBasis env i (m_spline_degree s) (get_timestamp scanline) (m_common_knots s))
                  [0..<m_num_cs s];
            idx = get_lower_upper_inds env (m_common_knots s) (get_timestamp scanline) (m_spline_degree s);
            idx_start = fst idx;
            idx_end = snd idx
        in if \<not> sanity_check_spline_lower_upper_bound env host_basis_functions idx_start idx_end
           then (Inl (RuntimeError ''b-spline basis bounds failed sanity check''), s)
           else if idx_end - idx_start + 1 \<noteq> num_nonzero
           then (Inl (LogicError ''illegal number of non-zero basis functions''), s)
           else if idx_start < 0 \<or> num_nonzero < 0 \<or> int (m_num_cs s) < idx_start + num_nonzero
           then (Inl (UndefinedBehaviour ''host_basis_functions read out of range''), s)
           else
             let basis = take (nat num_nonzero) (drop (nat idx_start) host_basis_functions) in
             if \<not> splineAlg2_updateConstantMemory env basis offset_elements
             then (Inl (RuntimeError ''Failed to copy to symbol memory''), s)
             else case (m_device_control_xs s, m_device_control_ys s, m_device_control_zs s,
                        m_device_control_as s, m_device_beam_profile s) of
               (Some xs, Some ys, Some zs, Some as, Some tex) \<Rightarrow>
                 (let params = spline_kernel_params scanline xs ys zs as tex idx_start idx_end offset_elements basis s;
                      A = m_param_use_arc_projection (base s);
                      P = m_enable_phase_delay (base s);
                      threads = m_param_threads_per_block s;
                      launch = (\<lambda>a p l. (Inr (), upd_time_proj stream_no
                                            (launch_SplineAlgKernel env a p l num_blocks threads params) s))
                  in case m_cur_beam_profile_type s of
                       NOT_CONFIGURED \<Rightarrow>
                         (Inl (LogicError ''spline_projection_kernel(): unknown beam profile type''), s)
                     | ANALYTICAL \<Rightarrow>
                         (if \<not> A \<and> \<not> P \<and> \<not> False then launch False False False
                          else if \<not> A \<and> \<not> P \<and> False then launch False False True
                          else if \<not> A \<and> P \<and> \<not> False then launch False True False
                          else if \<not> A \<and> P \<and> False then launch False True True
                          else if A \<and> \<not> P \<and> \<not> False then launch True False False
                          else if A \<and> \<not> P \<and> False then launch True False True
                          else if A \<and> P \<and> \<not> False then launch True True False
                          else if A \<and> P \<and> False then launch True True True
                          else (Inl (LogicError ''this should never happen''), s))
                     | LOOKUP \<Rightarrow>
                         (if \<not> A \<and> \<not> P \<and> \<not> True then launch False False False
                          else if \<not> A \<and> \<not> P \<and> True then launch False False True
                          else if \<not> A \<and> P \<and> \<not> True then launch False True False
                          else if \<not> A \<and> P \<and> True then launch False True True
                          else if A \<and> \<not> P \<and> \<not> True then launch True False False
                          else if A \<and> \<not> P \<and> True then launch True False True
                          else if A \<and> P \<and> \<not> True then launch True True False
                          else if A \<and> P \<and> True then launch True True True
                          else (Inl (LogicError ''this should never happen''), s)))
             | _ \<Rightarrow> (Inl (UndefinedBehaviour ''null device buffer''), s))"


subsection \<open>simulate_lines\<close>

text \<open>
  The body of the loop over the beams is a chain of steps, each of which may throw;
  \<open>and_then\<close> runs the next step on the state the previous one returned. The readings of
  the event timer are an argument: \<open>timer beam_no key\<close> is the time pushed under \<open>key\<close>
  while beam \<open>beam_no\<close> is processed.
\<close>

definition and_then :: "unit outcome \<Rightarrow> (GpuAlgorithm \<Rightarrow> 'a outcome) \<Rightarrow> 'a outcome" where
  "and_then r f = (case r of (Inl e, s) \<Rightarrow> (Inl e, s) | (Inr u, s) \<Rightarrow> f s)"

definition push_debug :: "string \<Rightarrow> real \<Rightarrow> GpuAlgorithm \<Rightarrow> GpuAlgorithm" where
  "push_debug key v s = s\<lparr>m_debug_data := (m_debug_data s)(key := m_debug_data s key @ [v])\<rparr>"

definition timed :: "(nat \<Rightarrow> string \<Rightarrow> real) \<Rightarrow> nat \<Rightarrow> string \<Rightarrow> GpuAlgorithm \<Rightarrow> GpuAlgorithm" where
  "timed timer beam_no key s =
     (if m_store_kernel_details s then push_debug key (timer beam_no key) s else s)"

definition beam_select :: "nat \<Rightarrow> GpuAlgorithm \<Rightarrow> unit outcome" where
  "beam_select beam_no s =
     (if m_param_num_cuda_streams s = 0
      then (Inl (UndefinedBehaviour ''modulo by zero''), s)
      else
        let stream_no = beam_no mod m_param_num_cuda_streams s in
        if length (m_stream_wrappers s) \<le> stream_no
        then (Inl (UndefinedBehaviour ''m_stream_wrappers[stream_no] out of range''), s)
        else
          let s1 = (if m_store_kernel_details s
                    then push_debug ''stream_numbers'' (real stream_no) s else s)
          in if length (m_device_time_proj s1) \<le> stream_no
             then (Inl (UndefinedBehaviour ''m_device_time_proj[stream_no] out of range''), s1)
             else if length (m_device_time_proj s1 ! stream_no) < m_num_time_samples s1
             then (Inl (UndefinedBehaviour ''kernel writes past the projection buffer''), s1)
             else (Inr (), s1))"

definition beam_memset :: "(nat \<Rightarrow> string \<Rightarrow> real) \<Rightarrow> nat \<Rightarrow> nat \<Rightarrow> GpuAlgorithm \<Rightarrow> unit outcome" where
  "beam_memset timer beam_no stream_no s =
     (let complex_zero = Complex 0 0 in
      (Inr (), timed timer beam_no ''kernel_memset_ms''
                 (upd_time_proj stream_no
                    (\<lambda>rf_ptr. launch_MemsetKernel rf_ptr complex_zero (m_num_time_samples s)) s)))"

definition beam_project_fixed ::
  "platform \<Rightarrow> (nat \<Rightarrow> string \<Rightarrow> real) \<Rightarrow> nat \<Rightarrow> nat \<Rightarrow> Scanline \<Rightarrow> int \<Rightarrow> GpuAlgorithm \<Rightarrow> unit outcome" where
  "beam_project_fixed env timer beam_no stream_no scanline num_blocks_fixed s =
     (if m_num_fixed_scatterers s > 0
      then and_then (fixed_projection_kernel env stream_no scanline num_blocks_fixed s)
             (\<lambda>s'. (Inr (), timed timer beam_no ''fixed_projection_kernel_ms'' s'))
      else (Inr (), s))"

definition beam_project_spline ::
  "platform \<Rightarrow> (nat \<Rightarrow> string \<Rightarrow> real) \<Rightarrow> nat \<Rightarrow> nat \<Rightarrow> Scanline \<Rightarrow> int \<Rightarrow> GpuAlgorithm \<Rightarrow> unit outcome" where
  "beam_project_spline env timer beam_no stream_no scanline num_blocks_spline s =
     (if m_num_spline_scatterers s > 0
      then and_then (spline_projection_kernel env stream_no scanline num_blocks_spline s)
             (\<lambda>s'. (Inr (), timed timer beam_no ''spline_projection_kernel_ms'' s'))
      else (Inr (), s))"

definition beam_fft ::
  "(nat \<Rightarrow> string \<Rightarrow> real) \<Rightarrow> nat \<Rightarrow> nat \<Rightarrow> real \<Rightarrow> string \<Rightarrow> GpuAlgorithm \<Rightarrow> unit outcome" where
  "beam_fft timer beam_no stream_no direction key s =
     (case m_fft_plan s of
        None \<Rightarrow> (Inl (UndefinedBehaviour ''m_fft_plan is null''), s)
      | Some plan \<Rightarrow>
          if length (m_device_time_proj s ! stream_no) < plan
          then (Inl (UndefinedBehaviour ''FFT past the projection buffer''), s)
          else (Inr (), timed timer beam_no key
                          (upd_time_proj stream_no (\<lambda>rf_ptr. cufftExecC2C plan rf_ptr direction) s)))"

definition beam_multiply :: "(nat \<Rightarrow> string \<Rightarrow> real) \<Rightarrow> nat \<Rightarrow> nat \<Rightarrow> GpuAlgorithm \<Rightarrow> unit outcome" where
  "beam_multiply timer beam_no stream_no s =
     (case m_device_excitation_fft s of
        None \<Rightarrow> (Inl (UndefinedBehaviour ''m_device_excitation_fft is null''), s)
      | Some excitation_fft \<Rightarrow>
          if length excitation_fft < m_num_time_samples s
          then (Inl (UndefinedBehaviour ''kernel reads past the excitation buffer''), s)
          else (Inr (), timed timer beam_no ''kernel_multiply_fft_ms''
                          (upd_time_proj stream_no
                             (\<lambda>rf_ptr. launch_MultiplyFftKernel rf_ptr excitation_fft (m_num_time_samples s)) s)))"

definition beam_demodulate :: "(nat \<Rightarrow> string \<Rightarrow> real) \<Rightarrow> nat \<Rightarrow> nat \<Rightarrow> GpuAlgorithm \<Rightarrow> unit outcome" where
  "beam_demodulate timer beam_no stream_no s =
     (let f_demod = demod_freq (m_excitation s);
          norm_f_demod = f_demod / sampling_frequency (m_excitation s);
          PI = 4 * arctan 1;
          normalized_angular_freq = 2 * PI * norm_f_demod
      in (Inr (), timed timer beam_no ''kernel_demodulate_ms''
                    (upd_time_proj stream_no
                       (\<lambda>rf_ptr. launch_DemodulateKernel rf_ptr normalized_angular_freq (m_num_time_samples s)) s)))"

definition beam_copy_to_host :: "(nat \<Rightarrow> string \<Rightarrow> real) \<Rightarrow> nat \<Rightarrow> nat \<Rightarrow> GpuAlgorithm \<Rightarrow> unit outcome" where
  "beam_copy_to_host timer beam_no stream_no s =
     (if length (m_host_rf_lines s) \<le> beam_no
      then (Inl (UndefinedBehaviour ''m_host_rf_lines[beam_no] out of range''), s)
      else if length (m_host_rf_lines s ! beam_no) < m_num_time_samples s
      then (Inl (UndefinedBehaviour ''copy past the host buffer''), s)
      else (Inr (), timed timer beam_no ''kernel_memcpy_ms''
                      (s\<lparr>m_host_rf_lines := (m_host_rf_lines s)
                            [beam_no := take (m_num_time_samples s) (m_device_time_proj s ! stream_no)
                                        @ drop (m_num_time_samples s) (m_host_rf_lines s ! beam_no)]\<rparr>)))"

definition process_beam ::
  "platform \<Rightarrow> (nat \<Rightarrow> string \<Rightarrow> real) \<Rightarrow> ScanSequence \<Rightarrow> int \<Rightarrow> int \<Rightarrow> nat \<Rightarrow> GpuAlgorithm \<Rightarrow> unit outcome" where
  "process_beam env timer seq num_blocks_fixed num_blocks_spline beam_no s =
     (let stream_no = beam_no mod m_param_num_cuda_streams s;
          scanline = scanlines seq ! beam_no
      in and_then (beam_select beam_no s)
        (\<lambda>s. and_then (beam_memset timer beam_no stream_no s)
        (\<lambda>s. and_then (beam_project_fixed env timer beam_no stream_no scanline num_blocks_fixed s)
        (\<lambda>s. and_then (beam_project_spline env timer beam_no stream_no scanline num_blocks_spline s)
        (\<lambda>s. and_then (beam_fft timer beam_no stream_no CUFFT_FORWARD ''kernel_forward_fft_ms'' s)
        (\<lambda>s. and_then (beam_multiply timer beam_no stream_no s)
        (\<lambda>s. and_then (beam_fft timer beam_no stream_no CUFFT_INVERSE ''kernel_inverse_fft_ms'' s)
        (\<lambda>s. and_then (beam_demodulate timer beam_no stream_no s)
        (\<lambda>s. beam_copy_to_host timer beam_no stream_no s)))))))))"

fun beam_loop ::
  "platform \<Rightarrow> (nat \<Rightarrow> string \<Rightarrow> real) \<Rightarrow> ScanSequence \<Rightarrow> int \<Rightarrow> int \<Rightarrow> nat list \<Rightarrow> GpuAlgorithm \<Rightarrow> unit outcome" where
  "beam_loop env timer seq nbf nbs [] s = (Inr (), s)"
| "beam_loop env timer seq nbf nbs (beam_no # rest) s =
     and_then (process_beam env timer seq nbf nbs beam_no s) (beam_loop env timer seq nbf nbs rest)"

text \<open>
  The inner loop of the output assembly: \<open>i\<close> runs from 0 in steps of the decimation factor
  while \<open>i < num_return_samples\<close>, and each round pushes the host sample at
  \<open>i + delay_compensation_num_samples\<close>. With a decimation factor of zero the loop does not
  end, which is \<open>None\<close> here.
\<close>

partial_function (option) collect_samples ::
  "complex list \<Rightarrow> nat \<Rightarrow> nat \<Rightarrow> nat \<Rightarrow> nat \<Rightarrow> complex list \<Rightarrow> (error + complex list) option" where
  "collect_samples host num_return_samples decimation delay i temp_samples =
     (if i < num_return_samples
      then (if i + delay < length host
            then collect_samples host num_return_samples decimation delay (i + decimation)
                   (temp_samples @ [host ! (i + delay)])
            else Some (Inl (UndefinedBehaviour ''host line read out of range'')))
      else Some (Inr temp_samples))"

fun assemble_lines ::
  "complex list list \<Rightarrow> nat \<Rightarrow> nat \<Rightarrow> nat \<Rightarrow> nat list \<Rightarrow> complex list list
     \<Rightarrow> (error + complex list list) option" where
  "assemble_lines hosts n decimation delay [] rf_lines = Some (Inr rf_lines)"
| "assemble_lines hosts n decimation delay (line_no # rest) rf_lines =
     (if length hosts \<le> line_no
      then Some (Inl (UndefinedBehaviour ''m_host_rf_lines[line_no] out of range''))
      else case collect_samples (hosts ! line_no) n decimation delay 0 [] of
             None \<Rightarrow> None
           | Some (Inl e) \<Rightarrow> Some (Inl e)
           | Some (Inr temp_samples) \<Rightarrow>
               assemble_lines hosts n decimation delay rest (rf_lines @ [temp_samples]))"

definition simulate_lines ::
  "platform \<Rightarrow> (nat \<Rightarrow> string \<Rightarrow> real) \<Rightarrow> GpuAlgorithm \<Rightarrow> (complex list list) outcome option" where
  "simulate_lines env timer s0 =
     (let s1 = s0\<lparr>m_can_change_cuda_device := False\<rparr>;
          s2 = (if length (m_stream_wrappers s1) = 0
                then create_cuda_stream_wrappers (m_param_num_cuda_streams s1) s1 else s1);
          s3 = (if m_store_kernel_details s2 then s2\<lparr>m_debug_data := (\<lambda>k. [])\<rparr> else s2)
      in case m_scan_seq s3 of
           None \<Rightarrow> Some (Inl (UndefinedBehaviour ''m_scan_seq is null''), s3)
         | Some seq \<Rightarrow>
             let num_lines = get_num_lines seq in
             if num_lines < 1
             then Some (Inl (RuntimeError ''No scanlines in scansequence''), s3)
             else if m_cur_beam_profile_type s3 = NOT_CONFIGURED
             then Some (Inl (RuntimeError ''No beam profile is configured''), s3)
             else
               let num_blocks_fixed =
                     round_up_div (int (m_num_fixed_scatterers s3)) (m_param_threads_per_block s3)
               in if num_blocks_fixed > maxGridSize0 (m_cur_device_prop s3)
                  then Some (Inl (RuntimeError
                    ''required number of x-blocks is larger than device supports (fixed scatterers)''), s3)
                  else
                    let num_blocks_spline =
                          round_up_div (int (m_num_spline_scatterers s3)) (m_param_threads_per_block s3)
                    in if num_blocks_spline > maxGridSize0 (m_cur_device_prop s3)
                       then Some (Inl (RuntimeError
                         ''required number of x-blocks is larger than device supports (spline scatterers)''), s3)
                       else
                         let delay_compensation_num_samples = center_index (m_excitation s3);
                             num_return_samples =
                               compute_num_rf_samples env (m_param_sound_speed (base s3))
                                 (line_length seq) (sampling_frequency (m_excitation s3))
                         in case beam_loop env timer seq num_blocks_fixed num_blocks_spline
                                   [0..<nat num_lines] s3 of
                              (Inl e, s4) \<Rightarrow> Some (Inl e, s4)
                            | (Inr u, s4) \<Rightarrow>
                                (case assemble_lines (m_host_rf_lines s4) num_return_samples
                                        (m_radial_decimation (base s4)) delay_compensation_num_samples
                                        [0..<nat num_lines] [] of
                                   None \<Rightarrow> None
                                 | Some (Inl e) \<Rightarrow> Some (Inl e, s4)
                                 | Some (Inr rf_lines) \<Rightarrow> Some (Inr rf_lines, s4)))"

subsection \<open>Sequences of calls\<close>

datatype operation =
    SetParameter string string
  | SimulateLines "nat \<Rightarrow> string \<Rightarrow> real"
  | SetExcitation ExcitationSignal
  | SetScanSequence ScanSequence
  | SetAnalyticalProfile IBeamProfile
  | SetLookupProfile IBeamProfile
  | ClearFixedScatterers
  | AddFixedScatterers FixedScatterers
  | ClearSplineScatterers
  | AddSplineScatterers SplineScatterers

definition call :: "platform \<Rightarrow> operation \<Rightarrow> GpuAlgorithm \<Rightarrow> GpuAlgorithm option" where
  "call env opn s =
     (case opn of
        SetParameter key val \<Rightarrow> Some (snd (set_parameter env key val s))
      | SimulateLines timer \<Rightarrow> map_option snd (simulate_lines env timer s)
      | SetExcitation e \<Rightarrow> Some (snd (set_excitation env e s))
      | SetScanSequence seq \<Rightarrow> Some (snd (set_scan_sequence env seq s))
      | SetAnalyticalProfile p \<Rightarrow> Some (snd (set_analytical_profile p s))
      | SetLookupProfile p \<Rightarrow> Some (snd (set_lookup_profile p s))
      | ClearFixedScatterers \<Rightarrow> Some (snd (clear_fixed_scatterers s))
      | AddFixedScatterers sc \<Rightarrow> Some (snd (add_fixed_scatterers env sc s))
      | ClearSplineScatterers \<Rightarrow> Some (snd (clear_spline_scatterers s))
      | AddSplineScatterers sc \<Rightarrow> Some (snd (add_spline_scatterers env sc s)))"

fun run :: "platform \<Rightarrow> operation list \<Rightarrow> GpuAlgorithm \<Rightarrow> GpuAlgorithm option" where
  "run env [] s = Some s"
| "run env (opn # rest) s = (case call env opn s of None \<Rightarrow> None | Some s' \<Rightarrow> run env rest s')"

subsection \<open>Example objects\<close>

definition example_platform :: platform where
  "example_platform =
     \<lparr>cudaGetDeviceCount = 2,
      cudaGetDeviceProperties = (\<lambda>d. \<lparr>maxGridSize0 = 65535\<rparr>),
      garbage_complex = (\<lambda>k i. Complex (real k + 1) (real i)),
      garbage_float = (\<lambda>k i. real (k + i) + 1),
      MAX_NUM_CUDA_STREAMS = 32,
      MAX_SPLINE_DEGREE = 4,
      compute_num_rf_samples = (\<lambda>c l f. nat \<lfloor>2 * l * f / c\<rfloor>),
      BaseAlgorithm_set_parameter = (\<lambda>key val b. (Inl (RuntimeError ''illegal parameter name''), b)),
      discrete_hilbert_mask = (\<lambda>n. map (\<lambda>i. if i = 0 then 1 else if 2 * i < n then 2 else 0) [0..<n]),
      FixedAlgKernel = (\<lambda>a p l nb th params i. Complex (real i) 1),
      SplineAlgKernel = (\<lambda>a p l nb th params i. Complex 1 (real i)),
      bsplineBasis = (\<lambda>i d t knots. 1),
      get_lower_upper_inds = (\<lambda>knots t d. (0, d)),
      sanity_check_spline_lower_upper_bound = (\<lambda>b lo hi. True),
      splineAlg2_updateConstantMemory = (\<lambda>b off. True)\<rparr>"

definition example_init :: GpuAlgorithm where
  "example_init =
     \<lparr>base = \<lparr>m_param_verbose = False, m_param_sound_speed = 1540, m_radial_decimation = 2,
              m_param_use_arc_projection = False, m_enable_phase_delay = False\<rparr>,
      m_param_cuda_device_no = 7,
      m_can_change_cuda_device = False,
      m_param_num_cuda_streams = 0,
      m_num_time_samples = 0,
      m_num_beams_allocated = 0,
      m_param_threads_per_block = 0,
      m_store_kernel_details = True,
      m_num_fixed_scatterers = 5,
      m_num_spline_scatterers = 5,
      m_cur_device_prop = \<lparr>maxGridSize0 = 0\<rparr>,
      m_stream_wrappers = [],
      m_debug_data = (\<lambda>k. []),
      m_scan_seq = None,
      m_excitation = \<lparr>samples = [], center_index = 0, sampling_frequency = 1, demod_freq = 0\<rparr>,
      m_cur_beam_profile_type = NOT_CONFIGURED,
      m_device_time_proj = [],
      m_host_rf_lines = [],
      m_device_excitation_fft = None,
      m_fft_plan = None,
      m_analytical_sigma_lat = 0,
      m_analytical_sigma_ele = 0,
      m_device_beam_profile = None,
      m_lut_extent = \<lparr>r_min = 0, r_max = 0, l_min = 0, l_max = 0, e_min = 0, e_max = 0\<rparr>,
      m_device_point_xs = None, m_device_point_ys = None,
      m_device_point_zs = None, m_device_point_as = None,
      m_device_control_xs = None, m_device_control_ys = None,
      m_device_control_zs = None, m_device_control_as = None,
      m_spline_degree = 0,
      m_num_cs = 0,
      m_common_knots = [],
      num_allocations = 0\<rparr>"

definition example_new :: GpuAlgorithm where
  "example_new = snd (GpuAlgorithm_ctor example_platform example_init)"

definition example_no_scatterers :: SplineScatterers where
  "example_no_scatterers = \<lparr>spline_degree = 3, knot_vector = [], control_points = [], amplitudes = []\<rparr>"

definition example_refused :: GpuAlgorithm where
  "example_refused = snd (add_spline_scatterers example_platform example_no_scatterers example_new)"

definition example_later :: GpuAlgorithm where
  "example_later = the (run example_platform
      [SetParameter ''cuda_streams'' ''1'', ClearFixedScatterers, SetAnalyticalProfile (GaussianBeamProfile 1 1)]
      example_refused)"

definition example_no_lines :: ScanSequence where
  "example_no_lines = \<lparr>scanlines = [], line_length = 0.077\<rparr>"

definition example_empty_sequence :: GpuAlgorithm where
  "example_empty_sequence = snd (set_scan_sequence example_platform example_no_lines example_new)"

definition example_excitation :: ExcitationSignal where
  "example_excitation =
     \<lparr>samples = [0, 1, 0, - 1, 0], center_index = 2, sampling_frequency = 1000000, demod_freq = 250000\<rparr>"

definition example_scanline :: "real \<Rightarrow> Scanline" where
  "example_scanline t =
     \<lparr>get_origin = (0, 0, 0), get_direction = (0, 0, 1), get_lateral_dir = (1, 0, 0),
      get_elevational_dir = (0, 1, 0), get_timestamp = t\<rparr>"

definition example_lines :: "nat \<Rightarrow> ScanSequence" where
  "example_lines n = \<lparr>scanlines = map (\<lambda>i. example_scanline (real i)) [0..<n], line_length = 0.077\<rparr>"

definition example_excited :: GpuAlgorithm where
  "example_excited = snd (set_excitation example_platform example_excitation example_new)"

definition example_two_lines :: GpuAlgorithm where
  "example_two_lines = snd (set_scan_sequence example_platform (example_lines 2) example_excited)"

definition example_too_high :: SplineScatterers where
  "example_too_high =
     \<lparr>spline_degree = 5, knot_vector = [0, 0, 0, 0, 0, 0, 1, 1, 1, 1, 1, 1],
      control_points = [[(0, 0, 0), (0, 0, 1), (0, 0, 2), (0, 0, 3), (0, 0, 4), (0, 0, 5)]],
      amplitudes = [1]\<rparr>"

text \<open>
  The regular grid the spec speaks of: the \<open>k\<close>-th of \<open>count\<close> equally spaced coordinates
  that run from the first to the last point of a range.
\<close>

definition regular_grid_coordinate :: "Interval \<Rightarrow> int \<Rightarrow> nat \<Rightarrow> real" where
  "regular_grid_coordinate rng count k =
     first rng + real k * (last rng - first rng) / real_of_int (count - 1)"

definition example_lut :: LUTBeamProfile where
  "example_lut =
     \<lparr>getNumSamplesRadial = 2, getNumSamplesLateral = 2, getNumSamplesElevational = 2,
      getRangeRange = \<lparr>first = 0, last = 1\<rparr>,
      getLateralRange = \<lparr>first = 0, last = 1\<rparr>,
      getElevationalRange = \<lparr>first = 0, last = 10\<rparr>,
      sampleProfile = (\<lambda>r l e. r / 2 + l + 100 * e)\<rparr>"

definition example_lut_table :: "real list" where
  "example_lut_table =
     table_samples (the (m_device_beam_profile (snd (set_lookup_profile (LUTProfile example_lut) example_new))))"

definition example_splines :: SplineScatterers where
  "example_splines =
     \<lparr>spline_degree = 2, knot_vector = [0, 0, 0, 1, 1, 1],
      control_points = [[(1, 2, 3), (4, 5, 6), (7, 8, 9)], [(10, 20, 30), (40, 50, 60), (70, 80, 90)]],
      amplitudes = [11, 22]\<rparr>"

definition example_uploaded :: GpuAlgorithm where
  "example_uploaded = snd (copy_scatterers_to_device_spline example_platform example_splines example_new)"

text \<open>
  What a completed run of the inner loop from \<open>i\<close> has appended to \<open>acc\<close>: one sample per
  step \<open>k\<close> with \<open>i + k * d < n\<close>, read at \<open>i + k * d + c\<close> inside the host line.
\<close>

definition collected :: "complex list \<Rightarrow> nat \<Rightarrow> nat \<Rightarrow> nat \<Rightarrow> nat \<Rightarrow> complex list \<Rightarrow> complex list \<Rightarrow> bool" where
  "collected host n d c i acc r \<longleftrightarrow>
     (\<exists>out. r = acc @ out \<and> (\<forall>k. (i + k * d < n) = (k < length out))
        \<and> (\<forall>k<length out. i + k * d + c < length host \<and> out ! k = host ! (i + k * d + c)))"

definition same_shape :: "nat \<Rightarrow> complex list list \<Rightarrow> complex list list \<Rightarrow> bool" where
  "same_shape n P Q \<longleftrightarrow>
     length P = length Q \<and> (\<forall>i<length P. length (P ! i) = length (Q ! i) \<and> drop n (P ! i) = drop n (Q ! i))"

definition same_config :: "GpuAlgorithm \<Rightarrow> GpuAlgorithm \<Rightarrow> bool" where
  "same_config s t \<longleftrightarrow>
     t = s\<lparr>m_debug_data := m_debug_data t,
           m_device_time_proj := m_device_time_proj t,
           m_host_rf_lines := m_host_rf_lines t\<rparr>
     \<and> same_shape (m_num_time_samples s) (m_device_time_proj s) (m_device_time_proj t)
     \<and> same_shape (m_num_time_samples s) (m_host_rf_lines s) (m_host_rf_lines t)"

definition same_buffer :: "nat \<Rightarrow> GpuAlgorithm \<Rightarrow> GpuAlgorithm \<Rightarrow> bool" where
  "same_buffer stream_no s t \<longleftrightarrow>
     same_config s t \<and> stream_no < length (m_device_time_proj s)
     \<and> m_num_time_samples s \<le> length (m_device_time_proj s ! stream_no)
     \<and> m_device_time_proj s ! stream_no = m_device_time_proj t ! stream_no"

definition plan_fits :: "GpuAlgorithm \<Rightarrow> bool" where
  "plan_fits s = (case m_fft_plan s of None \<Rightarrow> True | Some plan \<Rightarrow> plan \<le> m_num_time_samples s)"

text \<open>
  The object as the first three statements of \<^verbatim>\<open>simulate_lines\<close> leave it: latch cleared,
  stream wrappers created when there were none, diagnostic log reset when it is enabled.
\<close>

definition prepared :: "GpuAlgorithm \<Rightarrow> GpuAlgorithm" where
  "prepared s0 =
     (let s1 = s0\<lparr>m_can_change_cuda_device := False\<rparr>;
          s2 = (if length (m_stream_wrappers s1) = 0
                then create_cuda_stream_wrappers (m_param_num_cuda_streams s1) s1 else s1)
      in if m_store_kernel_details s2 then s2\<lparr>m_debug_data := (\<lambda>k. [])\<rparr> else s2)"

text \<open>The projection buffer of a stream holds zeros in all its time samples.\<close>

definition zero_buffer :: "nat \<Rightarrow> GpuAlgorithm \<Rightarrow> bool" where
  "zero_buffer stream_no s \<longleftrightarrow>
     stream_no < length (m_device_time_proj s)
     \<and> m_num_time_samples s \<le> length (m_device_time_proj s ! stream_no)
     \<and> take (m_num_time_samples s) (m_device_time_proj s ! stream_no)
         = replicate (m_num_time_samples s) 0"

text \<open>
  A configured object without scatterers: the excitation set, a sequence of one scanline
  and an analytical beam profile.
\<close>

definition example_ready :: GpuAlgorithm where
  "example_ready =
     snd (set_analytical_profile (GaussianBeamProfile 1 1)
       (snd (set_scan_sequence example_platform (example_lines 1) example_excited)))"

text \<open>The object that one run of \<^verbatim>\<open>simulate_lines\<close> leaves behind.\<close>

definition example_done :: GpuAlgorithm where
  "example_done = snd (the (simulate_lines example_platform (\<lambda>b k. 0) example_ready))"

text \<open>An excitation whose center index lies beyond the time-sample capacity of 8192.\<close>

definition example_late_center :: GpuAlgorithm where
  "example_late_center = example_excited\<lparr>m_excitation := (m_excitation example_excited)\<lparr>center_index := 9000\<rparr>\<rparr>"

text \<open>
  The operations that clear the device-change latch: \<^verbatim>\<open>simulate_lines\<close>, \<^verbatim>\<open>set_excitation\<close>,
  \<^verbatim>\<open>set_scan_sequence\<close> and the two scatterer uploads.
\<close>

definition locks_device :: "operation \<Rightarrow> bool" where
  "locks_device opn =
     (case opn of
        SimulateLines timer \<Rightarrow> True
      | SetExcitation e \<Rightarrow> True
      | SetScanSequence seq \<Rightarrow> True
      | AddFixedScatterers sc \<Rightarrow> True
      | AddSplineScatterers sc \<Rightarrow> True
      | _ \<Rightarrow> False)"

text \<open>Event timers that all read zero.\<close>

definition example_timer :: "nat \<Rightarrow> string \<Rightarrow> real" where
  "example_timer beam_no key = 0"

text \<open>A new object after three calls that leave the latch alone.\<close>

definition example_tuned :: GpuAlgorithm where
  "example_tuned = the (run example_platform
      [SetParameter ''cuda_streams'' ''1'', ClearFixedScatterers, SetAnalyticalProfile (GaussianBeamProfile 1 1)]
      example_new)"

text \<open>The object that the failing \<^verbatim>\<open>simulate_lines\<close> on a sequence without lines leaves behind.\<close>

definition example_failed :: GpuAlgorithm where
  "example_failed = snd (the (simulate_lines example_platform example_timer example_empty_sequence))"



section \<open>The device-change latch\<close>

lemma latch_set_parameter:
  "\<not> m_can_change_cuda_device s \<Longrightarrow> \<not> m_can_change_cuda_device (snd (set_parameter env key val s))"
  by (simp add: set_parameter_def save_cuda_device_properties_def Let_def split: sum.splits prod.splits)

lemma latch_set_excitation: "\<not> m_can_change_cuda_device (snd (set_excitation env e s))"
  by (simp add: set_excitation_def Let_def)

lemma latch_set_scan_sequence: "\<not> m_can_change_cuda_device (snd (set_scan_sequence env seq s))"
  by (simp add: set_scan_sequence_def Let_def)

lemma latch_copy_fixed: "\<not> m_can_change_cuda_device (snd (copy_scatterers_to_device_fixed env sc s))"
  by (simp add: copy_scatterers_to_device_fixed_def Let_def)

lemma latch_copy_spline: "\<not> m_can_change_cuda_device (snd (copy_scatterers_to_device_spline env sc s))"
  by (simp add: copy_scatterers_to_device_spline_def Let_def split: sum.splits prod.splits)

lemma latch_profiles:
  "m_can_change_cuda_device (snd (set_analytical_profile p s)) = m_can_change_cuda_device s"
  "m_can_change_cuda_device (snd (set_lookup_profile p s)) = m_can_change_cuda_device s"
  by (simp_all add: set_analytical_profile_def set_lookup_profile_def Let_def split: IBeamProfile.splits)

lemma latch_timed [simp]: "m_can_change_cuda_device (timed timer b k s) = m_can_change_cuda_device s"
  by (simp add: timed_def push_debug_def)

lemma latch_upd_time_proj [simp]: "m_can_change_cuda_device (upd_time_proj n f s) = m_can_change_cuda_device s"
  by (simp add: upd_time_proj_def)

lemma latch_fixed_kernel:
  "m_can_change_cuda_device (snd (fixed_projection_kernel env n sl nb s)) = m_can_change_cuda_device s"
  by (simp add: fixed_projection_kernel_def Let_def split: option.splits BeamProfileType.splits)

lemma latch_spline_kernel:
  "m_can_change_cuda_device (snd (spline_projection_kernel env n sl nb s)) = m_can_change_cuda_device s"
  by (simp add: spline_projection_kernel_def Let_def split: option.splits BeamProfileType.splits)

lemma snd_and_then:
  "(\<And>s'. P (snd (f s')) = P s') \<Longrightarrow> P (snd (and_then r f)) = P (snd r)"
  by (cases r) (auto simp: and_then_def split: sum.splits)

lemma latch_process_beam:
  "m_can_change_cuda_device (snd (process_beam env timer seq nbf nbs b s)) = m_can_change_cuda_device s"
  unfolding process_beam_def Let_def
  apply (subst snd_and_then[where P=m_can_change_cuda_device])
  apply (subst snd_and_then[where P=m_can_change_cuda_device])
  apply (subst snd_and_then[where P=m_can_change_cuda_device])
  apply (subst snd_and_then[where P=m_can_change_cuda_device])
  apply (subst snd_and_then[where P=m_can_change_cuda_device])
  apply (subst snd_and_then[where P=m_can_change_cuda_device])
  apply (subst snd_and_then[where P=m_can_change_cuda_device])
  apply (subst snd_and_then[where P=m_can_change_cuda_device])
  apply (simp_all add: beam_copy_to_host_def beam_demodulate_def beam_fft_def beam_multiply_def
      beam_project_spline_def beam_project_fixed_def beam_memset_def beam_select_def Let_def
      push_debug_def latch_fixed_kernel latch_spline_kernel snd_and_then[where P=m_can_change_cuda_device]
      split: option.splits)
  done

lemma latch_beam_loop:
  "m_can_change_cuda_device (snd (beam_loop env timer seq nbf nbs bs s)) = m_can_change_cuda_device s"
proof (induction bs arbitrary: s)
  case Nil
  show ?case by simp
next
  case (Cons b bs)
  show ?case
    by (simp add: snd_and_then[where P=m_can_change_cuda_device, OF Cons.IH] latch_process_beam)
qed

lemma latch_simulate_lines:
  "simulate_lines env timer s = Some r \<Longrightarrow> \<not> m_can_change_cuda_device (snd r)"
  unfolding simulate_lines_def Let_def
  by (auto simp: create_cuda_stream_wrappers_def split: option.splits if_splits prod.splits sum.splits
      dest: arg_cong[where f="\<lambda>r. m_can_change_cuda_device (snd r)"] simp: latch_beam_loop)

lemma stoi_1: "stoi ''1'' = Inr 1"
  by (simp add: stoi_def isspace_def isdigit_def digits_value_def Let_def)

lemma ctor_ok: "fst (GpuAlgorithm_ctor example_platform example_init) = Inr ()"
  by (simp add: GpuAlgorithm_ctor_def example_platform_def example_init_def
      save_cuda_device_properties_def get_num_cuda_devices_def Let_def create_dummy_lut_profile_def)

lemma example_new_fields:
  "m_can_change_cuda_device example_new" "num_allocations example_new = 1"
  "m_num_time_samples example_new = 8192" "m_num_beams_allocated example_new = - 1"
  "m_param_num_cuda_streams example_new = 2"
  by (simp_all add: example_new_def GpuAlgorithm_ctor_def example_platform_def example_init_def
      save_cuda_device_properties_def get_num_cuda_devices_def Let_def create_dummy_lut_profile_def)

lemma latch_kept_set_parameter:
  "m_can_change_cuda_device (snd (set_parameter env key val s)) = m_can_change_cuda_device s"
proof (cases "key = ''gpu_device''")
  case True
  then show ?thesis
    by (simp add: set_parameter_def save_cuda_device_properties_def Let_def split: sum.splits)
next
  case False
  then show ?thesis
    by (simp add: set_parameter_def Let_def split: sum.splits prod.splits)
qed

lemma latch_ctor:
  "GpuAlgorithm_ctor env init = (Inr (), s0) \<Longrightarrow> m_can_change_cuda_device s0"
  by (auto simp: GpuAlgorithm_ctor_def save_cuda_device_properties_def create_dummy_lut_profile_def
      Let_def split: if_splits)

lemma latch_call:
  assumes "call env opn s = Some t"
  shows "m_can_change_cuda_device t = (m_can_change_cuda_device s \<and> \<not> locks_device opn)"
proof (cases opn)
  case (SimulateLines timer)
  then show ?thesis using assms latch_simulate_lines [of env timer s]
    by (auto simp: call_def locks_device_def)
qed (use assms in \<open>auto simp: call_def locks_device_def latch_kept_set_parameter latch_set_excitation
       latch_set_scan_sequence latch_profiles latch_copy_fixed latch_copy_spline add_fixed_scatterers_def
       add_spline_scatterers_def clear_fixed_scatterers_def clear_spline_scatterers_def\<close>)

lemma latch_run:
  "run env ops s = Some s' \<Longrightarrow>
     m_can_change_cuda_device s' = (m_can_change_cuda_device s \<and> (\<forall>opn\<in>set ops. \<not> locks_device opn))"
proof (induction ops arbitrary: s)
  case Nil
  then show ?case by simp
next
  case (Cons opn ops)
  then obtain t where t: "call env opn s = Some t" "run env ops t = Some s'"
    by (auto split: option.splits)
  show ?case
    using Cons.IH [OF t(2)] latch_call [OF t(1)] by auto
qed

lemma gpu_device_locked:
  "\<not> m_can_change_cuda_device t \<Longrightarrow>
      set_parameter env ''gpu_device'' val t = (Inl (RuntimeError ''cannot change CUDA device now''), t)"
  by (simp add: set_parameter_def)

lemma gpu_device_unlocked:
  "m_can_change_cuda_device s \<Longrightarrow> stoi val = Inr n \<Longrightarrow> 0 \<le> n \<Longrightarrow> n < cudaGetDeviceCount env \<Longrightarrow>
      set_parameter env ''gpu_device'' val s
        = (Inr (), s\<lparr>m_param_cuda_device_no := n, m_cur_device_prop := cudaGetDeviceProperties env n\<rparr>)"
  by (simp add: set_parameter_def save_cuda_device_properties_def get_num_cuda_devices_def Let_def)

text \<open>
  Claim C3, as amended. A newly constructed object has the latch \<open>m_can_change_cuda_device\<close>
  set, and the latch stays set across every call that is not \<^verbatim>\<open>simulate_lines\<close>,
  \<^verbatim>\<open>set_excitation\<close>, \<^verbatim>\<open>set_scan_sequence\<close> or a scatterer upload; each of these clears it,
  whatever its outcome and whether or not it allocates. While the latch is set,
  \<^verbatim>\<open>set_parameter("gpu_device", n)\<close> with a device number \<open>0 \<le> n < device count\<close> succeeds and
  selects device \<open>n\<close>. Once the latch is cleared the call throws and changes nothing, and the
  latch is a one-way transition: no sequence of calls of the public operations sets it
  again, so every later attempt throws as well. So after any sequence of calls on a new
  object, a valid device number is accepted exactly when none of the calls was one of the
  locking operations.
\<close>

theorem gpu_device_latch:
  "(GpuAlgorithm_ctor env init = (Inr (), s0) \<longrightarrow> m_can_change_cuda_device s0)
   \<and> (m_can_change_cuda_device s \<and> (\<forall>opn\<in>set ops. \<not> locks_device opn) \<and> run env ops s = Some s'
        \<longrightarrow> m_can_change_cuda_device s')
   \<and> (locks_device opn \<and> call env opn s = Some s' \<longrightarrow> \<not> m_can_change_cuda_device s')
   \<and> (m_can_change_cuda_device s \<and> stoi val = Inr n \<and> 0 \<le> n \<and> n < cudaGetDeviceCount env \<longrightarrow>
      set_parameter env ''gpu_device'' val s
        = (Inr (), s\<lparr>m_param_cuda_device_no := n, m_cur_device_prop := cudaGetDeviceProperties env n\<rparr>))
   \<and> (\<not> m_can_change_cuda_device s \<longrightarrow>
      set_parameter env ''gpu_device'' val s = (Inl (RuntimeError ''cannot change CUDA device now''), s))
   \<and> (\<not> m_can_change_cuda_device s \<and> run env ops s = Some s' \<longrightarrow>
      \<not> m_can_change_cuda_device s'
      \<and> set_parameter env ''gpu_device'' val s' = (Inl (RuntimeError ''cannot change CUDA device now''), s'))
   \<and> (GpuAlgorithm_ctor env init = (Inr (), s0) \<and> run env ops s0 = Some s'
        \<and> stoi val = Inr n \<and> 0 \<le> n \<and> n < cudaGetDeviceCount env \<longrightarrow>
      (fst (set_parameter env ''gpu_device'' val s') = Inr ()) = (\<forall>opn\<in>set ops. \<not> locks_device opn))"
proof (intro conjI impI)
  assume "GpuAlgorithm_ctor env init = (Inr (), s0)"
  then show "m_can_change_cuda_device s0" by (rule latch_ctor)
next
  assume "m_can_change_cuda_device s \<and> (\<forall>opn\<in>set ops. \<not> locks_device opn) \<and> run env ops s = Some s'"
  then show "m_can_change_cuda_device s'" using latch_run [of env ops s s'] by blast
next
  assume "locks_device opn \<and> call env opn s = Some s'"
  then show "\<not> m_can_change_cuda_device s'" using latch_call [of env opn s s'] by blast
next
  assume "m_can_change_cuda_device s \<and> stoi val = Inr n \<and> 0 \<le> n \<and> n < cudaGetDeviceCount env"
  then show "set_parameter env ''gpu_device'' val s
        = (Inr (), s\<lparr>m_param_cuda_device_no := n, m_cur_device_prop := cudaGetDeviceProperties env n\<rparr>)"
    by (intro gpu_device_unlocked) blast+
next
  assume "\<not> m_can_change_cuda_device s"
  then show "set_parameter env ''gpu_device'' val s = (Inl (RuntimeError ''cannot change CUDA device now''), s)"
    by (rule gpu_device_locked)
next
  assume a: "\<not> m_can_change_cuda_device s \<and> run env ops s = Some s'"
  then show "\<not> m_can_change_cuda_device s'" using latch_run [of env ops s s'] by blast
  then show "set_parameter env ''gpu_device'' val s' = (Inl (RuntimeError ''cannot change CUDA device now''), s')"
    by (rule gpu_device_locked)
next
  assume a: "GpuAlgorithm_ctor env init = (Inr (), s0) \<and> run env ops s0 = Some s'
        \<and> stoi val = Inr n \<and> 0 \<le> n \<and> n < cudaGetDeviceCount env"
  then have l: "m_can_change_cuda_device s' = (\<forall>opn\<in>set ops. \<not> locks_device opn)"
    using latch_run [of env ops s0 s'] latch_ctor [of env init s0] by blast
  show "(fst (set_parameter env ''gpu_device'' val s') = Inr ()) = (\<forall>opn\<in>set ops. \<not> locks_device opn)"
  proof (cases "m_can_change_cuda_device s'")
    case True
    then have "set_parameter env ''gpu_device'' val s'
        = (Inr (), s'\<lparr>m_param_cuda_device_no := n, m_cur_device_prop := cudaGetDeviceProperties env n\<rparr>)"
      using a by (intro gpu_device_unlocked) blast+
    then show ?thesis using True l by simp
  next
    case False
    then show ?thesis using l by (simp add: gpu_device_locked)
  qed
qed

lemma example_tuned_run:
  "run example_platform
      [SetParameter ''cuda_streams'' ''1'', ClearFixedScatterers, SetAnalyticalProfile (GaussianBeamProfile 1 1)]
      example_new = Some example_tuned"
  by (simp add: example_tuned_def call_def)

lemma example_later_run:
  "run example_platform
      [SetParameter ''cuda_streams'' ''1'', ClearFixedScatterers, SetAnalyticalProfile (GaussianBeamProfile 1 1)]
      example_refused = Some example_later"
  by (simp add: example_later_def call_def)

lemma example_new_ctor: "GpuAlgorithm_ctor example_platform example_init = (Inr (), example_new)"
  using ctor_ok by (simp add: example_new_def prod_eq_iff)

lemma device_count: "1 < cudaGetDeviceCount example_platform"
  by (simp add: example_platform_def)

text \<open>
  Claim C3, an instance: a newly constructed object accepts device 1, also after a change of
  the stream count, a clearing of the scatterers and the choice of a beam profile; the
  object that has refused an empty spline upload stays locked across the same calls.
\<close>

theorem gpu_device_latch_witness:
  "GpuAlgorithm_ctor example_platform example_init = (Inr (), example_new)
   \<and> m_can_change_cuda_device example_new \<and> stoi ''1'' = Inr 1 \<and> (0::int) \<le> 1
   \<and> 1 < cudaGetDeviceCount example_platform
   \<and> fst (set_parameter example_platform ''gpu_device'' ''1'' example_new) = Inr ()
   \<and> run example_platform
      [SetParameter ''cuda_streams'' ''1'', ClearFixedScatterers, SetAnalyticalProfile (GaussianBeamProfile 1 1)]
      example_new = Some example_tuned
   \<and> \<not> locks_device (SetParameter ''cuda_streams'' ''1'') \<and> \<not> locks_device ClearFixedScatterers
   \<and> \<not> locks_device (SetAnalyticalProfile (GaussianBeamProfile 1 1))
   \<and> fst (set_parameter example_platform ''gpu_device'' ''1'' example_tuned) = Inr ()
   \<and> locks_device (AddSplineScatterers example_no_scatterers)
   \<and> call example_platform (AddSplineScatterers example_no_scatterers) example_new = Some example_refused
   \<and> \<not> m_can_change_cuda_device example_refused
   \<and> run example_platform
      [SetParameter ''cuda_streams'' ''1'', ClearFixedScatterers, SetAnalyticalProfile (GaussianBeamProfile 1 1)]
      example_refused = Some example_later
   \<and> fst (set_parameter example_platform ''gpu_device'' ''1'' example_later)
       = Inl (RuntimeError ''cannot change CUDA device now'')"
proof -
  let ?ops = "[SetParameter ''cuda_streams'' ''1'', ClearFixedScatterers,
               SetAnalyticalProfile (GaussianBeamProfile 1 1)]"
  have k: "\<not> locks_device (SetParameter ''cuda_streams'' ''1'')" "\<not> locks_device ClearFixedScatterers"
    "\<not> locks_device (SetAnalyticalProfile (GaussianBeamProfile 1 1))"
    "locks_device (AddSplineScatterers example_no_scatterers)"
    by (simp_all add: locks_device_def)
  have c: "call example_platform (AddSplineScatterers example_no_scatterers) example_new = Some example_refused"
    by (simp add: call_def example_refused_def)
  note t1 = gpu_device_latch [of example_platform example_init example_new example_new "[]" example_new
      "AddSplineScatterers example_no_scatterers" "''1''" 1]
  have a: "fst (set_parameter example_platform ''gpu_device'' ''1'' example_new) = Inr ()"
    using t1 example_new_ctor stoi_1 device_count by simp
  note t2 = gpu_device_latch [of example_platform example_init example_new example_new ?ops example_tuned
      "AddSplineScatterers example_no_scatterers" "''1''" 1]
  have b: "fst (set_parameter example_platform ''gpu_device'' ''1'' example_tuned) = Inr ()"
    using t2 example_new_ctor example_tuned_run stoi_1 device_count k by simp
  note t3 = gpu_device_latch [of example_platform example_init example_new example_new ?ops example_refused
      "AddSplineScatterers example_no_scatterers" "''1''" 1]
  have r: "\<not> m_can_change_cuda_device example_refused"
    using t3 k(4) c by blast
  note t4 = gpu_device_latch [of example_platform example_init example_new example_refused ?ops example_later
      "AddSplineScatterers example_no_scatterers" "''1''" 1]
  have d: "fst (set_parameter example_platform ''gpu_device'' ''1'' example_later)
       = Inl (RuntimeError ''cannot change CUDA device now'')"
    using t4 r example_later_run by simp
  show ?thesis
    using example_new_ctor example_new_fields(1) stoi_1 device_count a example_tuned_run k b c r
      example_later_run d
    by simp
qed

text \<open>
  Claim C3 as first stated fails: success is not guaranteed by the absence of resource
  allocation. A newly constructed object that is handed an empty spline collection throws
  \<^verbatim>\<open>No scatterers\<close> before it creates any stream or buffer, yet the latch is cleared
  and the valid device number 1 is refused from then on.
\<close>

theorem gpu_device_refused_without_allocation:
  "fst (GpuAlgorithm_ctor example_platform example_init) = Inr ()
   \<and> fst (add_spline_scatterers example_platform example_no_scatterers example_new)
       = Inl (RuntimeError ''No scatterers'')
   \<and> num_allocations example_refused = num_allocations example_new
   \<and> m_stream_wrappers example_refused = []
   \<and> m_device_time_proj example_refused = []
   \<and> m_host_rf_lines example_refused = []
   \<and> m_device_control_xs example_refused = None
   \<and> stoi ''1'' = Inr 1 \<and> (0::int) \<le> 1 \<and> 1 < cudaGetDeviceCount example_platform
   \<and> fst (set_parameter example_platform ''gpu_device'' ''1'' example_refused)
       = Inl (RuntimeError ''cannot change CUDA device now'')"
  by (simp add: ctor_ok stoi_1)
     (simp add: example_refused_def add_spline_scatterers_def copy_scatterers_to_device_spline_def
        num_scatterers_def example_no_scatterers_def Let_def set_parameter_def
        example_new_def GpuAlgorithm_ctor_def example_platform_def example_init_def
        save_cuda_device_properties_def get_num_cuda_devices_def create_dummy_lut_profile_def)

section \<open>Claims about the latch and early failures\<close>

lemma simulate_lines_no_scanlines:
  assumes "m_scan_seq s = Some seq" "scanlines seq = []"
  shows "simulate_lines env timer s =
     Some (Inl (RuntimeError ''No scanlines in scansequence''),
           (if m_stream_wrappers s = []
            then create_cuda_stream_wrappers (m_param_num_cuda_streams s) s
            else s\<lparr>m_can_change_cuda_device := False\<rparr>)
           \<lparr>m_debug_data := (if m_store_kernel_details s then (\<lambda>k. []) else m_debug_data s)\<rparr>)"
  using assms
  by (simp add: simulate_lines_def Let_def create_cuda_stream_wrappers_def get_num_lines_def)

lemma example_empty_sequence_fields:
  "m_scan_seq example_empty_sequence = Some example_no_lines"
  "m_stream_wrappers example_empty_sequence = []"
  "m_param_num_cuda_streams example_empty_sequence = 2"
  by (simp_all add: example_empty_sequence_def set_scan_sequence_def Let_def example_new_fields
         example_platform_def example_no_lines_def get_num_lines_def)
     (simp_all add: example_new_def GpuAlgorithm_ctor_def example_platform_def example_init_def
      save_cuda_device_properties_def get_num_cuda_devices_def Let_def create_dummy_lut_profile_def)

text \<open>
  Claim C9, as amended. Each of \<^verbatim>\<open>set_excitation\<close>, \<^verbatim>\<open>set_scan_sequence\<close>, the two scatterer
  uploads and \<^verbatim>\<open>simulate_lines\<close> clears the latch as its first action: the object they leave
  behind has the latch cleared whatever the outcome, and the call behaves as if the latch
  had been cleared before it started. So a call that throws leaves device selection locked,
  for good: after any further calls \<^verbatim>\<open>set_parameter("gpu_device", n)\<close> throws.
  \<^verbatim>\<open>simulate_lines\<close> on a scan sequence without lines throws \<^verbatim>\<open>No scanlines\<close> with every
  device and host buffer as it was; it has created the stream wrappers,
  \<open>m_param_num_cuda_streams\<close> of them, when there were none, and nothing otherwise. An upload
  of an empty spline collection throws having changed only the latch and the scatterer
  count.
\<close>

theorem latch_cleared_first:
  "\<not> m_can_change_cuda_device (snd (set_excitation env e s))
   \<and> \<not> m_can_change_cuda_device (snd (set_scan_sequence env seq s))
   \<and> \<not> m_can_change_cuda_device (snd (copy_scatterers_to_device_fixed env fsc s))
   \<and> \<not> m_can_change_cuda_device (snd (copy_scatterers_to_device_spline env ssc s))
   \<and> (\<forall>r. simulate_lines env timer s = Some r \<longrightarrow> \<not> m_can_change_cuda_device (snd r))
   \<and> set_excitation env e s = set_excitation env e (s\<lparr>m_can_change_cuda_device := False\<rparr>)
   \<and> set_scan_sequence env seq s = set_scan_sequence env seq (s\<lparr>m_can_change_cuda_device := False\<rparr>)
   \<and> copy_scatterers_to_device_fixed env fsc s
        = copy_scatterers_to_device_fixed env fsc (s\<lparr>m_can_change_cuda_device := False\<rparr>)
   \<and> copy_scatterers_to_device_spline env ssc s
        = copy_scatterers_to_device_spline env ssc (s\<lparr>m_can_change_cuda_device := False\<rparr>)
   \<and> simulate_lines env timer s = simulate_lines env timer (s\<lparr>m_can_change_cuda_device := False\<rparr>)
   \<and> (locks_device opn \<and> call env opn s = Some t \<and> run env ops t = Some t' \<longrightarrow>
        set_parameter env ''gpu_device'' val t' = (Inl (RuntimeError ''cannot change CUDA device now''), t'))
   \<and> (m_scan_seq s = Some sq \<and> scanlines sq = [] \<longrightarrow>
        (\<exists>s'. simulate_lines env timer s = Some (Inl (RuntimeError ''No scanlines in scansequence''), s')
           \<and> \<not> m_can_change_cuda_device s'
           \<and> m_device_time_proj s' = m_device_time_proj s
           \<and> m_host_rf_lines s' = m_host_rf_lines s
           \<and> m_device_excitation_fft s' = m_device_excitation_fft s
           \<and> m_fft_plan s' = m_fft_plan s
           \<and> m_device_beam_profile s' = m_device_beam_profile s
           \<and> m_stream_wrappers s'
               = (if m_stream_wrappers s = []
                  then map (\<lambda>i. num_allocations s + i) [0..<m_param_num_cuda_streams s]
                  else m_stream_wrappers s)
           \<and> num_allocations s'
               = num_allocations s + (if m_stream_wrappers s = [] then m_param_num_cuda_streams s else 0)))
   \<and> (num_scatterers ssc = 0 \<longrightarrow>
        copy_scatterers_to_device_spline env ssc s
          = (Inl (RuntimeError ''No scatterers''),
             s\<lparr>m_can_change_cuda_device := False, m_num_spline_scatterers := 0\<rparr>))"
proof -
  have a: "set_excitation env e s = set_excitation env e (s\<lparr>m_can_change_cuda_device := False\<rparr>)"
    by (simp add: set_excitation_def)
  have b: "set_scan_sequence env seq s = set_scan_sequence env seq (s\<lparr>m_can_change_cuda_device := False\<rparr>)"
    by (simp add: set_scan_sequence_def)
  have c: "copy_scatterers_to_device_fixed env fsc s
        = copy_scatterers_to_device_fixed env fsc (s\<lparr>m_can_change_cuda_device := False\<rparr>)"
    by (simp add: copy_scatterers_to_device_fixed_def)
  have d: "copy_scatterers_to_device_spline env ssc s
        = copy_scatterers_to_device_spline env ssc (s\<lparr>m_can_change_cuda_device := False\<rparr>)"
    by (simp add: copy_scatterers_to_device_spline_def)
  have e: "simulate_lines env timer s = simulate_lines env timer (s\<lparr>m_can_change_cuda_device := False\<rparr>)"
    by (simp add: simulate_lines_def)
  have f: "simulate_lines env timer s = Some r \<Longrightarrow> \<not> m_can_change_cuda_device (snd r)" for r
    by (rule latch_simulate_lines)
  have g: "\<exists>s'. simulate_lines env timer s = Some (Inl (RuntimeError ''No scanlines in scansequence''), s')
           \<and> \<not> m_can_change_cuda_device s'
           \<and> m_device_time_proj s' = m_device_time_proj s
           \<and> m_host_rf_lines s' = m_host_rf_lines s
           \<and> m_device_excitation_fft s' = m_device_excitation_fft s
           \<and> m_fft_plan s' = m_fft_plan s
           \<and> m_device_beam_profile s' = m_device_beam_profile s
           \<and> m_stream_wrappers s'
               = (if m_stream_wrappers s = []
                  then map (\<lambda>i. num_allocations s + i) [0..<m_param_num_cuda_streams s]
                  else m_stream_wrappers s)
           \<and> num_allocations s'
               = num_allocations s + (if m_stream_wrappers s = [] then m_param_num_cuda_streams s else 0)"
    if "m_scan_seq s = Some sq" "scanlines sq = []"
    by (simp add: simulate_lines_no_scanlines[OF that] create_cuda_stream_wrappers_def)
  have h: "num_scatterers ssc = 0 \<Longrightarrow> copy_scatterers_to_device_spline env ssc s
          = (Inl (RuntimeError ''No scatterers''),
             s\<lparr>m_can_change_cuda_device := False, m_num_spline_scatterers := 0\<rparr>)"
    by (simp add: copy_scatterers_to_device_spline_def)
  have p: "set_parameter env ''gpu_device'' val t' = (Inl (RuntimeError ''cannot change CUDA device now''), t')"
    if "locks_device opn" "call env opn s = Some t" "run env ops t = Some t'"
  proof -
    have "\<not> m_can_change_cuda_device t" using latch_call [OF that(2)] that(1) by simp
    then have "\<not> m_can_change_cuda_device t'" using latch_run [OF that(3)] by simp
    then show ?thesis by (rule gpu_device_locked)
  qed
  show ?thesis
    using a b c d e f g h p latch_set_excitation latch_set_scan_sequence latch_copy_fixed latch_copy_spline
    by blast
qed

lemma example_failed_run:
  "simulate_lines example_platform example_timer example_empty_sequence
     = Some (Inl (RuntimeError ''No scanlines in scansequence''), example_failed)"
proof -
  have e: "scanlines example_no_lines = []"
    by (simp add: example_no_lines_def)
  show ?thesis
    by (simp add: example_failed_def simulate_lines_no_scanlines [OF example_empty_sequence_fields(1) e])
qed

lemma example_empty_sequence_allocations: "num_allocations example_empty_sequence = 3"
  by (simp add: example_empty_sequence_def set_scan_sequence_def Let_def example_new_fields
         example_platform_def example_no_lines_def get_num_lines_def)
     (simp add: example_new_def GpuAlgorithm_ctor_def example_platform_def example_init_def
      save_cuda_device_properties_def get_num_cuda_devices_def Let_def create_dummy_lut_profile_def)

text \<open>
  Claim C9, an instance: the failing \<^verbatim>\<open>simulate_lines\<close> on an empty scan sequence, after which
  device 1 is refused, and the failing empty spline upload on a new object whose latch was
  still set.
\<close>

theorem latch_cleared_first_witness:
  "m_scan_seq example_empty_sequence = Some example_no_lines \<and> scanlines example_no_lines = []
   \<and> simulate_lines example_platform example_timer example_empty_sequence
        = Some (Inl (RuntimeError ''No scanlines in scansequence''), example_failed)
   \<and> \<not> m_can_change_cuda_device example_failed
   \<and> m_device_time_proj example_failed = m_device_time_proj example_empty_sequence
   \<and> m_host_rf_lines example_failed = m_host_rf_lines example_empty_sequence
   \<and> locks_device (SimulateLines example_timer)
   \<and> call example_platform (SimulateLines example_timer) example_empty_sequence = Some example_failed
   \<and> run example_platform [] example_failed = Some example_failed
   \<and> fst (set_parameter example_platform ''gpu_device'' ''1'' example_failed)
        = Inl (RuntimeError ''cannot change CUDA device now'')
   \<and> num_scatterers example_no_scatterers = 0
   \<and> m_can_change_cuda_device example_new
   \<and> fst (copy_scatterers_to_device_spline example_platform example_no_scatterers example_new)
        = Inl (RuntimeError ''No scatterers'')
   \<and> \<not> m_can_change_cuda_device
          (snd (copy_scatterers_to_device_spline example_platform example_no_scatterers example_new))"
proof -
  note t = latch_cleared_first [of example_platform example_excitation example_empty_sequence "example_lines 1"
      "\<lparr>scatterers = []\<rparr>" example_no_scatterers example_timer "SimulateLines example_timer"
      example_failed "[]" example_failed "''1''" example_no_lines]
  have e: "scanlines example_no_lines = []"
    by (simp add: example_no_lines_def)
  have l: "locks_device (SimulateLines example_timer)"
    by (simp add: locks_device_def)
  have c: "call example_platform (SimulateLines example_timer) example_empty_sequence = Some example_failed"
    by (simp add: call_def example_failed_run)
  have g: "\<exists>s'. simulate_lines example_platform example_timer example_empty_sequence
                 = Some (Inl (RuntimeError ''No scanlines in scansequence''), s')
           \<and> \<not> m_can_change_cuda_device s'
           \<and> m_device_time_proj s' = m_device_time_proj example_empty_sequence
           \<and> m_host_rf_lines s' = m_host_rf_lines example_empty_sequence"
    using t example_empty_sequence_fields(1) e by blast
  then have g': "\<not> m_can_change_cuda_device example_failed
           \<and> m_device_time_proj example_failed = m_device_time_proj example_empty_sequence
           \<and> m_host_rf_lines example_failed = m_host_rf_lines example_empty_sequence"
    unfolding example_failed_run by simp
  have p: "set_parameter example_platform ''gpu_device'' ''1'' example_failed
             = (Inl (RuntimeError ''cannot change CUDA device now''), example_failed)"
    using t l c by simp
  have n: "num_scatterers example_no_scatterers = 0"
    by (simp add: num_scatterers_def example_no_scatterers_def)
  have h: "num_scatterers example_no_scatterers = 0 \<longrightarrow>
        copy_scatterers_to_device_spline example_platform example_no_scatterers example_new
          = (Inl (RuntimeError ''No scatterers''),
             example_new\<lparr>m_can_change_cuda_device := False, m_num_spline_scatterers := 0\<rparr>)"
    using latch_cleared_first [of example_platform example_excitation example_new "example_lines 1"
      "\<lparr>scatterers = []\<rparr>" example_no_scatterers example_timer "SimulateLines example_timer"
      example_failed "[]" example_failed "''1''" example_no_lines]
    by blast
  show ?thesis
    using g' h n e l c p example_failed_run
    by (simp add: example_empty_sequence_fields example_new_fields)
qed

text \<open>
  Claim C9 as first stated fails: the failing call has allocated. On the object whose scan
  sequence has no lines and which has no stream wrappers yet, \<^verbatim>\<open>simulate_lines\<close> throws
  \<^verbatim>\<open>No scanlines\<close> after it has created two CUDA streams.
\<close>

theorem failing_simulate_lines_creates_streams:
  "m_scan_seq example_empty_sequence = Some example_no_lines \<and> scanlines example_no_lines = []
   \<and> m_stream_wrappers example_empty_sequence = []
   \<and> num_allocations example_empty_sequence = 3
   \<and> simulate_lines example_platform example_timer example_empty_sequence
        = Some (Inl (RuntimeError ''No scanlines in scansequence''), example_failed)
   \<and> m_stream_wrappers example_failed = [3, 4]
   \<and> num_allocations example_failed = 5
   \<and> num_allocations example_failed \<noteq> num_allocations example_empty_sequence"
proof -
  have e: "scanlines example_no_lines = []"
    by (simp add: example_no_lines_def)
  have f: "example_failed
     = (create_cuda_stream_wrappers (m_param_num_cuda_streams example_empty_sequence) example_empty_sequence)
           \<lparr>m_debug_data := (if m_store_kernel_details example_empty_sequence then (\<lambda>k. [])
                              else m_debug_data example_empty_sequence)\<rparr>"
    by (simp add: example_failed_def simulate_lines_no_scanlines [OF example_empty_sequence_fields(1) e]
        example_empty_sequence_fields(2))
  have w: "m_stream_wrappers example_failed = [3, 4]" "num_allocations example_failed = 5"
    unfolding f
    by (simp_all add: create_cuda_stream_wrappers_def example_empty_sequence_fields
        example_empty_sequence_allocations upt_rec)
  show ?thesis
    using w e example_failed_run
    by (simp add: example_empty_sequence_fields example_empty_sequence_allocations)
qed

lemma length_fresh_complex [simp]: "length (fresh_complex env k n) = n"
  by (simp add: fresh_complex_def)

lemma length_fresh_float [simp]: "length (fresh_float env k n) = n"
  by (simp add: fresh_float_def)

text \<open>
  Claim C4. For a call of \<^verbatim>\<open>set_scan_sequence\<close> that passes the capacity check: when the
  number of lines exceeds the allocated beam count, the call replaces every per-stream device
  projection buffer and every per-line pinned host buffer by a fresh one and records the new
  count; otherwise it returns early, with every buffer and the count as they were. Either
  way the allocated count afterwards is the maximum of the old count and the line count, so
  two calls in a row with \<open>L1\<close> then \<open>L2\<close> lines reallocate at the second exactly when \<open>L2\<close>
  exceeds the count the first one left.
\<close>

theorem set_scan_sequence_reallocation:
  assumes "compute_num_rf_samples env (m_param_sound_speed (base s)) (line_length seq)
             (sampling_frequency (m_excitation s)) \<le> m_num_time_samples s"
  shows "(m_num_beams_allocated s < int (length (scanlines seq)) \<longrightarrow>
            set_scan_sequence env seq s =
              (Inr (), s\<lparr>m_can_change_cuda_device := False,
                         m_scan_seq := Some seq,
                         m_device_time_proj :=
                           map (\<lambda>i. fresh_complex env (num_allocations s + i) (m_num_time_samples s))
                               [0..<m_param_num_cuda_streams s],
                         m_host_rf_lines :=
                           map (\<lambda>beam_no. fresh_complex env
                                  (num_allocations s + m_param_num_cuda_streams s + beam_no)
                                  (m_num_time_samples s))
                               [0..<length (scanlines seq)],
                         num_allocations :=
                           num_allocations s + m_param_num_cuda_streams s + length (scanlines seq),
                         m_num_beams_allocated := int (length (scanlines seq))\<rparr>))
       \<and> (int (length (scanlines seq)) \<le> m_num_beams_allocated s \<longrightarrow>
            set_scan_sequence env seq s =
              (Inr (), s\<lparr>m_can_change_cuda_device := False, m_scan_seq := Some seq\<rparr>))
       \<and> m_num_beams_allocated (snd (set_scan_sequence env seq s))
           = max (m_num_beams_allocated s) (int (length (scanlines seq)))"
  using assms by (simp add: set_scan_sequence_def Let_def get_num_lines_def)

lemma example_excited_fields:
  "m_num_beams_allocated example_excited = - 1"
  "m_param_sound_speed (base example_excited) = 1540"
  "sampling_frequency (m_excitation example_excited) = 1000000"
  "m_num_time_samples example_excited = 8192"
  "m_param_num_cuda_streams example_excited = 2"
  "num_allocations example_excited = 4"
  by (simp_all add: example_excited_def set_excitation_def Let_def example_new_fields
      example_excitation_def example_platform_def)
     (simp_all add: example_new_def GpuAlgorithm_ctor_def example_platform_def example_init_def
      save_cuda_device_properties_def get_num_cuda_devices_def Let_def create_dummy_lut_profile_def)

lemma example_num_rf: "compute_num_rf_samples example_platform 1540 (line_length (example_lines n)) 1000000 = 100"
  by (simp add: example_platform_def example_lines_def)

lemma example_two_lines_eq:
  "example_two_lines = example_excited
     \<lparr>m_can_change_cuda_device := False,
      m_scan_seq := Some (example_lines 2),
      m_device_time_proj := map (\<lambda>i. fresh_complex example_platform (4 + i) 8192) [0..<2],
      m_host_rf_lines := map (\<lambda>beam_no. fresh_complex example_platform (6 + beam_no) 8192) [0..<2],
      num_allocations := 8,
      m_num_beams_allocated := 2\<rparr>"
  using set_scan_sequence_reallocation [of example_platform example_excited "example_lines 2"]
  by (simp add: example_two_lines_def example_excited_fields example_num_rf)
     (simp add: example_lines_def)

text \<open>
  Claim C4, an instance: after a sequence of two lines, one of three lines reallocates
  (two stream buffers and three host buffers) and one of a single line changes no buffer.
\<close>

theorem set_scan_sequence_reallocation_witness:
  "compute_num_rf_samples example_platform (m_param_sound_speed (base example_two_lines))
      (line_length (example_lines 3)) (sampling_frequency (m_excitation example_two_lines))
     \<le> m_num_time_samples example_two_lines
   \<and> m_num_beams_allocated example_two_lines = 2
   \<and> length (scanlines (example_lines 3)) = 3
   \<and> length (scanlines (example_lines 1)) = 1
   \<and> length (m_host_rf_lines (snd (set_scan_sequence example_platform (example_lines 3) example_two_lines))) = 3
   \<and> m_num_beams_allocated (snd (set_scan_sequence example_platform (example_lines 3) example_two_lines)) = 3
   \<and> num_allocations (snd (set_scan_sequence example_platform (example_lines 3) example_two_lines))
       = num_allocations example_two_lines + 5
   \<and> set_scan_sequence example_platform (example_lines 1) example_two_lines
       = (Inr (), example_two_lines\<lparr>m_can_change_cuda_device := False, m_scan_seq := Some (example_lines 1)\<rparr>)"
proof -
  have f: "m_param_sound_speed (base example_two_lines) = 1540"
    "sampling_frequency (m_excitation example_two_lines) = 1000000"
    "m_num_time_samples example_two_lines = 8192"
    "m_num_beams_allocated example_two_lines = 2"
    "m_param_num_cuda_streams example_two_lines = 2"
    by (simp_all add: example_two_lines_eq example_excited_fields)
  have l: "length (scanlines (example_lines n)) = n" for n
    by (simp add: example_lines_def)
  have h: "compute_num_rf_samples example_platform (m_param_sound_speed (base example_two_lines))
      (line_length (example_lines n)) (sampling_frequency (m_excitation example_two_lines))
     \<le> m_num_time_samples example_two_lines" for n
    by (simp add: f example_num_rf)
  show ?thesis
    using set_scan_sequence_reallocation [OF h [of 3]] set_scan_sequence_reallocation [OF h [of 1]] h [of 3]
    by (simp add: f l)
qed

text \<open>
  Claim C5. The spline upload throws \<^verbatim>\<open>No scatterers\<close> when the collection is empty, and
  throws the maximum-degree error when the degree exceeds \<^verbatim>\<open>MAX_SPLINE_DEGREE\<close>; in both
  cases nothing has been allocated and no control point, amplitude or knot has reached the
  device members.
\<close>

theorem spline_upload_refused_early:
  "(num_scatterers sc = 0 \<longrightarrow>
      copy_scatterers_to_device_spline env sc s
        = (Inl (RuntimeError ''No scatterers''),
           s\<lparr>m_can_change_cuda_device := False, m_num_spline_scatterers := 0\<rparr>))
   \<and> (num_scatterers sc \<noteq> 0 \<and> MAX_SPLINE_DEGREE env < spline_degree sc \<longrightarrow>
      copy_scatterers_to_device_spline env sc s
        = (Inl (RuntimeError (''maximum spline degree supported is '' @ to_string (MAX_SPLINE_DEGREE env))),
           s\<lparr>m_can_change_cuda_device := False,
             m_num_spline_scatterers := num_scatterers sc,
             m_spline_degree := spline_degree sc,
             m_num_cs := get_num_control_points sc\<rparr>))
   \<and> (num_scatterers sc = 0 \<or> MAX_SPLINE_DEGREE env < spline_degree sc \<longrightarrow>
      (let s' = snd (copy_scatterers_to_device_spline env sc s)
       in num_allocations s' = num_allocations s
          \<and> m_device_control_xs s' = m_device_control_xs s
          \<and> m_device_control_ys s' = m_device_control_ys s
          \<and> m_device_control_zs s' = m_device_control_zs s
          \<and> m_device_control_as s' = m_device_control_as s
          \<and> m_common_knots s' = m_common_knots s))"
  by (auto simp: copy_scatterers_to_device_spline_def Let_def)

text \<open>
  Claim C5, an instance: an empty collection, and one scatterer of degree 5 where the
  maximum is 4.
\<close>

theorem spline_upload_refused_early_witness:
  "num_scatterers example_no_scatterers = 0
   \<and> copy_scatterers_to_device_spline example_platform example_no_scatterers example_two_lines
        = (Inl (RuntimeError ''No scatterers''),
           example_two_lines\<lparr>m_can_change_cuda_device := False, m_num_spline_scatterers := 0\<rparr>)
   \<and> num_scatterers example_too_high \<noteq> 0
   \<and> MAX_SPLINE_DEGREE example_platform < spline_degree example_too_high
   \<and> fst (copy_scatterers_to_device_spline example_platform example_too_high example_two_lines)
        = Inl (RuntimeError ''maximum spline degree supported is 4'')
   \<and> num_allocations (snd (copy_scatterers_to_device_spline example_platform example_too_high example_two_lines))
        = num_allocations example_two_lines
   \<and> m_device_control_xs (snd (copy_scatterers_to_device_spline example_platform example_too_high example_two_lines))
        = None"
proof -
  have a: "num_scatterers example_no_scatterers = 0"
    by (simp add: num_scatterers_def example_no_scatterers_def)
  have b: "num_scatterers example_too_high \<noteq> 0" "MAX_SPLINE_DEGREE example_platform < spline_degree example_too_high"
    by (simp_all add: num_scatterers_def example_too_high_def example_platform_def)
  have c: "to_string (MAX_SPLINE_DEGREE example_platform) = ''4''"
    by code_simp
  have d: "m_device_control_xs example_two_lines = None"
    by (simp add: example_two_lines_eq)
       (simp add: example_excited_def set_excitation_def Let_def example_new_def GpuAlgorithm_ctor_def
          example_platform_def example_init_def example_excitation_def
          save_cuda_device_properties_def get_num_cuda_devices_def create_dummy_lut_profile_def)
  show ?thesis
    using spline_upload_refused_early [of example_no_scatterers example_platform example_two_lines]
      spline_upload_refused_early [of example_too_high example_platform example_two_lines]
    by (simp add: a b c d Let_def)
qed

section \<open>The lookup-table beam profile\<close>

lemma length_concat_blocks:
  "(\<And>i. i < n \<Longrightarrow> length (g i) = m) \<Longrightarrow> length (concat (map g [0..<n])) = n * m"
  by (induction n) simp_all

lemma nth_concat_blocks:
  "(\<And>i. i < n \<Longrightarrow> length (g i) = m) \<Longrightarrow> i < n \<Longrightarrow> j < m \<Longrightarrow>
     concat (map g [0..<n]) ! (i * m + j) = g i ! j"
proof (induction n)
  case 0
  then show ?case by simp
next
  case (Suc n)
  have len: "length (concat (map g [0..<n])) = n * m"
    using Suc.prems(1) by (simp add: length_concat_blocks)
  show ?case
  proof (cases "i < n")
    case True
    have "i * m + j < Suc i * m" using Suc.prems(3) by simp
    also have "\<dots> \<le> n * m" using True by (simp add: Suc_leI mult_le_mono1 del: mult_Suc)
    finally have "i * m + j < n * m" .
    then show ?thesis
      using Suc.IH [OF _ True Suc.prems(3)] Suc.prems(1) len by (simp add: nth_append)
  next
    case False
    then have "i = n" using Suc.prems(2) by simp
    then show ?thesis using len by (simp add: nth_append)
  qed
qed

lemma lut_temp_samples_nth:
  assumes "zi < nat (getNumSamplesRadial p)" "yi < nat (getNumSamplesLateral p)"
    "xi < nat (getNumSamplesElevational p)"
  shows "lut_temp_samples p ! ((zi * nat (getNumSamplesLateral p) + yi) * nat (getNumSamplesElevational p) + xi)
           = lut_sample p zi yi xi"
proof -
  let ?nl = "nat (getNumSamplesLateral p)" and ?ne = "nat (getNumSamplesElevational p)"
  let ?row = "\<lambda>zi yi. map (\<lambda>xi. lut_sample p zi yi xi) [0..<?ne]"
  let ?slab = "\<lambda>zi. concat (map (?row zi) [0..<?nl])"
  have slab_len: "length (?slab z) = ?nl * ?ne" for z
    by (rule length_concat_blocks) simp
  have inner: "yi * ?ne + xi < ?nl * ?ne"
  proof -
    have "yi * ?ne + xi < Suc yi * ?ne" using assms(3) by simp
    also have "\<dots> \<le> ?nl * ?ne" using assms(2) by (simp add: Suc_leI mult_le_mono1 del: mult_Suc)
    finally show ?thesis .
  qed
  have idx: "(zi * ?nl + yi) * ?ne + xi = zi * (?nl * ?ne) + (yi * ?ne + xi)"
    by (simp add: algebra_simps)
  have "lut_temp_samples p ! (zi * (?nl * ?ne) + (yi * ?ne + xi)) = ?slab zi ! (yi * ?ne + xi)"
    unfolding lut_temp_samples_def
    by (rule nth_concat_blocks) (simp_all add: slab_len assms(1) inner)
  also have "\<dots> = ?row zi yi ! xi"
    by (rule nth_concat_blocks) (simp_all add: assms)
  also have "\<dots> = lut_sample p zi yi xi"
    using assms(3) by simp
  finally show ?thesis by (simp add: idx)
qed

text \<open>
  Claim C7, as amended. \<^verbatim>\<open>set_lookup_profile\<close> iterates the radial index outermost and
  stores one sample per iteration, so the sample of the indices \<open>(zi, yi, xi)\<close> is at flat
  position \<open>(zi * num_lateral + yi) * num_elevational + xi\<close>. For a table with as many
  lateral as elevational samples, every count above one and a product of the counts within
  the range of \<^verbatim>\<open>int\<close>, this is the profile at the \<open>zi\<close>-th radial, the \<open>xi\<close>-th lateral and
  the \<open>yi\<close>-th elevational coordinate of the regular grid: the innermost index walks the
  lateral range and the middle index the elevational range.
\<close>

theorem set_lookup_profile_grid:
  assumes "getNumSamplesLateral p = n" "getNumSamplesElevational p = n" "1 < n"
    "1 < getNumSamplesRadial p" "getNumSamplesRadial p * n * n \<le> 2147483647"
    "zi < nat (getNumSamplesRadial p)" "yi < nat n" "xi < nat n"
  shows "\<exists>s' t. set_lookup_profile (LUTProfile p) s = (Inr (), s')
           \<and> m_device_beam_profile s' = Some t
           \<and> m_cur_beam_profile_type s' = LOOKUP
           \<and> length (table_samples t) = nat (getNumSamplesRadial p) * nat n * nat n
           \<and> table_samples t ! ((zi * nat n + yi) * nat n + xi)
               = sampleProfile p (regular_grid_coordinate (getRangeRange p) (getNumSamplesRadial p) zi)
                   (regular_grid_coordinate (getLateralRange p) n xi)
                   (regular_grid_coordinate (getElevationalRange p) n yi)"
proof -
  have len: "length (lut_temp_samples p) = nat (getNumSamplesRadial p) * (nat n * nat n)"
  proof -
    have "length (concat (map (\<lambda>yi. map (\<lambda>xi. lut_sample p z yi xi) [0..<nat n]) [0..<nat n])) = nat n * nat n" for z
      by (rule length_concat_blocks) simp
    then show ?thesis
      unfolding lut_temp_samples_def assms(1) assms(2)
      by (rule length_concat_blocks)
  qed
  have pos: "0 < getNumSamplesRadial p * n"
    using assms(3,4) by simp
  have "getNumSamplesRadial p * n * 1 \<le> getNumSamplesRadial p * n * n"
    using pos assms(3) by (intro mult_left_mono) simp_all
  then have le: "getNumSamplesRadial p * n \<le> 2147483647"
    using assms(5) by simp
  have pos3: "0 < getNumSamplesRadial p * n * n"
    using pos assms(3) by simp
  have fits: "fits_int (getNumSamplesRadial p * n)" "fits_int (getNumSamplesRadial p * n * n)"
    "\<not> getNumSamplesRadial p * n * n < 0"
    using pos pos3 le assms(5) by (simp_all add: fits_int_def)
  have "lut_temp_samples p ! ((zi * nat n + yi) * nat n + xi) = lut_sample p zi yi xi"
    using lut_temp_samples_nth [of zi p yi xi] assms by simp
  then show ?thesis
    using len fits
    by (simp add: set_lookup_profile_def Let_def lut_sample_def regular_grid_coordinate_def assms(1,2))
qed

text \<open>Claim C7, an instance: a table of 3 by 2 by 2 samples.\<close>

theorem set_lookup_profile_grid_witness:
  "getNumSamplesLateral (example_lut\<lparr>getNumSamplesRadial := 3\<rparr>) = 2
   \<and> getNumSamplesElevational (example_lut\<lparr>getNumSamplesRadial := 3\<rparr>) = 2
   \<and> (1::int) < 2 \<and> 1 < getNumSamplesRadial (example_lut\<lparr>getNumSamplesRadial := 3\<rparr>)
   \<and> getNumSamplesRadial (example_lut\<lparr>getNumSamplesRadial := 3\<rparr>) * 2 * 2 \<le> 2147483647
   \<and> (2::nat) < nat (getNumSamplesRadial (example_lut\<lparr>getNumSamplesRadial := 3\<rparr>))
   \<and> (0::nat) < nat 2 \<and> (1::nat) < nat 2
   \<and> table_samples (the (m_device_beam_profile
        (snd (set_lookup_profile (LUTProfile (example_lut\<lparr>getNumSamplesRadial := 3\<rparr>)) example_new))))
        ! ((2 * nat 2 + 0) * nat 2 + 1) = 3 / 2"
proof -
  have f: "getNumSamplesLateral (example_lut\<lparr>getNumSamplesRadial := 3\<rparr>) = 2"
    "getNumSamplesElevational (example_lut\<lparr>getNumSamplesRadial := 3\<rparr>) = 2"
    "1 < getNumSamplesRadial (example_lut\<lparr>getNumSamplesRadial := 3\<rparr>)"
    "getNumSamplesRadial (example_lut\<lparr>getNumSamplesRadial := 3\<rparr>) * 2 * 2 \<le> 2147483647"
    "(2::nat) < nat (getNumSamplesRadial (example_lut\<lparr>getNumSamplesRadial := 3\<rparr>))"
    by (simp_all add: example_lut_def)
  have v: "sampleProfile (example_lut\<lparr>getNumSamplesRadial := 3\<rparr>)
             (regular_grid_coordinate (getRangeRange (example_lut\<lparr>getNumSamplesRadial := 3\<rparr>))
                (getNumSamplesRadial (example_lut\<lparr>getNumSamplesRadial := 3\<rparr>)) 2)
             (regular_grid_coordinate (getLateralRange (example_lut\<lparr>getNumSamplesRadial := 3\<rparr>)) 2 1)
             (regular_grid_coordinate (getElevationalRange (example_lut\<lparr>getNumSamplesRadial := 3\<rparr>)) 2 0) = 3 / 2"
    by (simp add: example_lut_def regular_grid_coordinate_def)
  show ?thesis
    using set_lookup_profile_grid [OF f(1) f(2) _ f(3) f(4) f(5), of 0 1 example_new] f v
    by auto
qed

text \<open>
  Claim C7 as first stated fails. In the table of 2 by 2 by 2 samples over the lateral range
  \<open>[0, 1]\<close> and the elevational range \<open>[0, 10]\<close>, the sample at \<open>zi = 0\<close>, \<open>yi = 0\<close>, \<open>xi = 1\<close>
  is the profile at lateral 1 and elevational 0, which is 1; the profile at the \<open>yi\<close>-th
  lateral and the \<open>xi\<close>-th elevational coordinate, lateral 0 and elevational 10, is 1000.
\<close>

theorem set_lookup_profile_not_lateral_middle:
  "fst (set_lookup_profile (LUTProfile example_lut) example_new) = Inr ()
   \<and> example_lut_table ! ((0 * 2 + 0) * 2 + 1) = 1
   \<and> sampleProfile example_lut
        (regular_grid_coordinate (getRangeRange example_lut) (getNumSamplesRadial example_lut) 0)
        (regular_grid_coordinate (getLateralRange example_lut) (getNumSamplesLateral example_lut) 0)
        (regular_grid_coordinate (getElevationalRange example_lut) (getNumSamplesElevational example_lut) 1)
       = 1000
   \<and> example_lut_table ! ((0 * 2 + 0) * 2 + 1)
       \<noteq> sampleProfile example_lut
        (regular_grid_coordinate (getRangeRange example_lut) (getNumSamplesRadial example_lut) 0)
        (regular_grid_coordinate (getLateralRange example_lut) (getNumSamplesLateral example_lut) 0)
        (regular_grid_coordinate (getElevationalRange example_lut) (getNumSamplesElevational example_lut) 1)"
  by (simp add: example_lut_table_def set_lookup_profile_def Let_def lut_temp_samples_def lut_sample_def
      example_lut_def regular_grid_coordinate_def upt_rec fits_int_def)

section \<open>The spline upload\<close>

lemma offset_inj:
  assumes "(a::nat) < n" "b < n" "a + i * n = b + j * n"
  shows "a = b \<and> i = j"
proof -
  have "a = (a + i * n) mod n" using assms(1) by simp
  also have "\<dots> = (b + j * n) mod n" using assms(3) by simp
  also have "\<dots> = b" using assms(2) by simp
  finally have "a = b" .
  then show ?thesis using assms by simp
qed

lemma offset_bound: "(a::nat) < n \<Longrightarrow> i < m \<Longrightarrow> a + i * n < n * m"
proof -
  assume "a < n" "i < m"
  then have "a + i * n < Suc i * n" by simp
  also have "\<dots> \<le> m * n" using \<open>i < m\<close> by (simp add: Suc_leI mult_le_mono1 del: mult_Suc)
  finally show ?thesis by (simp add: mult.commute)
qed

lemma reorganize_inner_Inr:
  assumes "reorganize_inner cps sp n idxs (xs, ys, zs) = Inr (xs', ys', zs')"
    "0 < n" "length xs = len" "length ys = len" "length zs = len" "\<forall>i\<in>set idxs. sp + i * n < len"
  shows "length xs' = len \<and> length ys' = len \<and> length zs' = len
     \<and> (\<forall>i\<in>set idxs. i < length cps \<and> xs' ! (sp + i * n) = x_of (cps ! i)
            \<and> ys' ! (sp + i * n) = y_of (cps ! i) \<and> zs' ! (sp + i * n) = z_of (cps ! i))
     \<and> (\<forall>k. (\<forall>i\<in>set idxs. k \<noteq> sp + i * n) \<longrightarrow> xs' ! k = xs ! k \<and> ys' ! k = ys ! k \<and> zs' ! k = zs ! k)"
  using assms
proof (induction idxs arbitrary: xs ys zs)
  case Nil
  then show ?case by simp
next
  case (Cons i rest)
  let ?o = "sp + i * n"
  have i: "i < length cps"
    using Cons.prems(1) by (simp add: Let_def split: if_splits)
  let ?xs = "xs[?o := x_of (cps ! i)]" and ?ys = "ys[?o := y_of (cps ! i)]" and ?zs = "zs[?o := z_of (cps ! i)]"
  have rec: "reorganize_inner cps sp n rest (?xs, ?ys, ?zs) = Inr (xs', ys', zs')"
    using Cons.prems(1) i by (simp add: Let_def)
  have IH: "length xs' = len \<and> length ys' = len \<and> length zs' = len
     \<and> (\<forall>j\<in>set rest. j < length cps \<and> xs' ! (sp + j * n) = x_of (cps ! j)
            \<and> ys' ! (sp + j * n) = y_of (cps ! j) \<and> zs' ! (sp + j * n) = z_of (cps ! j))
     \<and> (\<forall>k. (\<forall>j\<in>set rest. k \<noteq> sp + j * n) \<longrightarrow> xs' ! k = ?xs ! k \<and> ys' ! k = ?ys ! k \<and> zs' ! k = ?zs ! k)"
    using Cons.IH [OF rec Cons.prems(2)] Cons.prems by simp
  have o: "?o < len" using Cons.prems(6) by simp
  have head: "xs' ! ?o = x_of (cps ! i) \<and> ys' ! ?o = y_of (cps ! i) \<and> zs' ! ?o = z_of (cps ! i)"
  proof (cases "i \<in> set rest")
    case True
    then show ?thesis using IH by blast
  next
    case False
    have "\<forall>j\<in>set rest. ?o \<noteq> sp + j * n"
    proof
      fix j assume "j \<in> set rest"
      then have "j \<noteq> i" using False by auto
      then show "?o \<noteq> sp + j * n" using Cons.prems(2) by simp
    qed
    then have "xs' ! ?o = ?xs ! ?o \<and> ys' ! ?o = ?ys ! ?o \<and> zs' ! ?o = ?zs ! ?o"
      using IH by blast
    then show ?thesis using o Cons.prems(3,4,5) by simp
  qed
  have frame: "xs' ! k = xs ! k \<and> ys' ! k = ys ! k \<and> zs' ! k = zs ! k"
    if "\<forall>j\<in>set (i # rest). k \<noteq> sp + j * n" for k
  proof -
    have "xs' ! k = ?xs ! k \<and> ys' ! k = ?ys ! k \<and> zs' ! k = ?zs ! k"
      using IH that by simp
    moreover have "k \<noteq> ?o" using that by simp
    ultimately show ?thesis by simp
  qed
  show ?case
    using IH head i frame by auto
qed

lemma reorganize_outer_Inr:
  assumes "reorganize_outer sc n num_cs sps (as, xs, ys, zs) = Inr (as', xs', ys', zs')"
    "0 < n" "\<forall>sp\<in>set sps. sp < n"
    "length as = n" "length xs = n * num_cs" "length ys = n * num_cs" "length zs = n * num_cs"
  shows "length as' = n \<and> length xs' = n * num_cs \<and> length ys' = n * num_cs \<and> length zs' = n * num_cs
     \<and> (\<forall>sp\<in>set sps. as' ! sp = amplitudes sc ! sp
           \<and> (\<forall>i<num_cs. i < length (control_points sc ! sp)
                 \<and> xs' ! (sp + i * n) = x_of (control_points sc ! sp ! i)
                 \<and> ys' ! (sp + i * n) = y_of (control_points sc ! sp ! i)
                 \<and> zs' ! (sp + i * n) = z_of (control_points sc ! sp ! i)))
     \<and> (\<forall>sp. sp \<notin> set sps \<and> sp < n \<longrightarrow> as' ! sp = as ! sp
           \<and> (\<forall>i. xs' ! (sp + i * n) = xs ! (sp + i * n) \<and> ys' ! (sp + i * n) = ys ! (sp + i * n)
                 \<and> zs' ! (sp + i * n) = zs ! (sp + i * n)))"
  using assms
proof (induction sps arbitrary: as xs ys zs)
  case Nil
  then show ?case by simp
next
  case (Cons sp0 rest)
  have sp0: "sp0 < n" using Cons.prems(3) by simp
  obtain xs1 ys1 zs1 where
    inner: "reorganize_inner (control_points sc ! sp0) sp0 n [0..<num_cs] (xs, ys, zs) = Inr (xs1, ys1, zs1)"
    and rec: "reorganize_outer sc n num_cs rest (as[sp0 := amplitudes sc ! sp0], xs1, ys1, zs1)
                = Inr (as', xs', ys', zs')"
    using Cons.prems(1) by (auto split: if_splits sum.splits)
  have bound: "\<forall>i\<in>set [0..<num_cs]. sp0 + i * n < n * num_cs"
    using sp0 by (simp add: offset_bound)
  note I = reorganize_inner_Inr [OF inner Cons.prems(2) Cons.prems(5) Cons.prems(6) Cons.prems(7) bound]
  have IH: "length as' = n \<and> length xs' = n * num_cs \<and> length ys' = n * num_cs \<and> length zs' = n * num_cs
     \<and> (\<forall>sp\<in>set rest. as' ! sp = amplitudes sc ! sp
           \<and> (\<forall>i<num_cs. i < length (control_points sc ! sp)
                 \<and> xs' ! (sp + i * n) = x_of (control_points sc ! sp ! i)
                 \<and> ys' ! (sp + i * n) = y_of (control_points sc ! sp ! i)
                 \<and> zs' ! (sp + i * n) = z_of (control_points sc ! sp ! i)))
     \<and> (\<forall>sp. sp \<notin> set rest \<and> sp < n \<longrightarrow> as' ! sp = (as[sp0 := amplitudes sc ! sp0]) ! sp
           \<and> (\<forall>i. xs' ! (sp + i * n) = xs1 ! (sp + i * n) \<and> ys' ! (sp + i * n) = ys1 ! (sp + i * n)
                 \<and> zs' ! (sp + i * n) = zs1 ! (sp + i * n)))"
    using Cons.IH [OF rec Cons.prems(2)] Cons.prems(3,4) I by simp
  have head: "as' ! sp0 = amplitudes sc ! sp0
           \<and> (\<forall>i<num_cs. i < length (control_points sc ! sp0)
                 \<and> xs' ! (sp0 + i * n) = x_of (control_points sc ! sp0 ! i)
                 \<and> ys' ! (sp0 + i * n) = y_of (control_points sc ! sp0 ! i)
                 \<and> zs' ! (sp0 + i * n) = z_of (control_points sc ! sp0 ! i))"
  proof (cases "sp0 \<in> set rest")
    case True
    then show ?thesis using IH by blast
  next
    case False
    then have "as' ! sp0 = (as[sp0 := amplitudes sc ! sp0]) ! sp0
           \<and> (\<forall>i. xs' ! (sp0 + i * n) = xs1 ! (sp0 + i * n) \<and> ys' ! (sp0 + i * n) = ys1 ! (sp0 + i * n)
                 \<and> zs' ! (sp0 + i * n) = zs1 ! (sp0 + i * n))"
      using IH sp0 by blast
    then show ?thesis using I sp0 Cons.prems(4) by simp
  qed
  have frame: "as' ! sp = as ! sp
           \<and> (\<forall>i. xs' ! (sp + i * n) = xs ! (sp + i * n) \<and> ys' ! (sp + i * n) = ys ! (sp + i * n)
                 \<and> zs' ! (sp + i * n) = zs ! (sp + i * n))"
    if "sp \<notin> set (sp0 # rest)" "sp < n" for sp
  proof -
    have ne: "sp \<noteq> sp0" and nr: "sp \<notin> set rest" using that(1) by auto
    have a: "as' ! sp = as ! sp" using IH nr that(2) ne by simp
    have "xs1 ! (sp + i * n) = xs ! (sp + i * n) \<and> ys1 ! (sp + i * n) = ys ! (sp + i * n)
            \<and> zs1 ! (sp + i * n) = zs ! (sp + i * n)" for i
    proof -
      have "\<forall>j\<in>set [0..<num_cs]. sp + i * n \<noteq> sp0 + j * n"
        using offset_inj [OF that(2) sp0] ne by blast
      then show ?thesis using I by blast
    qed
    then show ?thesis using IH nr that(2) a by simp
  qed
  show ?case
    using IH head frame by auto
qed

text \<open>
  Claim C6. After a successful spline upload of \<open>N\<close> scatterers with \<open>num_cs\<close> control
  points each, the arrays that were flattened on the host and copied to the device hold, at
  offset \<open>s + i * N\<close>, the x, y and z component of control point \<open>i\<close> of scatterer \<open>s\<close>, and
  the amplitude array holds the amplitude of scatterer \<open>s\<close> at offset \<open>s\<close>.
\<close>

theorem spline_upload_layout:
  assumes "copy_scatterers_to_device_spline env sc s = (Inr (), s')"
  shows "\<exists>xs ys zs as.
           m_device_control_xs s' = Some xs \<and> m_device_control_ys s' = Some ys
         \<and> m_device_control_zs s' = Some zs \<and> m_device_control_as s' = Some as
         \<and> length xs = num_scatterers sc * get_num_control_points sc
         \<and> length ys = num_scatterers sc * get_num_control_points sc
         \<and> length zs = num_scatterers sc * get_num_control_points sc
         \<and> length as = num_scatterers sc
         \<and> (\<forall>spline_no < num_scatterers sc.
               as ! spline_no = amplitudes sc ! spline_no
             \<and> (\<forall>i < get_num_control_points sc.
                   xs ! (spline_no + i * num_scatterers sc) = x_of (control_points sc ! spline_no ! i)
                 \<and> ys ! (spline_no + i * num_scatterers sc) = y_of (control_points sc ! spline_no ! i)
                 \<and> zs ! (spline_no + i * num_scatterers sc) = z_of (control_points sc ! spline_no ! i)))"
proof -
  let ?n = "num_scatterers sc" and ?c = "get_num_control_points sc"
  have n: "0 < ?n"
    using assms by (auto simp: copy_scatterers_to_device_spline_def Let_def split: if_splits)
  obtain as xs ys zs where
    loop: "reorganize_outer sc ?n ?c [0..<?n]
             (replicate ?n 0, replicate (?n * ?c) 0, replicate (?n * ?c) 0, replicate (?n * ?c) 0)
           = Inr (as, xs, ys, zs)"
    and dev: "m_device_control_xs s' = Some xs" "m_device_control_ys s' = Some ys"
      "m_device_control_zs s' = Some zs" "m_device_control_as s' = Some as"
    using assms n
    by (auto simp: copy_scatterers_to_device_spline_def Let_def split: if_splits sum.splits)
  have "\<forall>sp\<in>set [0..<?n]. sp < ?n" by simp
  note R = reorganize_outer_Inr [OF loop n this]
  show ?thesis
    using R dev by simp
qed

text \<open>Claim C6, an instance: two scatterers of three control points each.\<close>

theorem spline_upload_layout_witness:
  "copy_scatterers_to_device_spline example_platform example_splines example_new = (Inr (), example_uploaded)
   \<and> num_scatterers example_splines = 2 \<and> get_num_control_points example_splines = 3
   \<and> m_device_control_xs example_uploaded = Some [1, 10, 4, 40, 7, 70]
   \<and> the (m_device_control_ys example_uploaded) ! (1 + 2 * 2) = y_of (control_points example_splines ! 1 ! 2)
   \<and> the (m_device_control_as example_uploaded) ! 1 = 22"
proof -
  have ok: "copy_scatterers_to_device_spline example_platform example_splines example_new
              = (Inr (), example_uploaded)"
    by (simp add: example_uploaded_def copy_scatterers_to_device_spline_def Let_def num_scatterers_def
        get_num_control_points_def example_splines_def example_platform_def upt_rec)
  have c: "num_scatterers example_splines = 2" "get_num_control_points example_splines = 3"
    by (simp_all add: num_scatterers_def get_num_control_points_def example_splines_def)
  have x: "m_device_control_xs example_uploaded = Some [1, 10, 4, 40, 7, 70]"
    by (simp add: example_uploaded_def copy_scatterers_to_device_spline_def Let_def num_scatterers_def
        get_num_control_points_def example_splines_def example_platform_def upt_rec x_of_def)
  have a: "amplitudes example_splines ! 1 = 22"
    by (simp add: example_splines_def)
  obtain xs ys zs as where
    d: "m_device_control_ys example_uploaded = Some ys" "m_device_control_as example_uploaded = Some as"
    and q: "\<forall>spline_no < num_scatterers example_splines.
               as ! spline_no = amplitudes example_splines ! spline_no
             \<and> (\<forall>i < get_num_control_points example_splines.
                   xs ! (spline_no + i * num_scatterers example_splines)
                     = x_of (control_points example_splines ! spline_no ! i)
                 \<and> ys ! (spline_no + i * num_scatterers example_splines)
                     = y_of (control_points example_splines ! spline_no ! i)
                 \<and> zs ! (spline_no + i * num_scatterers example_splines)
                     = z_of (control_points example_splines ! spline_no ! i))"
    using spline_upload_layout [OF ok] by blast
  have "(1::nat) < num_scatterers example_splines" "(2::nat) < get_num_control_points example_splines"
    by (simp_all add: c)
  with q have "as ! 1 = amplitudes example_splines ! 1
      \<and> ys ! (1 + 2 * num_scatterers example_splines) = y_of (control_points example_splines ! 1 ! 2)"
    by blast
  then show ?thesis
    using ok c x a d by simp
qed

section \<open>The output assembly loop\<close>

lemma collect_samples_partial:
  assumes "collect_samples host n d c i acc = Some y"
  shows "\<forall>r. y = Inr r \<longrightarrow> collected host n d c i acc r"
proof (rule collect_samples.raw_induct
    [where P = "\<lambda>host n d c i acc y. \<forall>r. y = Inr r \<longrightarrow> collected host n d c i acc r", OF _ assms])
  fix f :: "complex list \<Rightarrow> nat \<Rightarrow> nat \<Rightarrow> nat \<Rightarrow> nat \<Rightarrow> complex list \<Rightarrow> (error + complex list) option"
  fix host n d c i acc y
  assume IH: "\<And>host n d c i acc y. f host n d c i acc = Some y
                 \<Longrightarrow> \<forall>r. y = Inr r \<longrightarrow> collected host n d c i acc r"
  assume step: "(if i < n
      then if i + c < length host
           then f host n d c (i + d) (acc @ [host ! (i + c)])
           else Some (Inl (UndefinedBehaviour ''host line read out of range''))
      else Some (Inr acc)) = Some y"
  show "\<forall>r. y = Inr r \<longrightarrow> collected host n d c i acc r"
  proof (intro allI impI)
    fix r assume y: "y = Inr r"
    show "collected host n d c i acc r"
    proof (cases "i < n")
      case False
      then have "r = acc" using step y by simp
      then show ?thesis using False by (simp add: collected_def)
    next
      case True
      have rd: "i + c < length host"
        using step y True by (simp split: if_splits)
      have call: "f host n d c (i + d) (acc @ [host ! (i + c)]) = Some (Inr r)"
        using step y True rd by simp
      from IH [OF call] obtain out where
        r: "r = (acc @ [host ! (i + c)]) @ out"
        and len: "\<forall>k. (i + d + k * d < n) = (k < length out)"
        and val: "\<forall>k<length out. i + d + k * d + c < length host \<and> out ! k = host ! (i + d + k * d + c)"
        unfolding collected_def by blast
      let ?out = "host ! (i + c) # out"
      have a: "r = acc @ ?out" using r by simp
      have b: "(i + k * d < n) = (k < length ?out)" for k
      proof (cases k)
        case 0
        then show ?thesis using True by simp
      next
        case (Suc k')
        have "i + Suc k' * d = i + d + k' * d" by simp
        then show ?thesis using len Suc by (simp add: add.assoc)
      qed
      have c: "i + k * d + c < length host \<and> ?out ! k = host ! (i + k * d + c)" if "k < length ?out" for k
      proof (cases k)
        case 0
        then show ?thesis using rd by simp
      next
        case (Suc k')
        have "i + Suc k' * d = i + d + k' * d" by simp
        moreover have "k' < length out" using that Suc by simp
        ultimately show ?thesis using val Suc by (simp add: add.assoc)
      qed
      show ?thesis unfolding collected_def using a b c by blast
    qed
  qed
qed

lemma collect_samples_total:
  assumes "0 < d" "n + c \<le> length host"
  shows "\<exists>r. collect_samples host n d c i acc = Some (Inr r)"
  using assms
proof (induction "n - i" arbitrary: i acc rule: less_induct)
  case less
  show ?case
  proof (cases "i < n")
    case False
    then show ?thesis by (subst collect_samples.simps) simp
  next
    case True
    then have "n - (i + d) < n - i" using less.prems(1) by simp
    from less.hyps [OF this less.prems] obtain r where
      "collect_samples host n d c (i + d) (acc @ [host ! (i + c)]) = Some (Inr r)" by blast
    then show ?thesis
      using True less.prems(2) by (subst collect_samples.simps) simp
  qed
qed

lemma collect_samples_no_error:
  assumes "collect_samples host n d c i acc = Some y"
  shows "n + c \<le> length host \<longrightarrow> (\<forall>e. y \<noteq> Inl e)"
proof (rule collect_samples.raw_induct
    [where P = "\<lambda>host n d c i acc y. n + c \<le> length host \<longrightarrow> (\<forall>e. y \<noteq> Inl e)", OF _ assms])
  fix f :: "complex list \<Rightarrow> nat \<Rightarrow> nat \<Rightarrow> nat \<Rightarrow> nat \<Rightarrow> complex list \<Rightarrow> (error + complex list) option"
  fix host n d c i acc y
  assume IH: "\<And>host n d c i acc y. f host n d c i acc = Some y
                 \<Longrightarrow> n + c \<le> length host \<longrightarrow> (\<forall>e. y \<noteq> Inl e)"
  assume step: "(if i < n
      then if i + c < length host
           then f host n d c (i + d) (acc @ [host ! (i + c)])
           else Some (Inl (UndefinedBehaviour ''host line read out of range''))
      else Some (Inr acc)) = Some y"
  show "n + c \<le> length host \<longrightarrow> (\<forall>e. y \<noteq> Inl e)"
  proof (cases "i < n")
    case False
    then show ?thesis using step by auto
  next
    case True
    show ?thesis
    proof (cases "i + c < length host")
      case False
      then show ?thesis using True by simp
    next
      case rd: True
      then have "f host n d c (i + d) (acc @ [host ! (i + c)]) = Some y"
        using step True by simp
      from IH [OF this] show ?thesis .
    qed
  qed
qed

text \<open>The loop reads the host line only at \<open>i + delay\<close> with \<open>i < n\<close>, and uses its length.\<close>

lemma collect_samples_reads:
  assumes "length host' = length host" "\<forall>i<n. i + c < length host \<longrightarrow> host' ! (i + c) = host ! (i + c)"
    "collect_samples host n d c i acc = Some y"
  shows "collect_samples host' n d c i acc = Some y"
proof -
  have "length host' = length host \<and> (\<forall>i<n. i + c < length host \<longrightarrow> host' ! (i + c) = host ! (i + c))
          \<longrightarrow> collect_samples host' n d c i acc = Some y"
  proof (rule collect_samples.raw_induct
    [where P = "\<lambda>host n d c i acc y. length host' = length host
        \<and> (\<forall>i<n. i + c < length host \<longrightarrow> host' ! (i + c) = host ! (i + c))
          \<longrightarrow> collect_samples host' n d c i acc = Some y", OF _ assms(3)])
    fix f :: "complex list \<Rightarrow> nat \<Rightarrow> nat \<Rightarrow> nat \<Rightarrow> nat \<Rightarrow> complex list \<Rightarrow> (error + complex list) option"
    fix host n d c i acc y
    assume IH: "\<And>host n d c i acc y. f host n d c i acc = Some y
                 \<Longrightarrow> length host' = length host
        \<and> (\<forall>i<n. i + c < length host \<longrightarrow> host' ! (i + c) = host ! (i + c))
          \<longrightarrow> collect_samples host' n d c i acc = Some y"
    assume step: "(if i < n
      then if i + c < length host
           then f host n d c (i + d) (acc @ [host ! (i + c)])
           else Some (Inl (UndefinedBehaviour ''host line read out of range''))
      else Some (Inr acc)) = Some y"
    show "length host' = length host
        \<and> (\<forall>i<n. i + c < length host \<longrightarrow> host' ! (i + c) = host ! (i + c))
          \<longrightarrow> collect_samples host' n d c i acc = Some y"
    proof
      assume h: "length host' = length host
        \<and> (\<forall>i<n. i + c < length host \<longrightarrow> host' ! (i + c) = host ! (i + c))"
      show "collect_samples host' n d c i acc = Some y"
      proof (cases "i < n \<and> i + c < length host")
        case False
        then show ?thesis using step h by (subst collect_samples.simps) (auto split: if_splits)
      next
        case True
        then have "f host n d c (i + d) (acc @ [host ! (i + c)]) = Some y"
          using step by simp
        from IH [OF this] h have "collect_samples host' n d c (i + d) (acc @ [host ! (i + c)]) = Some y"
          by blast
        then show ?thesis using True h by (subst collect_samples.simps) simp
      qed
    qed
  qed
  then show ?thesis using assms(1,2) by blast
qed

section \<open>Two objects of the same configuration\<close>

lemma same_shape_refl [simp]: "same_shape n P P"
  by (simp add: same_shape_def)

lemma same_config_refl [simp]: "same_config s s"
  by (simp add: same_config_def)

lemma same_configE:
  assumes "same_config s t"
  obtains dd P H where "t = s\<lparr>m_debug_data := dd, m_device_time_proj := P, m_host_rf_lines := H\<rparr>"
    "same_shape (m_num_time_samples s) (m_device_time_proj s) P"
    "same_shape (m_num_time_samples s) (m_host_rf_lines s) H"
  using assms unfolding same_config_def by blast

lemma same_configI:
  assumes "same_shape (m_num_time_samples s) (m_device_time_proj s) P"
    "same_shape (m_num_time_samples s) (m_host_rf_lines s) H"
  shows "same_config s (s\<lparr>m_debug_data := dd, m_device_time_proj := P, m_host_rf_lines := H\<rparr>)"
  using assms by (simp add: same_config_def)

lemma same_shape_sym: "same_shape n P Q \<Longrightarrow> same_shape n Q P"
  by (simp add: same_shape_def)

lemma same_shape_trans: "same_shape n P Q \<Longrightarrow> same_shape n Q R \<Longrightarrow> same_shape n P R"
  by (simp add: same_shape_def)

lemma same_config_trans:
  assumes "same_config a b" "same_config b c"
  shows "same_config a c"
proof -
  from assms(1) obtain dd P H where
    b: "b = a\<lparr>m_debug_data := dd, m_device_time_proj := P, m_host_rf_lines := H\<rparr>"
    and sh: "same_shape (m_num_time_samples a) (m_device_time_proj a) P"
      "same_shape (m_num_time_samples a) (m_host_rf_lines a) H"
    by (rule same_configE)
  from assms(2) obtain dd' P' H' where
    c: "c = b\<lparr>m_debug_data := dd', m_device_time_proj := P', m_host_rf_lines := H'\<rparr>"
    and sh': "same_shape (m_num_time_samples b) (m_device_time_proj b) P'"
      "same_shape (m_num_time_samples b) (m_host_rf_lines b) H'"
    by (rule same_configE)
  have "same_shape (m_num_time_samples a) (m_device_time_proj a) P'"
    "same_shape (m_num_time_samples a) (m_host_rf_lines a) H'"
    using sh sh' unfolding b by (auto intro: same_shape_trans)
  then show ?thesis
    unfolding c b by (simp add: same_config_def)
qed

lemma same_config_sym:
  assumes "same_config a b"
  shows "same_config b a"
proof -
  from assms obtain dd P H where
    b: "b = a\<lparr>m_debug_data := dd, m_device_time_proj := P, m_host_rf_lines := H\<rparr>"
    and sh: "same_shape (m_num_time_samples a) (m_device_time_proj a) P"
      "same_shape (m_num_time_samples a) (m_host_rf_lines a) H"
    by (rule same_configE)
  show ?thesis
    unfolding b using sh by (simp add: same_config_def same_shape_sym)
qed

lemma length_on_first: "n \<le> length xs \<Longrightarrow> length (on_first n g xs) = length xs"
  by (simp add: on_first_def)

lemma drop_on_first: "n \<le> m \<Longrightarrow> drop m (on_first n g xs) = drop m xs"
  by (simp add: on_first_def)

lemma same_config_timed:
  assumes "same_config s t"
  shows "same_config (timed tm b k s) (timed tm' b k t)"
proof -
  from assms obtain dd P H where
    t: "t = s\<lparr>m_debug_data := dd, m_device_time_proj := P, m_host_rf_lines := H\<rparr>"
    and sh: "same_shape (m_num_time_samples s) (m_device_time_proj s) P"
      "same_shape (m_num_time_samples s) (m_host_rf_lines s) H"
    by (rule same_configE)
  show ?thesis
    unfolding t using sh by (simp add: timed_def push_debug_def same_config_def)
qed

lemma same_config_timed_self: "same_config s (timed tm b k s)"
  by (simp add: timed_def push_debug_def same_config_def)

lemma same_buffer_timed:
  assumes "same_buffer n s t"
  shows "same_buffer n (timed tm b k s) (timed tm' b k t)"
proof -
  have "same_config (timed tm b k s) (timed tm' b k t)"
    using assms by (simp add: same_buffer_def same_config_timed)
  moreover have "m_device_time_proj (timed tm b k s) = m_device_time_proj s"
    "m_device_time_proj (timed tm' b k t) = m_device_time_proj t"
    "m_num_time_samples (timed tm b k s) = m_num_time_samples s"
    by (simp_all add: timed_def push_debug_def)
  ultimately show ?thesis
    using assms by (auto simp: same_buffer_def)
qed

text \<open>A kernel that keeps the length of the buffer and its part past the capacity.\<close>

lemma same_buffer_upd:
  assumes "same_config s t" "n < length (m_device_time_proj s)"
    "m_num_time_samples s \<le> length (m_device_time_proj s ! n)"
    "length (f (m_device_time_proj s ! n)) = length (m_device_time_proj s ! n)"
    "drop (m_num_time_samples s) (f (m_device_time_proj s ! n))
       = drop (m_num_time_samples s) (m_device_time_proj s ! n)"
    "f' (m_device_time_proj t ! n) = f (m_device_time_proj s ! n)"
  shows "same_buffer n (upd_time_proj n f s) (upd_time_proj n f' t)"
    and "same_config s (upd_time_proj n f s)"
proof -
  from assms(1) obtain dd P H where
    t: "t = s\<lparr>m_debug_data := dd, m_device_time_proj := P, m_host_rf_lines := H\<rparr>"
    and sh: "same_shape (m_num_time_samples s) (m_device_time_proj s) P"
      "same_shape (m_num_time_samples s) (m_host_rf_lines s) H"
    by (rule same_configE)
  show "same_buffer n (upd_time_proj n f s) (upd_time_proj n f' t)"
    using assms(2-) sh unfolding t same_buffer_def
    by (auto simp: upd_time_proj_def same_config_def same_shape_def nth_list_update)
  show "same_config s (upd_time_proj n f s)"
    using assms(2-)
    by (auto simp: upd_time_proj_def same_config_def same_shape_def nth_list_update)
qed

lemma beam_select_rel:
  assumes "same_config s t" "beam_select b s = (Inr (), s')"
  shows "\<exists>t'. beam_select b t = (Inr (), t') \<and> same_config s' t' \<and> same_config s s'
      \<and> b mod m_param_num_cuda_streams s < length (m_device_time_proj s')
      \<and> m_num_time_samples s' \<le> length (m_device_time_proj s' ! (b mod m_param_num_cuda_streams s))"
proof -
  from assms(1) obtain dd P H where
    t: "t = s\<lparr>m_debug_data := dd, m_device_time_proj := P, m_host_rf_lines := H\<rparr>"
    and sh: "same_shape (m_num_time_samples s) (m_device_time_proj s) P"
      "same_shape (m_num_time_samples s) (m_host_rf_lines s) H"
    by (rule same_configE)
  show ?thesis
    using assms(2) sh unfolding t
    by (auto simp: beam_select_def Let_def push_debug_def same_config_def same_shape_def split: if_splits)
qed


lemmas rel_simps = upd_time_proj_def timed_def push_debug_def same_buffer_def same_config_def
  same_shape_def nth_list_update length_on_first drop_on_first Let_def

lemma same_bufferD:
  assumes "same_buffer sn s t"
  shows "same_config s t" "sn < length (m_device_time_proj s)"
    "m_num_time_samples s \<le> length (m_device_time_proj s ! sn)"
    "m_device_time_proj s ! sn = m_device_time_proj t ! sn"
  using assms unfolding same_buffer_def by blast+

lemma beam_memset_rel:
  assumes "same_config s t" "sn < length (m_device_time_proj s)"
    "m_num_time_samples s \<le> length (m_device_time_proj s ! sn)"
    "beam_memset tm b sn s = (Inr (), s')"
  shows "(\<exists>t'. beam_memset tm' b sn t = (Inr (), t') \<and> same_buffer sn s' t') \<and> same_config s s'"
proof -
  from assms(1) obtain dd P H where
    t: "t = s\<lparr>m_debug_data := dd, m_device_time_proj := P, m_host_rf_lines := H\<rparr>"
    and sh: "same_shape (m_num_time_samples s) (m_device_time_proj s) P"
      "same_shape (m_num_time_samples s) (m_host_rf_lines s) H"
    by (rule same_configE)
  have "on_first (m_num_time_samples s) (\<lambda>i x. Complex 0 0) (P ! sn)
          = on_first (m_num_time_samples s) (\<lambda>i x. Complex 0 0) (m_device_time_proj s ! sn)"
    using sh(1) assms(2) by (simp add: on_first_def same_shape_def)
  then show ?thesis
    using assms(2-) sh unfolding t
    by (auto simp: beam_memset_def launch_MemsetKernel_def rel_simps)
qed

lemma beam_fft_rel:
  assumes "same_buffer sn s t" "plan_fits s" "beam_fft tm b sn dir key s = (Inr (), s')"
  shows "(\<exists>t'. beam_fft tm' b sn dir key t = (Inr (), t') \<and> same_buffer sn s' t') \<and> same_config s s'"
proof -
  from assms(1) have c: "same_config s t" and bnd: "sn < length (m_device_time_proj s)"
    "m_num_time_samples s \<le> length (m_device_time_proj s ! sn)"
    and eq: "m_device_time_proj s ! sn = m_device_time_proj t ! sn"
    by (rule same_bufferD)+
  from c obtain dd P H where
    t: "t = s\<lparr>m_debug_data := dd, m_device_time_proj := P, m_host_rf_lines := H\<rparr>"
    and sh: "same_shape (m_num_time_samples s) (m_device_time_proj s) P"
      "same_shape (m_num_time_samples s) (m_host_rf_lines s) H"
    by (rule same_configE)
  show ?thesis
    using assms(2-) bnd eq sh unfolding t
    by (auto simp: beam_fft_def cufftExecC2C_def plan_fits_def rel_simps split: option.splits if_splits)
qed

lemma beam_multiply_rel:
  assumes "same_buffer sn s t" "beam_multiply tm b sn s = (Inr (), s')"
  shows "(\<exists>t'. beam_multiply tm' b sn t = (Inr (), t') \<and> same_buffer sn s' t') \<and> same_config s s'"
proof -
  from assms(1) have c: "same_config s t" and bnd: "sn < length (m_device_time_proj s)"
    "m_num_time_samples s \<le> length (m_device_time_proj s ! sn)"
    and eq: "m_device_time_proj s ! sn = m_device_time_proj t ! sn"
    by (rule same_bufferD)+
  from c obtain dd P H where
    t: "t = s\<lparr>m_debug_data := dd, m_device_time_proj := P, m_host_rf_lines := H\<rparr>"
    and sh: "same_shape (m_num_time_samples s) (m_device_time_proj s) P"
      "same_shape (m_num_time_samples s) (m_host_rf_lines s) H"
    by (rule same_configE)
  show ?thesis
    using assms(2-) bnd eq sh unfolding t
    by (auto simp: beam_multiply_def launch_MultiplyFftKernel_def rel_simps split: option.splits if_splits)
qed

lemma beam_demodulate_rel:
  assumes "same_buffer sn s t" "beam_demodulate tm b sn s = (Inr (), s')"
  shows "(\<exists>t'. beam_demodulate tm' b sn t = (Inr (), t') \<and> same_buffer sn s' t') \<and> same_config s s'"
proof -
  from assms(1) have c: "same_config s t" and bnd: "sn < length (m_device_time_proj s)"
    "m_num_time_samples s \<le> length (m_device_time_proj s ! sn)"
    and eq: "m_device_time_proj s ! sn = m_device_time_proj t ! sn"
    by (rule same_bufferD)+
  from c obtain dd P H where
    t: "t = s\<lparr>m_debug_data := dd, m_device_time_proj := P, m_host_rf_lines := H\<rparr>"
    and sh: "same_shape (m_num_time_samples s) (m_device_time_proj s) P"
      "same_shape (m_num_time_samples s) (m_host_rf_lines s) H"
    by (rule same_configE)
  show ?thesis
    using assms(2-) bnd eq sh unfolding t
    by (auto simp: beam_demodulate_def launch_DemodulateKernel_def rel_simps)
qed


lemma fixed_projection_kernel_launch:
  "fixed_projection_kernel env sn scanline nb s =
     (if length (m_stream_wrappers s) \<le> sn \<or> length (m_device_time_proj s) \<le> sn
      then (Inl (UndefinedBehaviour ''stream_no out of range''), s)
      else case (m_device_point_xs s, m_device_point_ys s, m_device_point_zs s, m_device_point_as s,
                 m_device_beam_profile s) of
        (Some xs, Some ys, Some zs, Some as, Some tex) \<Rightarrow>
          (if m_cur_beam_profile_type s = NOT_CONFIGURED
           then (Inl (LogicError ''unknown beam profile type''), s)
           else (Inr (), upd_time_proj sn
                   (launch_FixedAlgKernel env (m_param_use_arc_projection (base s))
                      (m_enable_phase_delay (base s)) (m_cur_beam_profile_type s = LOOKUP) nb
                      (m_param_threads_per_block s) (fixed_kernel_params scanline xs ys zs as tex s)) s))
      | _ \<Rightarrow> (Inl (UndefinedBehaviour ''null device buffer''), s))"
  by (cases "m_param_use_arc_projection (base s)"; cases "m_enable_phase_delay (base s)";
      cases "m_cur_beam_profile_type s")
     (simp_all add: fixed_projection_kernel_def Let_def split: option.splits)

lemma spline_projection_kernel_launch:
  "spline_projection_kernel env sn scanline nb s =
     (if length (m_stream_wrappers s) \<le> sn \<or> length (m_device_time_proj s) \<le> sn
      then (Inl (UndefinedBehaviour ''stream_no out of range''), s)
      else
        let num_nonzero = m_spline_degree s + 1;
            offset_elements = nat ((num_nonzero * int sn) mod 2 ^ 64);
            host_basis_functions =
              map (\<lambda>i. bsplineBasis env i (m_spline_degree s) (get_timestamp scanline) (m_common_knots s))
                  [0..<m_num_cs s];
            idx = get_lower_upper_inds env (m_common_knots s) (get_timestamp scanline) (m_spline_degree s);
            basis = take (nat num_nonzero) (drop (nat (fst idx)) host_basis_functions)
        in if \<not> sanity_check_spline_lower_upper_bound env host_basis_functions (fst idx) (snd idx)
           then (Inl (RuntimeError ''b-spline basis bounds failed sanity check''), s)
           else if snd idx - fst idx + 1 \<noteq> num_nonzero
           then (Inl (LogicError ''illegal number of non-zero basis functions''), s)
           else if fst idx < 0 \<or> num_nonzero < 0 \<or> int (m_num_cs s) < fst idx + num_nonzero
           then (Inl (UndefinedBehaviour ''host_basis_functions read out of range''), s)
           else if \<not> splineAlg2_updateConstantMemory env basis offset_elements
           then (Inl (RuntimeError ''Failed to copy to symbol memory''), s)
           else case (m_device_control_xs s, m_device_control_ys s, m_device_control_zs s,
                      m_device_control_as s, m_device_beam_profile s) of
             (Some xs, Some ys, Some zs, Some as, Some tex) \<Rightarrow>
               (if m_cur_beam_profile_type s = NOT_CONFIGURED
                then (Inl (LogicError ''spline_projection_kernel(): unknown beam profile type''), s)
                else (Inr (), upd_time_proj sn
                        (launch_SplineAlgKernel env (m_param_use_arc_projection (base s))
                           (m_enable_phase_delay (base s)) (m_cur_beam_profile_type s = LOOKUP) nb
                           (m_param_threads_per_block s)
                           (spline_kernel_params scanline xs ys zs as tex (fst idx) (snd idx)
                              offset_elements basis s)) s))
           | _ \<Rightarrow> (Inl (UndefinedBehaviour ''null device buffer''), s))"
  by (cases "m_param_use_arc_projection (base s)"; cases "m_enable_phase_delay (base s)";
      cases "m_cur_beam_profile_type s")
     (simp_all add: spline_projection_kernel_def Let_def split: option.splits)

lemma same_config_fields:
  assumes "same_config s t"
  shows "m_num_time_samples t = m_num_time_samples s"
    "m_stream_wrappers t = m_stream_wrappers s"
    "m_param_num_cuda_streams t = m_param_num_cuda_streams s"
    "m_store_kernel_details t = m_store_kernel_details s"
    "m_num_fixed_scatterers t = m_num_fixed_scatterers s"
    "m_num_spline_scatterers t = m_num_spline_scatterers s"
    "m_fft_plan t = m_fft_plan s"
    "m_device_excitation_fft t = m_device_excitation_fft s"
    "m_excitation t = m_excitation s"
    "base t = base s"
    "m_cur_beam_profile_type t = m_cur_beam_profile_type s"
    "m_device_point_xs t = m_device_point_xs s" "m_device_point_ys t = m_device_point_ys s"
    "m_device_point_zs t = m_device_point_zs s" "m_device_point_as t = m_device_point_as s"
    "m_device_control_xs t = m_device_control_xs s" "m_device_control_ys t = m_device_control_ys s"
    "m_device_control_zs t = m_device_control_zs s" "m_device_control_as t = m_device_control_as s"
    "m_device_beam_profile t = m_device_beam_profile s"
    "m_param_threads_per_block t = m_param_threads_per_block s"
    "m_spline_degree t = m_spline_degree s" "m_num_cs t = m_num_cs s"
    "m_common_knots t = m_common_knots s"
    "m_scan_seq t = m_scan_seq s" "m_cur_device_prop t = m_cur_device_prop s"
    "m_can_change_cuda_device t = m_can_change_cuda_device s"
    "num_allocations t = num_allocations s"
    "length (m_device_time_proj t) = length (m_device_time_proj s)"
    "length (m_host_rf_lines t) = length (m_host_rf_lines s)"
    "fixed_kernel_params scanline xs ys zs as tex t = fixed_kernel_params scanline xs ys zs as tex s"
    "spline_kernel_params scanline xs ys zs as tex i0 i1 off bs t
       = spline_kernel_params scanline xs ys zs as tex i0 i1 off bs s"
proof -
  from assms obtain dd P H where
    t: "t = s\<lparr>m_debug_data := dd, m_device_time_proj := P, m_host_rf_lines := H\<rparr>"
    and sh: "same_shape (m_num_time_samples s) (m_device_time_proj s) P"
      "same_shape (m_num_time_samples s) (m_host_rf_lines s) H"
    by (rule same_configE)
  show "m_num_time_samples t = m_num_time_samples s"
    "m_stream_wrappers t = m_stream_wrappers s"
    "m_param_num_cuda_streams t = m_param_num_cuda_streams s"
    "m_store_kernel_details t = m_store_kernel_details s"
    "m_num_fixed_scatterers t = m_num_fixed_scatterers s"
    "m_num_spline_scatterers t = m_num_spline_scatterers s"
    "m_fft_plan t = m_fft_plan s"
    "m_device_excitation_fft t = m_device_excitation_fft s"
    "m_excitation t = m_excitation s"
    "base t = base s"
    "m_cur_beam_profile_type t = m_cur_beam_profile_type s"
    "m_device_point_xs t = m_device_point_xs s" "m_device_point_ys t = m_device_point_ys s"
    "m_device_point_zs t = m_device_point_zs s" "m_device_point_as t = m_device_point_as s"
    "m_device_control_xs t = m_device_control_xs s" "m_device_control_ys t = m_device_control_ys s"
    "m_device_control_zs t = m_device_control_zs s" "m_device_control_as t = m_device_control_as s"
    "m_device_beam_profile t = m_device_beam_profile s"
    "m_param_threads_per_block t = m_param_threads_per_block s"
    "m_spline_degree t = m_spline_degree s" "m_num_cs t = m_num_cs s"
    "m_common_knots t = m_common_knots s"
    "m_scan_seq t = m_scan_seq s" "m_cur_device_prop t = m_cur_device_prop s"
    "m_can_change_cuda_device t = m_can_change_cuda_device s"
    "num_allocations t = num_allocations s"
    "fixed_kernel_params scanline xs ys zs as tex t = fixed_kernel_params scanline xs ys zs as tex s"
    "spline_kernel_params scanline xs ys zs as tex i0 i1 off bs t
       = spline_kernel_params scanline xs ys zs as tex i0 i1 off bs s"
    unfolding t by (simp_all add: fixed_kernel_params_def spline_kernel_params_def)
  show "length (m_device_time_proj t) = length (m_device_time_proj s)"
    "length (m_host_rf_lines t) = length (m_host_rf_lines s)"
    unfolding t using sh by (simp_all add: same_shape_def)
qed

lemma same_config_host_upd:
  assumes "same_config s t" "b < length (m_host_rf_lines s)"
    "length x = length (m_host_rf_lines s ! b)"
    "drop (m_num_time_samples s) x = drop (m_num_time_samples s) (m_host_rf_lines s ! b)"
  shows "same_config (s\<lparr>m_host_rf_lines := (m_host_rf_lines s)[b := x]\<rparr>)
                     (t\<lparr>m_host_rf_lines := (m_host_rf_lines t)[b := x]\<rparr>)"
    and "same_config s (s\<lparr>m_host_rf_lines := (m_host_rf_lines s)[b := x]\<rparr>)"
proof -
  from assms(1) obtain dd P H where
    t: "t = s\<lparr>m_debug_data := dd, m_device_time_proj := P, m_host_rf_lines := H\<rparr>"
    and sh: "same_shape (m_num_time_samples s) (m_device_time_proj s) P"
      "same_shape (m_num_time_samples s) (m_host_rf_lines s) H"
    by (rule same_configE)
  show "same_config (s\<lparr>m_host_rf_lines := (m_host_rf_lines s)[b := x]\<rparr>)
                     (t\<lparr>m_host_rf_lines := (m_host_rf_lines t)[b := x]\<rparr>)"
    using assms(2-) sh unfolding t
    by (auto simp: same_config_def same_shape_def nth_list_update)
  show "same_config s (s\<lparr>m_host_rf_lines := (m_host_rf_lines s)[b := x]\<rparr>)"
    using assms(2-)
    by (auto simp: same_config_def same_shape_def nth_list_update)
qed


lemma kernel_stage_rel:
  assumes "same_buffer sn s t"
    and "\<And>x. m_num_time_samples s \<le> length x \<Longrightarrow>
           length (F x) = length x \<and> drop (m_num_time_samples s) (F x) = drop (m_num_time_samples s) x"
  shows "same_buffer sn (timed tm b k (upd_time_proj sn F s)) (timed tm' b k (upd_time_proj sn F t))"
    and "same_config s (timed tm b k (upd_time_proj sn F s))"
proof -
  note d = same_bufferD [OF assms(1)]
  have f: "length (F (m_device_time_proj s ! sn)) = length (m_device_time_proj s ! sn)"
    "drop (m_num_time_samples s) (F (m_device_time_proj s ! sn))
       = drop (m_num_time_samples s) (m_device_time_proj s ! sn)"
    using assms(2) [OF d(3)] by simp_all
  have e: "F (m_device_time_proj t ! sn) = F (m_device_time_proj s ! sn)"
    using d(4) by simp
  have B: "same_buffer sn (upd_time_proj sn F s) (upd_time_proj sn F t)"
    and C: "same_config s (upd_time_proj sn F s)"
    by (rule same_buffer_upd [where f = F and f' = F, OF d(1) d(2) d(3) f e])+
  show "same_buffer sn (timed tm b k (upd_time_proj sn F s)) (timed tm' b k (upd_time_proj sn F t))"
    by (rule same_buffer_timed [OF B])
  show "same_config s (timed tm b k (upd_time_proj sn F s))"
    by (rule same_config_trans [OF C same_config_timed_self])
qed

lemma num_time_samples_params [simp]:
  "num_time_samples (fixed_kernel_params scanline xs ys zs as tex s) = m_num_time_samples s"
  "num_time_samples (spline_kernel_params scanline xs ys zs as tex i0 i1 off bs s) = m_num_time_samples s"
  by (simp_all add: fixed_kernel_params_def spline_kernel_params_def)

lemma beam_project_fixed_rel:
  assumes "same_buffer sn s t" "beam_project_fixed env tm b sn scanline nb s = (Inr (), s')"
  shows "(\<exists>t'. beam_project_fixed env tm' b sn scanline nb t = (Inr (), t') \<and> same_buffer sn s' t')
     \<and> same_config s s'"
proof (cases "0 < m_num_fixed_scatterers s")
  case False
  note d = same_bufferD [OF assms(1)]
  have "s' = s" using assms(2) False by (simp add: beam_project_fixed_def)
  moreover have "beam_project_fixed env tm' b sn scanline nb t = (Inr (), t)"
    using False by (simp add: beam_project_fixed_def same_config_fields [OF d(1)])
  ultimately show ?thesis using assms(1) by simp
next
  case True
  note d = same_bufferD [OF assms(1)]
  note cf = same_config_fields [OF d(1)]
  obtain s1 where k: "fixed_projection_kernel env sn scanline nb s = (Inr (), s1)"
    and s': "s' = timed tm b ''fixed_projection_kernel_ms'' s1"
    using assms(2) True by (auto simp: beam_project_fixed_def and_then_def split: prod.splits sum.splits)
  obtain xs ys zs as tex where
    bufs: "m_device_point_xs s = Some xs" "m_device_point_ys s = Some ys" "m_device_point_zs s = Some zs"
      "m_device_point_as s = Some as" "m_device_beam_profile s = Some tex"
    and rng: "sn < length (m_stream_wrappers s)" "m_cur_beam_profile_type s \<noteq> NOT_CONFIGURED"
    using k by (auto simp: fixed_projection_kernel_launch split: if_splits option.splits)
  define F where "F = launch_FixedAlgKernel env (m_param_use_arc_projection (base s))
                      (m_enable_phase_delay (base s)) (m_cur_beam_profile_type s = LOOKUP) nb
                      (m_param_threads_per_block s) (fixed_kernel_params scanline xs ys zs as tex s)"
  have s1: "s1 = upd_time_proj sn F s"
    using k bufs rng d(2) by (simp add: fixed_projection_kernel_launch F_def)
  have kt: "fixed_projection_kernel env sn scanline nb t = (Inr (), upd_time_proj sn F t)"
    using bufs rng d(2) by (simp add: fixed_projection_kernel_launch F_def cf)
  have keep: "length (F x) = length x \<and> drop (m_num_time_samples s) (F x) = drop (m_num_time_samples s) x"
    if "m_num_time_samples s \<le> length x" for x
    using that by (simp add: F_def launch_FixedAlgKernel_def length_on_first drop_on_first)
  note R = kernel_stage_rel [OF assms(1) keep]
  have "beam_project_fixed env tm' b sn scanline nb t
          = (Inr (), timed tm' b ''fixed_projection_kernel_ms'' (upd_time_proj sn F t))"
    using True kt by (simp add: beam_project_fixed_def and_then_def cf)
  then show ?thesis
    using R unfolding s' s1 by blast
qed

lemma beam_project_spline_rel:
  assumes "same_buffer sn s t" "beam_project_spline env tm b sn scanline nb s = (Inr (), s')"
  shows "(\<exists>t'. beam_project_spline env tm' b sn scanline nb t = (Inr (), t') \<and> same_buffer sn s' t')
     \<and> same_config s s'"
proof (cases "0 < m_num_spline_scatterers s")
  case False
  note d = same_bufferD [OF assms(1)]
  have "s' = s" using assms(2) False by (simp add: beam_project_spline_def)
  moreover have "beam_project_spline env tm' b sn scanline nb t = (Inr (), t)"
    using False by (simp add: beam_project_spline_def same_config_fields [OF d(1)])
  ultimately show ?thesis using assms(1) by simp
next
  case True
  note d = same_bufferD [OF assms(1)]
  note cf = same_config_fields [OF d(1)]
  obtain s1 where k: "spline_projection_kernel env sn scanline nb s = (Inr (), s1)"
    and s': "s' = timed tm b ''spline_projection_kernel_ms'' s1"
    using assms(2) True by (auto simp: beam_project_spline_def and_then_def split: prod.splits sum.splits)
  obtain F where s1: "s1 = upd_time_proj sn F s"
    and kt: "spline_projection_kernel env sn scanline nb t = (Inr (), upd_time_proj sn F t)"
    and keep: "\<And>x. m_num_time_samples s \<le> length x \<Longrightarrow>
           length (F x) = length x \<and> drop (m_num_time_samples s) (F x) = drop (m_num_time_samples s) x"
  proof -
    obtain xs ys zs as tex where
      bufs: "m_device_control_xs s = Some xs" "m_device_control_ys s = Some ys"
        "m_device_control_zs s = Some zs" "m_device_control_as s = Some as"
        "m_device_beam_profile s = Some tex"
      using k by (simp add: spline_projection_kernel_launch Let_def split: if_splits option.splits)
    define G where "G = (\<lambda>u. launch_SplineAlgKernel env (m_param_use_arc_projection (base u))
          (m_enable_phase_delay (base u)) (m_cur_beam_profile_type u = LOOKUP) nb
          (m_param_threads_per_block u)
          (spline_kernel_params scanline xs ys zs as tex
             (fst (get_lower_upper_inds env (m_common_knots u) (get_timestamp scanline) (m_spline_degree u)))
             (snd (get_lower_upper_inds env (m_common_knots u) (get_timestamp scanline) (m_spline_degree u)))
             (nat (((m_spline_degree u + 1) * int sn) mod 2 ^ 64))
             (take (nat (m_spline_degree u + 1))
                (drop (nat (fst (get_lower_upper_inds env (m_common_knots u) (get_timestamp scanline)
                                   (m_spline_degree u))))
                   (map (\<lambda>i. bsplineBasis env i (m_spline_degree u) (get_timestamp scanline)
                               (m_common_knots u)) [0..<m_num_cs u])))
             u))"
    have gt: "G t = G s"
      by (simp add: G_def cf)
    have a: "s1 = upd_time_proj sn (G s) s"
      using k bufs by (simp add: spline_projection_kernel_launch Let_def G_def split: if_splits)
    have ok: "spline_projection_kernel env sn scanline nb s = (Inr (), upd_time_proj sn (G s) s)"
      using k a by simp
    have b: "spline_projection_kernel env sn scanline nb t = (Inr (), upd_time_proj sn (G s) t)"
    proof -
      have "spline_projection_kernel env sn scanline nb t = (Inr (), upd_time_proj sn (G t) t)"
        using k bufs by (simp add: spline_projection_kernel_launch Let_def G_def cf split: if_splits)
      then show ?thesis by (simp add: gt)
    qed
    have c: "length (G s x) = length x \<and> drop (m_num_time_samples s) (G s x) = drop (m_num_time_samples s) x"
      if "m_num_time_samples s \<le> length x" for x
      using that by (simp add: G_def launch_SplineAlgKernel_def length_on_first drop_on_first)
    show ?thesis using that [OF a b c] .
  qed
  note R = kernel_stage_rel [OF assms(1) keep]
  have "beam_project_spline env tm' b sn scanline nb t
          = (Inr (), timed tm' b ''spline_projection_kernel_ms'' (upd_time_proj sn F t))"
    using True kt by (simp add: beam_project_spline_def and_then_def cf)
  then show ?thesis
    using R unfolding s' s1 by blast
qed


lemma beam_copy_to_host_rel:
  assumes "same_buffer sn s t" "beam_copy_to_host tm b sn s = (Inr (), s')"
  shows "(\<exists>t'. beam_copy_to_host tm' b sn t = (Inr (), t') \<and> same_config s' t'
            \<and> m_host_rf_lines s' ! b = m_host_rf_lines t' ! b
            \<and> (\<forall>j. m_host_rf_lines s ! j = m_host_rf_lines t ! j
                  \<longrightarrow> m_host_rf_lines s' ! j = m_host_rf_lines t' ! j))
     \<and> same_config s s' \<and> b < length (m_host_rf_lines s')
     \<and> m_num_time_samples s \<le> length (m_host_rf_lines s' ! b)"
proof -
  note d = same_bufferD [OF assms(1)]
  note cf = same_config_fields [OF d(1)]
  let ?N = "m_num_time_samples s"
  let ?x = "take ?N (m_device_time_proj s ! sn) @ drop ?N (m_host_rf_lines s ! b)"
  have b: "b < length (m_host_rf_lines s)" and len: "?N \<le> length (m_host_rf_lines s ! b)"
    and s': "s' = timed tm b ''kernel_memcpy_ms'' (s\<lparr>m_host_rf_lines := (m_host_rf_lines s)[b := ?x]\<rparr>)"
    using assms(2) by (auto simp: beam_copy_to_host_def split: if_splits)
  have sh: "length (m_host_rf_lines t ! b) = length (m_host_rf_lines s ! b)"
    "drop ?N (m_host_rf_lines t ! b) = drop ?N (m_host_rf_lines s ! b)"
    using d(1) b unfolding same_config_def same_shape_def by simp_all
  have xl: "length ?x = length (m_host_rf_lines s ! b)"
    using len d(3) by simp
  have xd: "drop ?N ?x = drop ?N (m_host_rf_lines s ! b)"
    using d(3) by simp
  let ?s1 = "s\<lparr>m_host_rf_lines := (m_host_rf_lines s)[b := ?x]\<rparr>"
  let ?t1 = "t\<lparr>m_host_rf_lines := (m_host_rf_lines t)[b := ?x]\<rparr>"
  have t': "beam_copy_to_host tm' b sn t = (Inr (), timed tm' b ''kernel_memcpy_ms'' ?t1)"
    using b len sh d(4) by (simp add: beam_copy_to_host_def cf)
  have c1: "same_config ?s1 ?t1" and c2: "same_config s ?s1"
    by (rule same_config_host_upd [OF d(1) b xl xd])+
  have r1: "same_config s' (timed tm' b ''kernel_memcpy_ms'' ?t1)"
    unfolding s' by (rule same_config_timed [OF c1])
  have r2: "same_config s s'"
    unfolding s' by (rule same_config_trans [OF c2 same_config_timed_self])
  have h: "m_host_rf_lines s' = (m_host_rf_lines s)[b := ?x]"
    "m_host_rf_lines (timed tm' b ''kernel_memcpy_ms'' ?t1) = (m_host_rf_lines t)[b := ?x]"
    unfolding s' by (simp_all add: timed_def push_debug_def)
  have e1: "m_host_rf_lines s' ! b = m_host_rf_lines (timed tm' b ''kernel_memcpy_ms'' ?t1) ! b"
    using b cf(30) by (simp add: h)
  have e2: "m_host_rf_lines s' ! j = m_host_rf_lines (timed tm' b ''kernel_memcpy_ms'' ?t1) ! j"
    if "m_host_rf_lines s ! j = m_host_rf_lines t ! j" for j
    using that b cf(30) by (simp add: h nth_list_update)
  have l: "b < length (m_host_rf_lines s')" "?N \<le> length (m_host_rf_lines s' ! b)"
    using b xl len by (simp_all add: h)
  show ?thesis
    using t' r1 r2 e1 e2 l by blast
qed

lemma and_then_Inr:
  "and_then r f = (Inr v, s') \<longleftrightarrow> (\<exists>s1. r = (Inr (), s1) \<and> f s1 = (Inr v, s'))"
  by (cases r) (auto simp: and_then_def split: sum.splits)

lemma plan_fits_same_config: "same_config s t \<Longrightarrow> plan_fits s \<Longrightarrow> plan_fits t"
  using same_config_fields(1) [of s t] same_config_fields(7) [of s t]
  by (auto simp: plan_fits_def split: option.splits)

lemma host_timed [simp]: "m_host_rf_lines (timed tm b k s) = m_host_rf_lines s"
  by (simp add: timed_def push_debug_def)

lemma host_upd_time_proj [simp]: "m_host_rf_lines (upd_time_proj n f s) = m_host_rf_lines s"
  by (simp add: upd_time_proj_def)

lemma host_beam_select: "m_host_rf_lines (snd (beam_select b s)) = m_host_rf_lines s"
  by (simp add: beam_select_def Let_def push_debug_def)

lemma host_beam_memset: "m_host_rf_lines (snd (beam_memset tm b sn s)) = m_host_rf_lines s"
  by (simp add: beam_memset_def Let_def)

lemma host_beam_project_fixed:
  "m_host_rf_lines (snd (beam_project_fixed env tm b sn sl nb s)) = m_host_rf_lines s"
  by (simp add: beam_project_fixed_def and_then_def fixed_projection_kernel_launch
      split: option.splits)

lemma host_beam_project_spline:
  "m_host_rf_lines (snd (beam_project_spline env tm b sn sl nb s)) = m_host_rf_lines s"
  by (simp add: beam_project_spline_def and_then_def spline_projection_kernel_launch Let_def
      split: option.splits)

lemma host_beam_fft: "m_host_rf_lines (snd (beam_fft tm b sn dir key s)) = m_host_rf_lines s"
  by (simp add: beam_fft_def split: option.splits)

lemma host_beam_multiply: "m_host_rf_lines (snd (beam_multiply tm b sn s)) = m_host_rf_lines s"
  by (simp add: beam_multiply_def split: option.splits)

lemma host_beam_demodulate: "m_host_rf_lines (snd (beam_demodulate tm b sn s)) = m_host_rf_lines s"
  by (simp add: beam_demodulate_def Let_def)

lemma host_before_copy:
  assumes "beam_select b s = (r1, s1)"
      "beam_memset tm b sn s1 = (r2, s2)"
      "beam_project_fixed env tm b sn sl nbf s2 = (r3, s3)"
      "beam_project_spline env tm b sn sl nbs s3 = (r4, s4)"
      "beam_fft tm b sn d1 k1 s4 = (r5, s5)"
      "beam_multiply tm b sn s5 = (r6, s6)"
      "beam_fft tm b sn d2 k2 s6 = (r7, s7)"
      "beam_demodulate tm b sn s7 = (r8, s8)"
  shows "m_host_rf_lines s8 = m_host_rf_lines s"
proof -
  have "m_host_rf_lines s1 = m_host_rf_lines s"
    using host_beam_select [of b s] assms(1) by simp
  moreover have "m_host_rf_lines s2 = m_host_rf_lines s1"
    using host_beam_memset [of tm b sn s1] assms(2) by simp
  moreover have "m_host_rf_lines s3 = m_host_rf_lines s2"
    using host_beam_project_fixed [of env tm b sn sl nbf s2] assms(3) by simp
  moreover have "m_host_rf_lines s4 = m_host_rf_lines s3"
    using host_beam_project_spline [of env tm b sn sl nbs s3] assms(4) by simp
  moreover have "m_host_rf_lines s5 = m_host_rf_lines s4"
    using host_beam_fft [of tm b sn d1 k1 s4] assms(5) by simp
  moreover have "m_host_rf_lines s6 = m_host_rf_lines s5"
    using host_beam_multiply [of tm b sn s5] assms(6) by simp
  moreover have "m_host_rf_lines s7 = m_host_rf_lines s6"
    using host_beam_fft [of tm b sn d2 k2 s6] assms(7) by simp
  moreover have "m_host_rf_lines s8 = m_host_rf_lines s7"
    using host_beam_demodulate [of tm b sn s7] assms(8) by simp
  ultimately show ?thesis by simp
qed

lemma process_beam_rel:
  assumes "same_config s t" "plan_fits s"
    "process_beam env tm seq nbf nbs b s = (Inr (), s')"
  shows "(\<exists>t'. process_beam env tm' seq nbf nbs b t = (Inr (), t') \<and> same_config s' t'
            \<and> m_host_rf_lines s' ! b = m_host_rf_lines t' ! b
            \<and> (\<forall>j. m_host_rf_lines s ! j = m_host_rf_lines t ! j
                  \<longrightarrow> m_host_rf_lines s' ! j = m_host_rf_lines t' ! j))
     \<and> same_config s s' \<and> b < length (m_host_rf_lines s')
     \<and> m_num_time_samples s \<le> length (m_host_rf_lines s' ! b)"
proof -
  let ?sn = "b mod m_param_num_cuda_streams s"
  let ?sl = "scanlines seq ! b"
  have sn: "b mod m_param_num_cuda_streams t = ?sn"
    by (simp add: same_config_fields [OF assms(1)])
  from assms(3) obtain s1 s2 s3 s4 s5 s6 s7 s8 where
    st: "beam_select b s = (Inr (), s1)"
      "beam_memset tm b ?sn s1 = (Inr (), s2)"
      "beam_project_fixed env tm b ?sn ?sl nbf s2 = (Inr (), s3)"
      "beam_project_spline env tm b ?sn ?sl nbs s3 = (Inr (), s4)"
      "beam_fft tm b ?sn CUFFT_FORWARD ''kernel_forward_fft_ms'' s4 = (Inr (), s5)"
      "beam_multiply tm b ?sn s5 = (Inr (), s6)"
      "beam_fft tm b ?sn CUFFT_INVERSE ''kernel_inverse_fft_ms'' s6 = (Inr (), s7)"
      "beam_demodulate tm b ?sn s7 = (Inr (), s8)"
      "beam_copy_to_host tm b ?sn s8 = (Inr (), s')"
    unfolding process_beam_def Let_def and_then_Inr by blast
  from beam_select_rel [OF assms(1) st(1)] obtain t1 where
    t1: "beam_select b t = (Inr (), t1)" and r1: "same_config s1 t1" and f1: "same_config s s1"
    and b1: "?sn < length (m_device_time_proj s1)"
      "m_num_time_samples s1 \<le> length (m_device_time_proj s1 ! ?sn)"
    by blast
  from beam_memset_rel [OF r1 b1 st(2)] obtain t2 where
    t2: "beam_memset tm' b ?sn t1 = (Inr (), t2)" and r2: "same_buffer ?sn s2 t2" and f2: "same_config s1 s2"
    by blast
  from beam_project_fixed_rel [OF r2 st(3)] obtain t3 where
    t3: "beam_project_fixed env tm' b ?sn ?sl nbf t2 = (Inr (), t3)" and r3: "same_buffer ?sn s3 t3"
    and f3: "same_config s2 s3"
    by blast
  from beam_project_spline_rel [OF r3 st(4)] obtain t4 where
    t4: "beam_project_spline env tm' b ?sn ?sl nbs t3 = (Inr (), t4)" and r4: "same_buffer ?sn s4 t4"
    and f4: "same_config s3 s4"
    by blast
  note c4 = same_config_trans [OF same_config_trans [OF same_config_trans [OF f1 f2] f3] f4]
  have p4: "plan_fits s4" by (rule plan_fits_same_config [OF c4 assms(2)])
  from beam_fft_rel [OF r4 p4 st(5)] obtain t5 where
    t5: "beam_fft tm' b ?sn CUFFT_FORWARD ''kernel_forward_fft_ms'' t4 = (Inr (), t5)"
    and r5: "same_buffer ?sn s5 t5" and f5: "same_config s4 s5"
    by blast
  from beam_multiply_rel [OF r5 st(6)] obtain t6 where
    t6: "beam_multiply tm' b ?sn t5 = (Inr (), t6)" and r6: "same_buffer ?sn s6 t6"
    and f6: "same_config s5 s6"
    by blast
  note c6 = same_config_trans [OF same_config_trans [OF c4 f5] f6]
  have p6: "plan_fits s6" by (rule plan_fits_same_config [OF c6 assms(2)])
  from beam_fft_rel [OF r6 p6 st(7)] obtain t7 where
    t7: "beam_fft tm' b ?sn CUFFT_INVERSE ''kernel_inverse_fft_ms'' t6 = (Inr (), t7)"
    and r7: "same_buffer ?sn s7 t7" and f7: "same_config s6 s7"
    by blast
  from beam_demodulate_rel [OF r7 st(8)] obtain t8 where
    t8: "beam_demodulate tm' b ?sn t7 = (Inr (), t8)" and r8: "same_buffer ?sn s8 t8"
    and f8: "same_config s7 s8"
    by blast
  note c8 = same_config_trans [OF same_config_trans [OF c6 f7] f8]
  from beam_copy_to_host_rel [OF r8 st(9)] obtain t' where
    t9: "beam_copy_to_host tm' b ?sn t8 = (Inr (), t')" and r9: "same_config s' t'"
    and e: "m_host_rf_lines s' ! b = m_host_rf_lines t' ! b"
    and k: "\<forall>j. m_host_rf_lines s8 ! j = m_host_rf_lines t8 ! j
                  \<longrightarrow> m_host_rf_lines s' ! j = m_host_rf_lines t' ! j"
    and f9: "same_config s8 s'" and l: "b < length (m_host_rf_lines s')"
      "m_num_time_samples s8 \<le> length (m_host_rf_lines s' ! b)"
    by blast
  have run: "process_beam env tm' seq nbf nbs b t = (Inr (), t')"
    unfolding process_beam_def Let_def and_then_Inr sn
    using t1 t2 t3 t4 t5 t6 t7 t8 t9 by blast
  have hs: "m_host_rf_lines s8 = m_host_rf_lines s"
    by (rule host_before_copy [OF st(1-8)])
  have ht: "m_host_rf_lines t8 = m_host_rf_lines t"
    by (rule host_before_copy [OF t1 t2 t3 t4 t5 t6 t7 t8])
  have n8: "m_num_time_samples s8 = m_num_time_samples s"
    by (rule same_config_fields [OF c8])
  show ?thesis
    using run r9 e k same_config_trans [OF c8 f9] l unfolding hs ht n8 by blast
qed

section \<open>simulate_lines as a whole\<close>

lemma same_config_host_lengths:
  assumes "same_config s t"
  shows "length (m_host_rf_lines t) = length (m_host_rf_lines s)"
    and "j < length (m_host_rf_lines s) \<Longrightarrow> length (m_host_rf_lines t ! j) = length (m_host_rf_lines s ! j)"
  using assms unfolding same_config_def same_shape_def by simp_all

lemma beam_loop_rel:
  assumes "same_config s t" "plan_fits s" "beam_loop env tm seq nbf nbs bs s = (Inr (), s')"
  shows "(\<exists>t'. beam_loop env tm' seq nbf nbs bs t = (Inr (), t') \<and> same_config s' t'
            \<and> (\<forall>j. j \<in> set bs \<or> m_host_rf_lines s ! j = m_host_rf_lines t ! j
                  \<longrightarrow> m_host_rf_lines s' ! j = m_host_rf_lines t' ! j))
     \<and> same_config s s'
     \<and> (\<forall>b\<in>set bs. b < length (m_host_rf_lines s')
            \<and> m_num_time_samples s \<le> length (m_host_rf_lines s' ! b))"
  using assms
proof (induction bs arbitrary: s t)
  case Nil
  then show ?case by simp
next
  case (Cons b bs)
  from Cons.prems(3) obtain s1 where
    pb: "process_beam env tm seq nbf nbs b s = (Inr (), s1)"
    and rest: "beam_loop env tm seq nbf nbs bs s1 = (Inr (), s')"
    by (auto simp: and_then_Inr)
  from process_beam_rel [OF Cons.prems(1) Cons.prems(2) pb] obtain t1 where
    t1: "process_beam env tm' seq nbf nbs b t = (Inr (), t1)" and r1: "same_config s1 t1"
    and e1: "m_host_rf_lines s1 ! b = m_host_rf_lines t1 ! b"
    and k1: "\<forall>j. m_host_rf_lines s ! j = m_host_rf_lines t ! j
                  \<longrightarrow> m_host_rf_lines s1 ! j = m_host_rf_lines t1 ! j"
    and f1: "same_config s s1" and l1: "b < length (m_host_rf_lines s1)"
      "m_num_time_samples s \<le> length (m_host_rf_lines s1 ! b)"
    by blast
  have p1: "plan_fits s1" by (rule plan_fits_same_config [OF f1 Cons.prems(2)])
  from Cons.IH [OF r1 p1 rest] obtain t' where
    t': "beam_loop env tm' seq nbf nbs bs t1 = (Inr (), t')" and r: "same_config s' t'"
    and k: "\<forall>j. j \<in> set bs \<or> m_host_rf_lines s1 ! j = m_host_rf_lines t1 ! j
                  \<longrightarrow> m_host_rf_lines s' ! j = m_host_rf_lines t' ! j"
    and f: "same_config s1 s'"
    and l: "\<forall>b\<in>set bs. b < length (m_host_rf_lines s')
            \<and> m_num_time_samples s1 \<le> length (m_host_rf_lines s' ! b)"
    by blast
  have n1: "m_num_time_samples s1 = m_num_time_samples s"
    by (rule same_config_fields [OF f1])
  have run: "beam_loop env tm' seq nbf nbs (b # bs) t = (Inr (), t')"
    using t1 t' by (simp add: and_then_def)
  have eq: "m_host_rf_lines s' ! j = m_host_rf_lines t' ! j"
    if "j \<in> set (b # bs) \<or> m_host_rf_lines s ! j = m_host_rf_lines t ! j" for j
    using that k k1 e1 by auto
  have lb: "b < length (m_host_rf_lines s')" "m_num_time_samples s \<le> length (m_host_rf_lines s' ! b)"
    using same_config_host_lengths [OF f] l1 by simp_all
  show ?case
    using run r eq same_config_trans [OF f1 f] lb l unfolding n1 by auto
qed

lemma assemble_lines_cong:
  assumes "length H' = length H" "\<forall>l\<in>set ls. H' ! l = H ! l"
  shows "assemble_lines H' n d c ls acc = assemble_lines H n d c ls acc"
  using assms by (induction ls arbitrary: acc) (simp_all split: option.splits sum.splits)

lemma assemble_lines_Inr:
  assumes "assemble_lines H n d c ls acc = Some (Inr out)"
  shows "\<exists>rows. out = acc @ rows \<and> length rows = length ls
           \<and> (\<forall>j<length ls. ls ! j < length H \<and> collected (H ! (ls ! j)) n d c 0 [] (rows ! j))"
  using assms
proof (induction ls arbitrary: acc)
  case Nil
  then show ?case by simp
next
  case (Cons l ls)
  from Cons.prems obtain temp where
    l: "l < length H" and c: "collect_samples (H ! l) n d c 0 [] = Some (Inr temp)"
    and rest: "assemble_lines H n d c ls (acc @ [temp]) = Some (Inr out)"
    by (auto split: if_splits option.splits sum.splits)
  from Cons.IH [OF rest] obtain rows where
    rows: "out = (acc @ [temp]) @ rows" "length rows = length ls"
      "\<forall>j<length ls. ls ! j < length H \<and> collected (H ! (ls ! j)) n d c 0 [] (rows ! j)"
    by blast
  have t: "collected (H ! l) n d c 0 [] temp"
    using collect_samples_partial [OF c] by simp
  have "\<forall>j<length (l # ls). (l # ls) ! j < length H
          \<and> collected (H ! ((l # ls) ! j)) n d c 0 [] ((temp # rows) ! j)"
  proof (intro allI impI)
    fix j assume "j < length (l # ls)"
    then show "(l # ls) ! j < length H \<and> collected (H ! ((l # ls) ! j)) n d c 0 [] ((temp # rows) ! j)"
      using l t rows(3) by (cases j) simp_all
  qed
  then show ?case
    using rows(1,2) by (intro exI [of _ "temp # rows"]) simp
qed

lemma assemble_lines_total:
  assumes "0 < d" "\<forall>l\<in>set ls. l < length H \<and> n + c \<le> length (H ! l)"
  shows "\<exists>out. assemble_lines H n d c ls acc = Some (Inr out)"
  using assms(2)
proof (induction ls arbitrary: acc)
  case Nil
  then show ?case by simp
next
  case (Cons l ls)
  then have l: "l < length H" "n + c \<le> length (H ! l)" by simp_all
  from collect_samples_total [OF assms(1) l(2)] obtain temp where
    "collect_samples (H ! l) n d c 0 [] = Some (Inr temp)" by blast
  then show ?case
    using l(1) Cons.IH [of "acc @ [temp]"] Cons.prems by simp
qed

lemma assemble_lines_no_error:
  assumes "\<forall>l\<in>set ls. l < length H \<and> n + c \<le> length (H ! l)"
  shows "assemble_lines H n d c ls acc \<noteq> Some (Inl e)"
  using assms
proof (induction ls arbitrary: acc)
  case Nil
  then show ?case by simp
next
  case (Cons l ls)
  then have l: "l < length H" "n + c \<le> length (H ! l)" by simp_all
  show ?case
  proof (cases "collect_samples (H ! l) n d c 0 []")
    case None
    then show ?thesis using l(1) by simp
  next
    case (Some y)
    show ?thesis
    proof (cases y)
      case (Inl e')
      then show ?thesis using collect_samples_no_error [OF Some] l(2) by simp
    next
      case (Inr temp)
      then show ?thesis using Some l(1) Cons.IH [of "acc @ [temp]"] Cons.prems by simp
    qed
  qed
qed

lemma prepared_fields:
  "m_scan_seq (prepared s) = m_scan_seq s"
  "m_cur_beam_profile_type (prepared s) = m_cur_beam_profile_type s"
  "m_num_fixed_scatterers (prepared s) = m_num_fixed_scatterers s"
  "m_num_spline_scatterers (prepared s) = m_num_spline_scatterers s"
  "m_param_threads_per_block (prepared s) = m_param_threads_per_block s"
  "m_cur_device_prop (prepared s) = m_cur_device_prop s"
  "m_excitation (prepared s) = m_excitation s"
  "base (prepared s) = base s"
  "m_num_time_samples (prepared s) = m_num_time_samples s"
  "m_host_rf_lines (prepared s) = m_host_rf_lines s"
  "m_device_time_proj (prepared s) = m_device_time_proj s"
  "m_fft_plan (prepared s) = m_fft_plan s"
  "m_device_excitation_fft (prepared s) = m_device_excitation_fft s"
  "m_param_num_cuda_streams (prepared s) = m_param_num_cuda_streams s"
  "m_store_kernel_details (prepared s) = m_store_kernel_details s"
  "\<not> m_can_change_cuda_device (prepared s)"
  by (simp_all add: prepared_def create_cuda_stream_wrappers_def Let_def)

lemma simulate_lines_prepared:
  "simulate_lines env timer s =
     (case m_scan_seq s of
        None \<Rightarrow> Some (Inl (UndefinedBehaviour ''m_scan_seq is null''), prepared s)
      | Some seq \<Rightarrow>
          if length (scanlines seq) < 1
          then Some (Inl (RuntimeError ''No scanlines in scansequence''), prepared s)
          else if m_cur_beam_profile_type s = NOT_CONFIGURED
          then Some (Inl (RuntimeError ''No beam profile is configured''), prepared s)
          else if round_up_div (int (m_num_fixed_scatterers s)) (m_param_threads_per_block s)
                    > maxGridSize0 (m_cur_device_prop s)
          then Some (Inl (RuntimeError
                 ''required number of x-blocks is larger than device supports (fixed scatterers)''), prepared s)
          else if round_up_div (int (m_num_spline_scatterers s)) (m_param_threads_per_block s)
                    > maxGridSize0 (m_cur_device_prop s)
          then Some (Inl (RuntimeError
                 ''required number of x-blocks is larger than device supports (spline scatterers)''), prepared s)
          else case beam_loop env timer seq
                      (round_up_div (int (m_num_fixed_scatterers s)) (m_param_threads_per_block s))
                      (round_up_div (int (m_num_spline_scatterers s)) (m_param_threads_per_block s))
                      [0..<length (scanlines seq)] (prepared s) of
                 (Inl e, s4) \<Rightarrow> Some (Inl e, s4)
               | (Inr u, s4) \<Rightarrow>
                   (case assemble_lines (m_host_rf_lines s4)
                           (compute_num_rf_samples env (m_param_sound_speed (base s)) (line_length seq)
                              (sampling_frequency (m_excitation s)))
                           (m_radial_decimation (base s4)) (center_index (m_excitation s))
                           [0..<length (scanlines seq)] [] of
                      None \<Rightarrow> None
                    | Some (Inl e) \<Rightarrow> Some (Inl e, s4)
                    | Some (Inr rf_lines) \<Rightarrow> Some (Inr rf_lines, s4)))"
proof -
  have raw: "simulate_lines env timer s =
     (case m_scan_seq (prepared s) of
           None \<Rightarrow> Some (Inl (UndefinedBehaviour ''m_scan_seq is null''), prepared s)
         | Some seq \<Rightarrow>
             if get_num_lines seq < 1
             then Some (Inl (RuntimeError ''No scanlines in scansequence''), prepared s)
             else if m_cur_beam_profile_type (prepared s) = NOT_CONFIGURED
             then Some (Inl (RuntimeError ''No beam profile is configured''), prepared s)
             else
               if round_up_div (int (m_num_fixed_scatterers (prepared s))) (m_param_threads_per_block (prepared s))
                     > maxGridSize0 (m_cur_device_prop (prepared s))
                  then Some (Inl (RuntimeError
                    ''required number of x-blocks is larger than device supports (fixed scatterers)''), prepared s)
                  else
                    if round_up_div (int (m_num_spline_scatterers (prepared s))) (m_param_threads_per_block (prepared s))
                         > maxGridSize0 (m_cur_device_prop (prepared s))
                       then Some (Inl (RuntimeError
                         ''required number of x-blocks is larger than device supports (spline scatterers)''), prepared s)
                       else
                         case beam_loop env timer seq
                                (round_up_div (int (m_num_fixed_scatterers (prepared s))) (m_param_threads_per_block (prepared s)))
                                (round_up_div (int (m_num_spline_scatterers (prepared s))) (m_param_threads_per_block (prepared s)))
                                   [0..<nat (get_num_lines seq)] (prepared s) of
                              (Inl e, s4) \<Rightarrow> Some (Inl e, s4)
                            | (Inr u, s4) \<Rightarrow>
                                (case assemble_lines (m_host_rf_lines s4)
                                        (compute_num_rf_samples env (m_param_sound_speed (base (prepared s)))
                                 (line_length seq) (sampling_frequency (m_excitation (prepared s))))
                                        (m_radial_decimation (base s4)) (center_index (m_excitation (prepared s)))
                                        [0..<nat (get_num_lines seq)] [] of
                                   None \<Rightarrow> None
                                 | Some (Inl e) \<Rightarrow> Some (Inl e, s4)
                                 | Some (Inr rf_lines) \<Rightarrow> Some (Inr rf_lines, s4)))"
    by (simp only: simulate_lines_def prepared_def Let_def)
  show ?thesis
    unfolding raw prepared_fields get_num_lines_def
    by (simp cong: if_cong option.case_cong prod.case_cong sum.case_cong)
qed

lemma simulate_lines_InrE:
  assumes "simulate_lines env timer s = Some (Inr rf_lines, s')"
  obtains seq where "m_scan_seq s = Some seq" "1 \<le> length (scanlines seq)"
    "m_cur_beam_profile_type s \<noteq> NOT_CONFIGURED"
    "\<not> round_up_div (int (m_num_fixed_scatterers s)) (m_param_threads_per_block s)
         > maxGridSize0 (m_cur_device_prop s)"
    "\<not> round_up_div (int (m_num_spline_scatterers s)) (m_param_threads_per_block s)
         > maxGridSize0 (m_cur_device_prop s)"
    "beam_loop env timer seq
        (round_up_div (int (m_num_fixed_scatterers s)) (m_param_threads_per_block s))
        (round_up_div (int (m_num_spline_scatterers s)) (m_param_threads_per_block s))
        [0..<length (scanlines seq)] (prepared s) = (Inr (), s')"
    "assemble_lines (m_host_rf_lines s')
        (compute_num_rf_samples env (m_param_sound_speed (base s)) (line_length seq)
           (sampling_frequency (m_excitation s)))
        (m_radial_decimation (base s')) (center_index (m_excitation s))
        [0..<length (scanlines seq)] [] = Some (Inr rf_lines)"
proof (cases "m_scan_seq s")
  case None
  then show ?thesis using assms by (simp add: simulate_lines_prepared)
next
  case (Some seq)
  let ?nbf = "round_up_div (int (m_num_fixed_scatterers s)) (m_param_threads_per_block s)"
  let ?nbs = "round_up_div (int (m_num_spline_scatterers s)) (m_param_threads_per_block s)"
  have c: "1 \<le> length (scanlines seq)" "m_cur_beam_profile_type s \<noteq> NOT_CONFIGURED"
    "\<not> ?nbf > maxGridSize0 (m_cur_device_prop s)" "\<not> ?nbs > maxGridSize0 (m_cur_device_prop s)"
    using assms Some by (auto simp: simulate_lines_prepared Suc_le_eq split: if_splits)
  let ?n = "compute_num_rf_samples env (m_param_sound_speed (base s)) (line_length seq)
           (sampling_frequency (m_excitation s))"
  have big: "(case beam_loop env timer seq ?nbf ?nbs [0..<length (scanlines seq)] (prepared s) of
                 (Inl e, s4) \<Rightarrow> Some (Inl e, s4)
               | (Inr u, s4) \<Rightarrow>
                   (case assemble_lines (m_host_rf_lines s4) ?n
                           (m_radial_decimation (base s4)) (center_index (m_excitation s))
                           [0..<length (scanlines seq)] [] of
                      None \<Rightarrow> None
                    | Some (Inl e) \<Rightarrow> Some (Inl e, s4)
                    | Some (Inr rf_lines) \<Rightarrow> Some (Inr rf_lines, s4))) = Some (Inr rf_lines, s')"
  proof -
    have "scanlines seq \<noteq> []" using c(1) by (cases "scanlines seq") simp_all
    then show ?thesis using assms Some c by (simp add: simulate_lines_prepared)
  qed
  obtain r s4 where l: "beam_loop env timer seq ?nbf ?nbs [0..<length (scanlines seq)] (prepared s) = (r, s4)"
    by (cases "beam_loop env timer seq ?nbf ?nbs [0..<length (scanlines seq)] (prepared s)")
  have r: "r = Inr ()"
    using big unfolding l by (cases r) simp_all
  have a: "(case assemble_lines (m_host_rf_lines s4) ?n
                           (m_radial_decimation (base s4)) (center_index (m_excitation s))
                           [0..<length (scanlines seq)] [] of
                      None \<Rightarrow> None
                    | Some (Inl e) \<Rightarrow> Some (Inl e, s4)
                    | Some (Inr rf_lines) \<Rightarrow> Some (Inr rf_lines, s4)) = Some (Inr rf_lines, s')"
    using big unfolding l r by simp
  have s4: "s4 = s'"
    using a by (simp split: option.splits sum.splits)
  have "assemble_lines (m_host_rf_lines s') ?n
                           (m_radial_decimation (base s')) (center_index (m_excitation s))
                           [0..<length (scanlines seq)] [] = Some (Inr rf_lines)"
    using a unfolding s4 by (simp split: option.splits sum.splits)
  then show ?thesis using that [OF Some c] l r s4 by simp
qed

lemma beam_loop_frame:
  assumes "plan_fits s" "beam_loop env tm seq nbf nbs bs s = (Inr (), s')"
  shows "same_config s s'"
    and "\<forall>b\<in>set bs. b < length (m_host_rf_lines s') \<and> m_num_time_samples s \<le> length (m_host_rf_lines s' ! b)"
  using beam_loop_rel [OF same_config_refl assms] by blast+

lemma beam_loop_streams:
  assumes "beam_loop env tm seq nbf nbs (b # bs) s = (Inr (), s')"
  shows "m_stream_wrappers s \<noteq> []"
proof -
  from assms obtain s1 where "process_beam env tm seq nbf nbs b s = (Inr (), s1)"
    by (auto simp: and_then_Inr)
  then obtain s2 where "beam_select b s = (Inr (), s2)"
    unfolding process_beam_def Let_def and_then_Inr by blast
  then show ?thesis
    by (auto simp: beam_select_def Let_def split: if_splits)
qed

lemma base_timed [simp]: "base (timed timer b k s) = base s"
  by (simp add: timed_def push_debug_def)

lemma base_upd_time_proj [simp]: "base (upd_time_proj n f s) = base s"
  by (simp add: upd_time_proj_def)

lemma base_process_beam: "base (snd (process_beam env timer seq nbf nbs b s)) = base s"
  unfolding process_beam_def Let_def
  apply (subst snd_and_then[where P=base])
  apply (subst snd_and_then[where P=base])
  apply (subst snd_and_then[where P=base])
  apply (subst snd_and_then[where P=base])
  apply (subst snd_and_then[where P=base])
  apply (subst snd_and_then[where P=base])
  apply (subst snd_and_then[where P=base])
  apply (subst snd_and_then[where P=base])
  apply (simp_all add: beam_copy_to_host_def beam_demodulate_def beam_fft_def beam_multiply_def
      beam_project_spline_def beam_project_fixed_def beam_memset_def beam_select_def Let_def
      push_debug_def fixed_projection_kernel_launch spline_projection_kernel_launch
      snd_and_then[where P=base] split: option.splits)
  done

lemma base_beam_loop: "base (snd (beam_loop env timer seq nbf nbs bs s)) = base s"
proof (induction bs arbitrary: s)
  case Nil
  show ?case by simp
next
  case (Cons b bs)
  show ?case
    by (simp add: snd_and_then[where P=base, OF Cons.IH] base_process_beam)
qed

text \<open>
  Claim C1. A successful call of \<^verbatim>\<open>simulate_lines\<close> on a sequence of \<open>L\<close> scanlines has
  \<open>L \<ge> 1\<close> and returns \<open>L\<close> sample sequences in scanline order. Line \<open>j\<close> has one sample for
  each \<open>k\<close> with \<open>k * decimation < num_rf_samples\<close> and no other, and its \<open>k\<close>-th sample is
  the sample at index \<open>k * decimation + center_index\<close> of the \<open>j\<close>-th pinned host buffer,
  where \<open>num_rf_samples\<close> is computed from the sound speed, the line length of the scan
  sequence and the sampling frequency of the excitation.
\<close>

theorem simulate_lines_output:
  assumes "simulate_lines env timer s = Some (Inr rf_lines, s')" "m_scan_seq s = Some seq"
  shows "1 \<le> length (scanlines seq) \<and> length rf_lines = length (scanlines seq)
     \<and> (\<forall>j<length (scanlines seq).
           j < length (m_host_rf_lines s')
         \<and> (\<forall>k. (k * m_radial_decimation (base s)
                    < compute_num_rf_samples env (m_param_sound_speed (base s)) (line_length seq)
                        (sampling_frequency (m_excitation s)))
                 = (k < length (rf_lines ! j)))
         \<and> (\<forall>k<length (rf_lines ! j).
                k * m_radial_decimation (base s) + center_index (m_excitation s)
                  < length (m_host_rf_lines s' ! j)
              \<and> rf_lines ! j ! k
                  = m_host_rf_lines s' ! j
                      ! (k * m_radial_decimation (base s) + center_index (m_excitation s))))"
proof -
  let ?L = "length (scanlines seq)"
  from assms(1) obtain seq' where sq: "m_scan_seq s = Some seq'" and L: "1 \<le> length (scanlines seq')"
    and loop: "beam_loop env timer seq'
        (round_up_div (int (m_num_fixed_scatterers s)) (m_param_threads_per_block s))
        (round_up_div (int (m_num_spline_scatterers s)) (m_param_threads_per_block s))
        [0..<length (scanlines seq')] (prepared s) = (Inr (), s')"
    and asm: "assemble_lines (m_host_rf_lines s')
        (compute_num_rf_samples env (m_param_sound_speed (base s)) (line_length seq')
           (sampling_frequency (m_excitation s)))
        (m_radial_decimation (base s')) (center_index (m_excitation s))
        [0..<length (scanlines seq')] [] = Some (Inr rf_lines)"
    by (rule simulate_lines_InrE)
  have seq: "seq' = seq" using sq assms(2) by simp
  have "base (snd (beam_loop env timer seq'
        (round_up_div (int (m_num_fixed_scatterers s)) (m_param_threads_per_block s))
        (round_up_div (int (m_num_spline_scatterers s)) (m_param_threads_per_block s))
        [0..<length (scanlines seq')] (prepared s))) = base (prepared s)"
    by (rule base_beam_loop)
  then have b: "base s' = base s"
    unfolding loop by (simp add: prepared_fields)
  from assemble_lines_Inr [OF asm] obtain rows where
    rows: "rf_lines = rows" "length rows = ?L"
      "\<forall>j<?L. j < length (m_host_rf_lines s')
          \<and> collected (m_host_rf_lines s' ! j)
               (compute_num_rf_samples env (m_param_sound_speed (base s)) (line_length seq)
                  (sampling_frequency (m_excitation s)))
               (m_radial_decimation (base s)) (center_index (m_excitation s)) 0 [] (rows ! j)"
    unfolding seq b by auto
  show ?thesis
    using L rows unfolding seq collected_def by auto
qed

text \<open>
  Claim C8. When a call of \<^verbatim>\<open>simulate_lines\<close> has returned, a second call on the object it
  left behind, with nothing reconfigured in between, returns the very same samples, whatever
  the event timers read: the stream wrappers created, the cleared latch, the diagnostic log
  and the buffer contents left by the first call have no influence. The FFT plan is taken to
  be no longer than the time-sample capacity, as \<^verbatim>\<open>set_excitation\<close> makes it.
\<close>

theorem simulate_lines_twice:
  assumes "simulate_lines env timer s = Some (Inr rf_lines, s')" "plan_fits s"
  shows "\<exists>s''. simulate_lines env timer' s' = Some (Inr rf_lines, s'')"
proof -
  let ?nbf = "round_up_div (int (m_num_fixed_scatterers s)) (m_param_threads_per_block s)"
  let ?nbs = "round_up_div (int (m_num_spline_scatterers s)) (m_param_threads_per_block s)"
  from assms(1) obtain seq where sq: "m_scan_seq s = Some seq" and L: "1 \<le> length (scanlines seq)"
    and cfg: "m_cur_beam_profile_type s \<noteq> NOT_CONFIGURED"
      "\<not> ?nbf > maxGridSize0 (m_cur_device_prop s)" "\<not> ?nbs > maxGridSize0 (m_cur_device_prop s)"
    and loop: "beam_loop env timer seq ?nbf ?nbs [0..<length (scanlines seq)] (prepared s) = (Inr (), s')"
    and asm: "assemble_lines (m_host_rf_lines s')
        (compute_num_rf_samples env (m_param_sound_speed (base s)) (line_length seq)
           (sampling_frequency (m_excitation s)))
        (m_radial_decimation (base s')) (center_index (m_excitation s))
        [0..<length (scanlines seq)] [] = Some (Inr rf_lines)"
    by (rule simulate_lines_InrE)
  let ?p = "prepared s"
  have pp: "plan_fits ?p"
    using assms(2) by (auto simp: plan_fits_def prepared_fields split: option.splits)
  have f: "same_config ?p s'"
    by (rule beam_loop_frame(1) [OF pp loop])
  note cf = same_config_fields [OF f]
  have ne: "m_stream_wrappers ?p \<noteq> []"
  proof -
    have "[0..<length (scanlines seq)] = 0 # [Suc 0..<length (scanlines seq)]"
      using L by (intro upt_conv_Cons) (cases "scanlines seq", simp_all)
    then show ?thesis
      using beam_loop_streams [of env timer seq ?nbf ?nbs 0 "[Suc 0..<length (scanlines seq)]" ?p s'] loop
      by simp
  qed
  have ps': "prepared s' = (if m_store_kernel_details s' then s'\<lparr>m_debug_data := (\<lambda>k. [])\<rparr> else s')"
  proof -
    have "s'\<lparr>m_can_change_cuda_device := False\<rparr> = s'"
      using cf(27) prepared_fields(16) [of s] by simp
    then show ?thesis
      using ne cf(2) by (simp add: prepared_def Let_def)
  qed
  have g: "same_config s' (prepared s')"
    unfolding ps' by (simp add: same_config_def)
  have h: "same_config ?p (prepared s')"
    by (rule same_config_trans [OF f g])
  from beam_loop_rel [OF h pp loop, of timer'] obtain t' where
    t': "beam_loop env timer' seq ?nbf ?nbs [0..<length (scanlines seq)] (prepared s') = (Inr (), t')"
    and r: "same_config s' t'"
    and e: "\<forall>j. j \<in> set [0..<length (scanlines seq)]
               \<or> m_host_rf_lines ?p ! j = m_host_rf_lines (prepared s') ! j
                  \<longrightarrow> m_host_rf_lines s' ! j = m_host_rf_lines t' ! j"
    by blast
  note ct = same_config_fields [OF r]
  have "assemble_lines (m_host_rf_lines t')
        (compute_num_rf_samples env (m_param_sound_speed (base s)) (line_length seq)
           (sampling_frequency (m_excitation s)))
        (m_radial_decimation (base s')) (center_index (m_excitation s))
        [0..<length (scanlines seq)] []
      = assemble_lines (m_host_rf_lines s')
        (compute_num_rf_samples env (m_param_sound_speed (base s)) (line_length seq)
           (sampling_frequency (m_excitation s)))
        (m_radial_decimation (base s')) (center_index (m_excitation s))
        [0..<length (scanlines seq)] []"
    using e ct(30) by (intro assemble_lines_cong) simp_all
  then have a': "assemble_lines (m_host_rf_lines t')
        (compute_num_rf_samples env (m_param_sound_speed (base s)) (line_length seq)
           (sampling_frequency (m_excitation s)))
        (m_radial_decimation (base s')) (center_index (m_excitation s))
        [0..<length (scanlines seq)] [] = Some (Inr rf_lines)"
    using asm by simp
  have s'f: "m_scan_seq s' = Some seq" "m_cur_beam_profile_type s' = m_cur_beam_profile_type s"
    "m_num_fixed_scatterers s' = m_num_fixed_scatterers s"
    "m_num_spline_scatterers s' = m_num_spline_scatterers s"
    "m_param_threads_per_block s' = m_param_threads_per_block s"
    "m_cur_device_prop s' = m_cur_device_prop s"
    "m_excitation s' = m_excitation s" "base s' = base s" "base t' = base s'"
    using cf ct sq by (simp_all add: prepared_fields)
  have nz: "scanlines seq \<noteq> []" using L by (cases "scanlines seq") simp_all
  have "simulate_lines env timer' s' = Some (Inr rf_lines, t')"
    using nz cfg t' a' by (simp add: simulate_lines_prepared s'f)
  then show ?thesis by blast
qed

section \<open>Zero scatterers\<close>

lemma nth_on_first:
  "n \<le> length xs \<Longrightarrow> i < length xs \<Longrightarrow> on_first n g xs ! i = (if i < n then g i (xs ! i) else xs ! i)"
  by (simp add: on_first_def nth_append)

lemma take_zero_iff:
  "N \<le> length x \<Longrightarrow> take N x = replicate N (0::complex) \<longleftrightarrow> (\<forall>i<N. x ! i = 0)"
  by (auto simp: list_eq_iff_nth_eq)

lemma zero_on_first:
  assumes "n \<le> N" "N \<le> length x" "take N x = replicate N (0::complex)" "\<forall>i<n. g i 0 = 0"
  shows "take N (on_first n g x) = replicate N 0"
proof -
  have x: "\<forall>i<N. x ! i = 0" using assms(2,3) by (simp add: take_zero_iff)
  have "\<forall>i<N. on_first n g x ! i = 0"
    using assms(1,2,4) x by (simp add: nth_on_first)
  then show ?thesis
    using assms(1,2) by (simp add: take_zero_iff length_on_first)
qed

lemma zero_stage:
  assumes "zero_buffer sn s" "n \<le> m_num_time_samples s" "\<forall>i<n. g i 0 = 0"
  shows "zero_buffer sn (timed tm b k (upd_time_proj sn (on_first n g) s))"
    and "same_config s (timed tm b k (upd_time_proj sn (on_first n g) s))"
proof -
  let ?N = "m_num_time_samples s" and ?x = "m_device_time_proj s ! sn"
  have z: "sn < length (m_device_time_proj s)" "?N \<le> length ?x" "take ?N ?x = replicate ?N 0"
    using assms(1) by (simp_all add: zero_buffer_def)
  have t: "take ?N (on_first n g ?x) = replicate ?N 0"
    by (rule zero_on_first [where g = g, OF assms(2) z(2) z(3) assms(3)])
  have l: "length (on_first n g ?x) = length ?x"
    using assms(2) z(2) by (simp add: length_on_first)
  show "zero_buffer sn (timed tm b k (upd_time_proj sn (on_first n g) s))"
    using z t l by (simp add: zero_buffer_def timed_def push_debug_def upd_time_proj_def)
  have "same_config s (upd_time_proj sn (on_first n g) s)"
    using z l assms(2)
    by (auto simp: upd_time_proj_def same_config_def same_shape_def nth_list_update drop_on_first)
  then show "same_config s (timed tm b k (upd_time_proj sn (on_first n g) s))"
    by (rule same_config_trans [OF _ same_config_timed_self])
qed

lemma beam_memset_zero:
  assumes "sn < length (m_device_time_proj s)"
    "m_num_time_samples s \<le> length (m_device_time_proj s ! sn)"
  shows "\<exists>s'. beam_memset tm b sn s = (Inr (), s') \<and> zero_buffer sn s' \<and> same_config s s'"
proof -
  let ?N = "m_num_time_samples s" and ?x = "m_device_time_proj s ! sn"
  let ?s' = "timed tm b ''kernel_memset_ms'' (upd_time_proj sn (on_first ?N (\<lambda>i x. Complex 0 0)) s)"
  have r: "beam_memset tm b sn s = (Inr (), ?s')"
    by (simp add: beam_memset_def launch_MemsetKernel_def)
  have l: "length (on_first ?N (\<lambda>i x. Complex 0 0) ?x) = length ?x"
    using assms(2) by (simp add: length_on_first)
  have "\<forall>i<?N. on_first ?N (\<lambda>i x. Complex 0 0) ?x ! i = 0"
    using assms(2) by (simp add: nth_on_first Complex_eq_0)
  then have t: "take ?N (on_first ?N (\<lambda>i x. Complex 0 0) ?x) = replicate ?N 0"
    using assms(2) l by (simp add: take_zero_iff)
  have z: "zero_buffer sn ?s'"
    using assms t l by (simp add: zero_buffer_def timed_def push_debug_def upd_time_proj_def)
  have "same_config s (upd_time_proj sn (on_first ?N (\<lambda>i x. Complex 0 0)) s)"
    using assms l
    by (auto simp: upd_time_proj_def same_config_def same_shape_def nth_list_update drop_on_first)
  then have c: "same_config s ?s'"
    by (rule same_config_trans [OF _ same_config_timed_self])
  show ?thesis using r z c by blast
qed

lemma beam_fft_zero:
  assumes "zero_buffer sn s" "m_fft_plan s = Some plan" "plan \<le> m_num_time_samples s"
  shows "\<exists>s'. beam_fft tm b sn dir key s = (Inr (), s') \<and> zero_buffer sn s' \<and> same_config s s'"
proof -
  let ?N = "m_num_time_samples s" and ?x = "m_device_time_proj s ! sn"
  let ?g = "\<lambda>k (x::complex). \<Sum>j<plan. ?x ! j * cis (dir * 2 * pi * real j * real k / real plan)"
  have z: "?N \<le> length ?x" "take ?N ?x = replicate ?N 0"
    using assms(1) by (simp_all add: zero_buffer_def)
  have x: "\<forall>i<?N. ?x ! i = 0" using z by (simp add: take_zero_iff)
  have g: "\<forall>i<plan. ?g i 0 = 0"
    using x assms(3) by simp
  have r: "beam_fft tm b sn dir key s = (Inr (), timed tm b key (upd_time_proj sn (on_first plan ?g) s))"
    using assms(2,3) z(1) by (simp add: beam_fft_def cufftExecC2C_def upd_time_proj_def)
  show ?thesis
    using r zero_stage [OF assms(1) assms(3) g] by simp
qed

lemma beam_multiply_zero:
  assumes "zero_buffer sn s" "m_device_excitation_fft s = Some e" "m_num_time_samples s \<le> length e"
  shows "\<exists>s'. beam_multiply tm b sn s = (Inr (), s') \<and> zero_buffer sn s' \<and> same_config s s'"
proof -
  have r: "beam_multiply tm b sn s = (Inr (), timed tm b ''kernel_multiply_fft_ms''
             (upd_time_proj sn (on_first (m_num_time_samples s) (\<lambda>i x. x * e ! i)) s))"
    using assms(2,3) by (simp add: beam_multiply_def launch_MultiplyFftKernel_def)
  show ?thesis
    using r zero_stage [OF assms(1) order_refl, of "\<lambda>i x. x * e ! i"] by simp
qed

lemma beam_demodulate_zero:
  assumes "zero_buffer sn s"
  shows "\<exists>s'. beam_demodulate tm b sn s = (Inr (), s') \<and> zero_buffer sn s' \<and> same_config s s'"
proof -
  let ?w = "2 * (4 * arctan 1) * (demod_freq (m_excitation s) / sampling_frequency (m_excitation s))"
  have r: "beam_demodulate tm b sn s = (Inr (), timed tm b ''kernel_demodulate_ms''
             (upd_time_proj sn (on_first (m_num_time_samples s) (\<lambda>i x. x * cis (- ?w * real i))) s))"
    by (simp add: beam_demodulate_def launch_DemodulateKernel_def Let_def)
  show ?thesis
    using r zero_stage [OF assms(1) order_refl, of "\<lambda>i x. x * cis (- ?w * real i)"] by simp
qed

lemma zero_buffer_same_config:
  assumes "same_config s t" "m_device_time_proj t = m_device_time_proj s" "zero_buffer sn s"
  shows "zero_buffer sn t"
  using assms(2,3) same_config_fields(1) [OF assms(1)] by (simp add: zero_buffer_def)

lemma process_beam_zero:
  assumes "m_num_fixed_scatterers s = 0" "m_num_spline_scatterers s = 0"
    "0 < m_param_num_cuda_streams s"
    "b mod m_param_num_cuda_streams s < length (m_stream_wrappers s)"
    "b mod m_param_num_cuda_streams s < length (m_device_time_proj s)"
    "m_num_time_samples s \<le> length (m_device_time_proj s ! (b mod m_param_num_cuda_streams s))"
    "m_fft_plan s = Some plan" "plan \<le> m_num_time_samples s"
    "m_device_excitation_fft s = Some e" "m_num_time_samples s \<le> length e"
    "b < length (m_host_rf_lines s)" "m_num_time_samples s \<le> length (m_host_rf_lines s ! b)"
  shows "\<exists>s'. process_beam env tm seq nbf nbs b s = (Inr (), s') \<and> same_config s s'
           \<and> take (m_num_time_samples s) (m_host_rf_lines s' ! b) = replicate (m_num_time_samples s) 0
           \<and> (\<forall>j. j \<noteq> b \<longrightarrow> m_host_rf_lines s' ! j = m_host_rf_lines s ! j)"
proof -
  let ?sn = "b mod m_param_num_cuda_streams s"
  let ?sl = "scanlines seq ! b"
  let ?N = "m_num_time_samples s"
  define s1 where "s1 = (if m_store_kernel_details s
                    then push_debug ''stream_numbers'' (real ?sn) s else s)"
  have s1: "beam_select b s = (Inr (), s1)"
    using assms(3-6) by (simp add: beam_select_def Let_def s1_def push_debug_def)
  have c1: "same_config s s1"
    by (simp add: s1_def push_debug_def same_config_def)
  have p1: "m_device_time_proj s1 = m_device_time_proj s"
    by (simp add: s1_def push_debug_def)
  note f1 = same_config_fields [OF c1]
  have m1: "?sn < length (m_device_time_proj s1)"
    "m_num_time_samples s1 \<le> length (m_device_time_proj s1 ! ?sn)"
    using assms(5,6) by (simp_all add: p1 f1(1))
  from beam_memset_zero [OF m1, of tm b] obtain s2 where
    s2: "beam_memset tm b ?sn s1 = (Inr (), s2)" and z2: "zero_buffer ?sn s2" and c2: "same_config s1 s2"
    by blast
  note d2 = same_config_trans [OF c1 c2]
  note f2 = same_config_fields [OF d2]
  have s3: "beam_project_fixed env tm b ?sn ?sl nbf s2 = (Inr (), s2)"
    using assms(1) by (simp add: beam_project_fixed_def f2)
  have s4: "beam_project_spline env tm b ?sn ?sl nbs s2 = (Inr (), s2)"
    using assms(2) by (simp add: beam_project_spline_def f2)
  have q2: "m_fft_plan s2 = Some plan" "plan \<le> m_num_time_samples s2"
    using assms(7,8) by (simp_all add: f2(1,7))
  from beam_fft_zero [OF z2 q2, of tm b CUFFT_FORWARD "''kernel_forward_fft_ms''"] obtain s5 where
    s5: "beam_fft tm b ?sn CUFFT_FORWARD ''kernel_forward_fft_ms'' s2 = (Inr (), s5)"
    and z5: "zero_buffer ?sn s5" and c5: "same_config s2 s5"
    by blast
  note d5 = same_config_trans [OF d2 c5]
  note f5 = same_config_fields [OF d5]
  have q5: "m_device_excitation_fft s5 = Some e" "m_num_time_samples s5 \<le> length e"
    using assms(9,10) by (simp_all add: f5(1,8))
  from beam_multiply_zero [OF z5 q5, of tm b] obtain s6 where
    s6: "beam_multiply tm b ?sn s5 = (Inr (), s6)"
    and z6: "zero_buffer ?sn s6" and c6: "same_config s5 s6"
    by blast
  note d6 = same_config_trans [OF d5 c6]
  note f6 = same_config_fields [OF d6]
  have q6: "m_fft_plan s6 = Some plan" "plan \<le> m_num_time_samples s6"
    using assms(7,8) by (simp_all add: f6(1,7))
  from beam_fft_zero [OF z6 q6, of tm b CUFFT_INVERSE "''kernel_inverse_fft_ms''"] obtain s7 where
    s7: "beam_fft tm b ?sn CUFFT_INVERSE ''kernel_inverse_fft_ms'' s6 = (Inr (), s7)"
    and z7: "zero_buffer ?sn s7" and c7: "same_config s6 s7"
    by blast
  note d7 = same_config_trans [OF d6 c7]
  from beam_demodulate_zero [OF z7, of tm b] obtain s8 where
    s8: "beam_demodulate tm b ?sn s7 = (Inr (), s8)"
    and z8: "zero_buffer ?sn s8" and c8: "same_config s7 s8"
    by blast
  note d8 = same_config_trans [OF d7 c8]
  note f8 = same_config_fields [OF d8]
  have h8: "m_host_rf_lines s8 = m_host_rf_lines s"
    by (rule host_before_copy [OF s1 s2 s3 s4 s5 s6 s7 s8])
  let ?x = "take ?N (m_device_time_proj s8 ! ?sn) @ drop ?N (m_host_rf_lines s ! b)"
  let ?s9 = "s8\<lparr>m_host_rf_lines := (m_host_rf_lines s)[b := ?x]\<rparr>"
  let ?s' = "timed tm b ''kernel_memcpy_ms'' ?s9"
  have z: "?N \<le> length (m_device_time_proj s8 ! ?sn)"
    "take ?N (m_device_time_proj s8 ! ?sn) = replicate ?N 0"
    using z8 f8(1) by (simp_all add: zero_buffer_def)
  have s9: "beam_copy_to_host tm b ?sn s8 = (Inr (), ?s')"
    using assms(11,12) by (simp add: beam_copy_to_host_def h8 f8)
  have xl: "length ?x = length (m_host_rf_lines s8 ! b)"
    using z(1) assms(12) by (simp add: h8)
  have xd: "drop (m_num_time_samples s8) ?x = drop (m_num_time_samples s8) (m_host_rf_lines s8 ! b)"
    using z(1) by (simp add: h8 f8)
  have "same_config s8 (s8\<lparr>m_host_rf_lines := (m_host_rf_lines s8)[b := ?x]\<rparr>)"
    using assms(11) by (intro same_config_host_upd(2) [OF same_config_refl _ xl xd]) (simp add: h8)
  then have c9: "same_config s8 ?s'"
    unfolding h8 by (rule same_config_trans [OF _ same_config_timed_self])
  have run: "process_beam env tm seq nbf nbs b s = (Inr (), ?s')"
    unfolding process_beam_def Let_def and_then_Inr
    using s1 s2 s3 s4 s5 s6 s7 s8 s9 by blast
  have hz: "take ?N (m_host_rf_lines ?s' ! b) = replicate ?N 0"
    using assms(11) z by simp
  have ho: "m_host_rf_lines ?s' ! j = m_host_rf_lines s ! j" if "j \<noteq> b" for j
    using that by simp
  show ?thesis
    using run same_config_trans [OF d8 c9] hz ho by blast
qed

lemma prepared_streams:
  "0 < m_param_num_cuda_streams s \<Longrightarrow> 0 < length (m_stream_wrappers (prepared s))"
  by (simp add: prepared_def create_cuda_stream_wrappers_def Let_def)

lemma round_up_div_zero: "0 < den \<Longrightarrow> round_up_div 0 den = 0"
  by (simp add: round_up_div_def)

lemma collected_zero:
  assumes "collected host n d c 0 [] row" "n + c \<le> N" "take N host = replicate N (0::complex)"
    "N \<le> length host"
  shows "\<forall>x\<in>set row. x = 0"
proof -
  from assms(1) have len: "\<forall>k. (k * d < n) = (k < length row)"
    and val: "\<forall>k<length row. row ! k = host ! (k * d + c)"
    unfolding collected_def by auto
  have h: "\<forall>i<N. host ! i = 0" using assms(3,4) by (simp add: take_zero_iff)
  have "row ! k = 0" if "k < length row" for k
  proof -
    have "k * d < n" using len that by simp
    then have "k * d + c < N" using assms(2) by simp
    then show ?thesis using val that h by simp
  qed
  then show ?thesis by (auto simp: in_set_conv_nth)
qed

lemma zero_scatterer_run:
  assumes "m_num_fixed_scatterers s = 0" "m_num_spline_scatterers s = 0"
    "m_scan_seq s = Some seq" "length (scanlines seq) = 1"
    "m_cur_beam_profile_type s \<noteq> NOT_CONFIGURED"
    "0 < m_param_threads_per_block s" "0 \<le> maxGridSize0 (m_cur_device_prop s)"
    "0 < m_param_num_cuda_streams s"
    "0 < length (m_device_time_proj s)" "m_num_time_samples s \<le> length (m_device_time_proj s ! 0)"
    "m_fft_plan s = Some plan" "plan \<le> m_num_time_samples s"
    "m_device_excitation_fft s = Some e" "m_num_time_samples s \<le> length e"
    "0 < length (m_host_rf_lines s)" "m_num_time_samples s \<le> length (m_host_rf_lines s ! 0)"
    "0 < m_radial_decimation (base s)"
    "compute_num_rf_samples env (m_param_sound_speed (base s)) (line_length seq)
        (sampling_frequency (m_excitation s)) + center_index (m_excitation s) \<le> m_num_time_samples s"
  shows "\<exists>line s'. simulate_lines env timer s = Some (Inr [line], s')
           \<and> (\<forall>k. (k * m_radial_decimation (base s)
                      < compute_num_rf_samples env (m_param_sound_speed (base s)) (line_length seq)
                          (sampling_frequency (m_excitation s)))
                    = (k < length line))
           \<and> (\<forall>x\<in>set line. x = 0)"
proof -
  let ?p = "prepared s"
  let ?N = "m_num_time_samples s"
  let ?n = "compute_num_rf_samples env (m_param_sound_speed (base s)) (line_length seq)
        (sampling_frequency (m_excitation s))"
  let ?d = "m_radial_decimation (base s)" and ?c = "center_index (m_excitation s)"
  have h: "m_num_fixed_scatterers ?p = 0" "m_num_spline_scatterers ?p = 0"
    "0 < m_param_num_cuda_streams ?p"
    "0 mod m_param_num_cuda_streams ?p < length (m_stream_wrappers ?p)"
    "0 mod m_param_num_cuda_streams ?p < length (m_device_time_proj ?p)"
    "m_num_time_samples ?p \<le> length (m_device_time_proj ?p ! (0 mod m_param_num_cuda_streams ?p))"
    "m_fft_plan ?p = Some plan" "plan \<le> m_num_time_samples ?p"
    "m_device_excitation_fft ?p = Some e" "m_num_time_samples ?p \<le> length e"
    "0 < length (m_host_rf_lines ?p)" "m_num_time_samples ?p \<le> length (m_host_rf_lines ?p ! 0)"
    using assms(1,2,8-16) prepared_streams [OF assms(8)] by (simp_all add: prepared_fields)
  from process_beam_zero [OF h, of env timer seq 0 0] obtain s' where
    pb: "process_beam env timer seq 0 0 0 ?p = (Inr (), s')"
    and c: "same_config ?p s'"
    and hz0: "take (m_num_time_samples ?p) (m_host_rf_lines s' ! 0) = replicate (m_num_time_samples ?p) 0"
    by blast
  have hz: "take ?N (m_host_rf_lines s' ! 0) = replicate ?N 0"
    using hz0 by (simp add: prepared_fields)
  note f = same_config_fields [OF c]
  have hl: "0 < length (m_host_rf_lines s')" "?N \<le> length (m_host_rf_lines s' ! 0)"
    using same_config_host_lengths [OF c] assms(15,16) by (simp_all add: prepared_fields)
  have b: "base s' = base s" using f(10) by (simp add: prepared_fields)
  have one: "[0..<length (scanlines seq)] = [0]"
    unfolding assms(4) by simp
  have loop: "beam_loop env timer seq 0 0 [0..<length (scanlines seq)] ?p = (Inr (), s')"
    unfolding one using pb by (simp add: and_then_def)
  have nc: "?n + ?c \<le> length (m_host_rf_lines s' ! 0)"
    using assms(18) hl(2) by simp
  from collect_samples_total [OF assms(17) nc, of 0 "[]"]
  obtain line where
    col: "collect_samples (m_host_rf_lines s' ! 0) ?n ?d ?c 0 [] = Some (Inr line)"
    by blast
  have cd: "collected (m_host_rf_lines s' ! 0) ?n ?d ?c 0 [] line"
    using collect_samples_partial [OF col] by simp
  have asm: "assemble_lines (m_host_rf_lines s') ?n (m_radial_decimation (base s')) ?c
               [0..<length (scanlines seq)] [] = Some (Inr [line])"
    unfolding one b using col hl(1) by simp
  have nbf: "round_up_div (int (m_num_fixed_scatterers s)) (m_param_threads_per_block s) = 0"
    "round_up_div (int (m_num_spline_scatterers s)) (m_param_threads_per_block s) = 0"
    using assms(1,2,6) by (simp_all add: round_up_div_zero)
  have nl: "\<not> length (scanlines seq) < 1"
    unfolding assms(4) by simp
  have run: "simulate_lines env timer s = Some (Inr [line], s')"
    using nl assms(5,7) loop asm
    by (simp add: simulate_lines_prepared assms(3) nbf)
  have z: "\<forall>x\<in>set line. x = 0"
    by (rule collected_zero [OF cd assms(18) hz hl(2)])
  have l: "\<forall>k. (k * ?d < ?n) = (k < length line)"
    using cd unfolding collected_def by auto
  show ?thesis using run z l by blast
qed


section \<open>A configured object and its run\<close>

lemma set_excitation_buffers:
  assumes "length (samples ex) \<le> m_num_time_samples s"
    "m_num_time_samples s \<le> length (discrete_hilbert_mask env (m_num_time_samples s))"
  shows "\<exists>e. m_device_excitation_fft (snd (set_excitation env ex s)) = Some e
           \<and> length e = m_num_time_samples s"
  using assms
  by (simp add: set_excitation_def Let_def launch_MultiplyFftKernel_def launch_ScaleSignalKernel_def
      cufftExecC2C_def length_on_first)

lemma example_excited_buffers:
  "\<exists>e. m_device_excitation_fft example_excited = Some e \<and> length e = 8192"
  "m_fft_plan example_excited = Some 8192"
  "m_num_fixed_scatterers example_excited = 0" "m_num_spline_scatterers example_excited = 0"
  "m_param_threads_per_block example_excited = 128"
  "maxGridSize0 (m_cur_device_prop example_excited) = 65535"
  "m_radial_decimation (base example_excited) = 2"
  "center_index (m_excitation example_excited) = 2"
proof -
  have a: "length (samples example_excitation) \<le> m_num_time_samples example_new"
    by (simp add: example_excitation_def example_new_fields)
  have b: "m_num_time_samples example_new
             \<le> length (discrete_hilbert_mask example_platform (m_num_time_samples example_new))"
    by (simp add: example_platform_def)
  from set_excitation_buffers [OF a b]
  show "\<exists>e. m_device_excitation_fft example_excited = Some e \<and> length e = 8192"
    by (simp add: example_excited_def example_new_fields)
  have n: "m_num_fixed_scatterers example_new = 0" "m_num_spline_scatterers example_new = 0"
    "m_param_threads_per_block example_new = 128"
    "maxGridSize0 (m_cur_device_prop example_new) = 65535"
    "m_radial_decimation (base example_new) = 2"
    by (simp_all add: example_new_def GpuAlgorithm_ctor_def example_platform_def example_init_def
      save_cuda_device_properties_def get_num_cuda_devices_def Let_def create_dummy_lut_profile_def)
  show "m_fft_plan example_excited = Some 8192"
    "m_num_fixed_scatterers example_excited = 0" "m_num_spline_scatterers example_excited = 0"
    "m_param_threads_per_block example_excited = 128"
    "maxGridSize0 (m_cur_device_prop example_excited) = 65535"
    "m_radial_decimation (base example_excited) = 2"
    "center_index (m_excitation example_excited) = 2"
    using n by (simp_all add: example_excited_def set_excitation_def Let_def example_new_fields example_excitation_def)
qed

lemma example_ready_eq:
  "example_ready = example_excited
     \<lparr>m_can_change_cuda_device := False,
      m_scan_seq := Some (example_lines 1),
      m_device_time_proj := map (\<lambda>i. fresh_complex example_platform (4 + i) 8192) [0..<2],
      m_host_rf_lines := map (\<lambda>beam_no. fresh_complex example_platform (6 + beam_no) 8192) [0..<1],
      num_allocations := 7,
      m_num_beams_allocated := 1,
      m_cur_beam_profile_type := ANALYTICAL,
      m_analytical_sigma_lat := 1,
      m_analytical_sigma_ele := 1\<rparr>"
proof -
  have "set_scan_sequence example_platform (example_lines 1) example_excited =
     (Inr (), example_excited
     \<lparr>m_can_change_cuda_device := False,
      m_scan_seq := Some (example_lines 1),
      m_device_time_proj := map (\<lambda>i. fresh_complex example_platform (4 + i) 8192) [0..<2],
      m_host_rf_lines := map (\<lambda>beam_no. fresh_complex example_platform (6 + beam_no) 8192) [0..<1],
      num_allocations := 7,
      m_num_beams_allocated := 1\<rparr>)"
    by (simp add: set_scan_sequence_def Let_def get_num_lines_def example_excited_fields example_num_rf)
       (simp add: example_lines_def)
  then show ?thesis
    by (simp add: example_ready_def set_analytical_profile_def)
qed

lemma example_ready_fields:
  "m_num_fixed_scatterers example_ready = 0" "m_num_spline_scatterers example_ready = 0"
  "m_scan_seq example_ready = Some (example_lines 1)" "length (scanlines (example_lines 1)) = 1"
  "m_cur_beam_profile_type example_ready \<noteq> NOT_CONFIGURED"
  "0 < m_param_threads_per_block example_ready" "0 \<le> maxGridSize0 (m_cur_device_prop example_ready)"
  "0 < m_param_num_cuda_streams example_ready"
  "0 < length (m_device_time_proj example_ready)"
  "m_num_time_samples example_ready \<le> length (m_device_time_proj example_ready ! 0)"
  "m_fft_plan example_ready = Some 8192" "8192 \<le> m_num_time_samples example_ready"
  "0 < length (m_host_rf_lines example_ready)"
  "m_num_time_samples example_ready \<le> length (m_host_rf_lines example_ready ! 0)"
  "0 < m_radial_decimation (base example_ready)"
  "compute_num_rf_samples example_platform (m_param_sound_speed (base example_ready))
      (line_length (example_lines 1)) (sampling_frequency (m_excitation example_ready))
     + center_index (m_excitation example_ready) \<le> m_num_time_samples example_ready"
  "m_radial_decimation (base example_ready) = 2"
  "compute_num_rf_samples example_platform (m_param_sound_speed (base example_ready))
      (line_length (example_lines 1)) (sampling_frequency (m_excitation example_ready)) = 100"
  "center_index (m_excitation example_ready) = 2"
  "m_num_time_samples example_ready = 8192"
  by (simp_all add: example_ready_eq example_excited_buffers example_excited_fields example_num_rf)
     (simp_all add: example_lines_def)

lemma example_ready_spectrum:
  "\<exists>e. m_device_excitation_fft example_ready = Some e \<and> m_num_time_samples example_ready \<le> length e"
  using example_excited_buffers(1) by (auto simp: example_ready_eq example_excited_fields)

lemma fifty:
  assumes "\<forall>k. (k * 2 < (100::nat)) = (k < length (line :: complex list))" "\<forall>x\<in>set line. x = 0"
  shows "line = replicate 50 0"
proof -
  have "49 < length line" using assms(1) [rule_format, of 49] by simp
  moreover have "\<not> 50 < length line" using assms(1) [rule_format, of 50] by simp
  ultimately have "length line = 50" by simp
  then show ?thesis using assms(2) by (intro replicate_eqI) simp_all
qed

lemma example_run:
  "\<exists>s'. simulate_lines example_platform timer example_ready = Some (Inr [replicate 50 0], s')"
proof -
  obtain e where e: "m_device_excitation_fft example_ready = Some e"
    "m_num_time_samples example_ready \<le> length e"
    using example_ready_spectrum by blast
  note f = example_ready_fields
  from zero_scatterer_run [OF f(1) f(2) f(3) f(4) f(5) f(6) f(7) f(8) f(9) f(10) f(11) f(12) e f(13) f(14)
      f(15) f(16), of timer]
  obtain line s' where
    r: "simulate_lines example_platform timer example_ready = Some (Inr [line], s')"
    and l: "\<forall>k. (k * m_radial_decimation (base example_ready)
                      < compute_num_rf_samples example_platform (m_param_sound_speed (base example_ready))
                          (line_length (example_lines 1)) (sampling_frequency (m_excitation example_ready)))
                    = (k < length line)"
    and z: "\<forall>x\<in>set line. x = 0"
    by blast
  have "line = replicate 50 0"
    using l z unfolding f(17) f(18) by (rule fifty)
  then show ?thesis using r by blast
qed

lemma example_done_run:
  "simulate_lines example_platform (\<lambda>b k. 0) example_ready = Some (Inr [replicate 50 0], example_done)"
  using example_run [of "\<lambda>b k. 0"] by (auto simp: example_done_def)

lemma example_plan_fits: "plan_fits example_ready"
  by (simp add: plan_fits_def example_ready_fields)

lemma example_done_loop:
  "beam_loop example_platform (\<lambda>b k. 0) (example_lines 1) 0 0 [0..<length (scanlines (example_lines 1))]
     (prepared example_ready) = (Inr (), example_done)"
proof -
  have z: "round_up_div (int (m_num_fixed_scatterers example_ready)) (m_param_threads_per_block example_ready) = 0"
    "round_up_div (int (m_num_spline_scatterers example_ready)) (m_param_threads_per_block example_ready) = 0"
    using example_ready_fields(6) by (simp_all add: example_ready_fields(1,2) round_up_div_zero)
  show ?thesis
    using example_done_run
    by (rule simulate_lines_InrE) (simp add: example_ready_fields(3) z)
qed


text \<open>
  Claim C1, an instance: the run of the configured object without scatterers returns one
  line for its one scanline, and sample 7 of that line is the host sample at index
  \<open>7 * 2 + 2 = 16\<close>.
\<close>

theorem simulate_lines_output_witness:
  "simulate_lines example_platform (\<lambda>b k. 0) example_ready = Some (Inr [replicate 50 0], example_done)
   \<and> m_scan_seq example_ready = Some (example_lines 1)
   \<and> length [replicate 50 (0::complex)] = length (scanlines (example_lines 1))
   \<and> 16 < length (m_host_rf_lines example_done ! 0)
   \<and> replicate 50 (0::complex) ! 7 = m_host_rf_lines example_done ! 0 ! 16"
proof -
  note t = simulate_lines_output [OF example_done_run example_ready_fields(3)]
  have a: "length [replicate 50 (0::complex)] = length (scanlines (example_lines 1))"
    using t by blast
  from t have q: "\<forall>j<length (scanlines (example_lines 1)).
       (\<forall>k<length ([replicate 50 (0::complex)] ! j).
                k * m_radial_decimation (base example_ready) + center_index (m_excitation example_ready)
                  < length (m_host_rf_lines example_done ! j)
              \<and> [replicate 50 (0::complex)] ! j ! k
                  = m_host_rf_lines example_done ! j
                      ! (k * m_radial_decimation (base example_ready) + center_index (m_excitation example_ready)))"
    by blast
  have "0 < length (scanlines (example_lines 1))"
    unfolding example_ready_fields(4) by simp
  with q have "\<forall>k<length ([replicate 50 (0::complex)] ! 0).
                k * m_radial_decimation (base example_ready) + center_index (m_excitation example_ready)
                  < length (m_host_rf_lines example_done ! 0)
              \<and> [replicate 50 (0::complex)] ! 0 ! k
                  = m_host_rf_lines example_done ! 0
                      ! (k * m_radial_decimation (base example_ready) + center_index (m_excitation example_ready))"
    by blast
  then have "7 < length ([replicate 50 (0::complex)] ! 0) \<longrightarrow>
       7 * 2 + 2 < length (m_host_rf_lines example_done ! 0)
     \<and> [replicate 50 (0::complex)] ! 0 ! 7 = m_host_rf_lines example_done ! 0 ! (7 * 2 + 2)"
    unfolding example_ready_fields(17,19) by blast
  then have "16 < length (m_host_rf_lines example_done ! 0)
     \<and> replicate 50 (0::complex) ! 7 = m_host_rf_lines example_done ! 0 ! 16"
    by (simp del: nth_replicate)
  then show ?thesis
    using a example_done_run example_ready_fields(3) by (simp del: nth_replicate)
qed

text \<open>
  Claim C8, an instance: a second run on the object left by the first, with other timer
  readings, returns the same line.
\<close>

theorem simulate_lines_twice_witness:
  "simulate_lines example_platform (\<lambda>b k. 0) example_ready = Some (Inr [replicate 50 0], example_done)
   \<and> plan_fits example_ready
   \<and> fst (the (simulate_lines example_platform (\<lambda>b k. 1) example_done)) = Inr [replicate 50 0]"
proof -
  from simulate_lines_twice [OF example_done_run example_plan_fits, of "\<lambda>b k. 1"]
  have "fst (the (simulate_lines example_platform (\<lambda>b k. 1) example_done)) = Inr [replicate 50 0]"
    by auto
  then show ?thesis
    using example_done_run example_plan_fits by simp
qed

section \<open>Host reads of the output assembly\<close>

lemma collect_samples_reads_eq:
  assumes "length host' = length host" "\<forall>i<n. i + c < length host \<longrightarrow> host' ! (i + c) = host ! (i + c)"
  shows "collect_samples host' n d c i acc = collect_samples host n d c i acc"
proof (cases "collect_samples host n d c i acc")
  case (Some y)
  then show ?thesis using collect_samples_reads [OF assms] by simp
next
  case None
  have b: "length host = length host'" "\<forall>i<n. i + c < length host' \<longrightarrow> host ! (i + c) = host' ! (i + c)"
    using assms by simp_all
  show ?thesis
  proof (cases "collect_samples host' n d c i acc")
    case (Some y)
    then show ?thesis using collect_samples_reads [OF b] by simp
  next
    case None': None
    show ?thesis using None None' by simp
  qed
qed

lemma set_scan_sequence_check:
  "fst (set_scan_sequence env seq t)
     = (if m_num_time_samples t < compute_num_rf_samples env (m_param_sound_speed (base t))
                                    (line_length seq) (sampling_frequency (m_excitation t))
        then Inl (RuntimeError ''Too many RF samples required. TODO: remove limitation'')
        else Inr ())"
  by (simp add: set_scan_sequence_def Let_def)

text \<open>
  Claim C10. The inner loop of the output assembly depends on the host line only through
  its length and its samples at the indices \<open>i + center_index\<close> with \<open>i < num_rf_samples\<close>:
  two lines that agree there give the same outcome. When the beam loop of \<^verbatim>\<open>simulate_lines\<close>
  has completed and \<open>center_index + num_rf_samples\<close> is within the time-sample capacity, the
  assembly that follows reads no host line out of range. The capacity check of
  \<^verbatim>\<open>set_scan_sequence\<close> fails exactly when \<open>num_rf_samples\<close> exceeds the time-sample
  capacity, and its outcome is the same whatever the center index of the excitation.
\<close>

theorem host_line_reads:
  "(length host' = length host \<and> (\<forall>i<n. i + c < length host \<longrightarrow> host' ! (i + c) = host ! (i + c))
      \<longrightarrow> collect_samples host' n d c 0 [] = collect_samples host n d c 0 [])
   \<and> (plan_fits s
       \<and> beam_loop env timer seq nbf nbs [0..<length (scanlines seq)] (prepared s) = (Inr (), s4)
       \<and> center_index (m_excitation s)
           + compute_num_rf_samples env (m_param_sound_speed (base s)) (line_length seq)
               (sampling_frequency (m_excitation s)) \<le> m_num_time_samples s
      \<longrightarrow> (\<forall>e. assemble_lines (m_host_rf_lines s4)
                  (compute_num_rf_samples env (m_param_sound_speed (base s)) (line_length seq)
                     (sampling_frequency (m_excitation s)))
                  (m_radial_decimation (base s4)) (center_index (m_excitation s))
                  [0..<length (scanlines seq)] [] \<noteq> Some (Inl e)))
   \<and> fst (set_scan_sequence env seq' t)
       = (if m_num_time_samples t < compute_num_rf_samples env (m_param_sound_speed (base t))
                                      (line_length seq') (sampling_frequency (m_excitation t))
          then Inl (RuntimeError ''Too many RF samples required. TODO: remove limitation'')
          else Inr ())
   \<and> fst (set_scan_sequence env seq' (t\<lparr>m_excitation := (m_excitation t)\<lparr>center_index := k\<rparr>\<rparr>))
       = fst (set_scan_sequence env seq' t)"
proof (intro conjI impI allI)
  assume "length host' = length host \<and> (\<forall>i<n. i + c < length host \<longrightarrow> host' ! (i + c) = host ! (i + c))"
  then show "collect_samples host' n d c 0 [] = collect_samples host n d c 0 []"
    by (intro collect_samples_reads_eq) blast+
next
  fix e
  let ?n = "compute_num_rf_samples env (m_param_sound_speed (base s)) (line_length seq)
               (sampling_frequency (m_excitation s))"
  assume a: "plan_fits s
       \<and> beam_loop env timer seq nbf nbs [0..<length (scanlines seq)] (prepared s) = (Inr (), s4)
       \<and> center_index (m_excitation s) + ?n \<le> m_num_time_samples s"
  have p: "plan_fits (prepared s)"
    using a by (auto simp: plan_fits_def prepared_fields split: option.splits)
  have l: "beam_loop env timer seq nbf nbs [0..<length (scanlines seq)] (prepared s) = (Inr (), s4)"
    using a by blast
  from beam_loop_frame(2) [OF p l]
  have "\<forall>b\<in>set [0..<length (scanlines seq)]. b < length (m_host_rf_lines s4)
          \<and> ?n + center_index (m_excitation s) \<le> length (m_host_rf_lines s4 ! b)"
    using a by (auto simp: prepared_fields)
  then show "assemble_lines (m_host_rf_lines s4) ?n (m_radial_decimation (base s4))
               (center_index (m_excitation s)) [0..<length (scanlines seq)] [] \<noteq> Some (Inl e)"
    by (rule assemble_lines_no_error)
next
  show "fst (set_scan_sequence env seq' t)
       = (if m_num_time_samples t < compute_num_rf_samples env (m_param_sound_speed (base t))
                                      (line_length seq') (sampling_frequency (m_excitation t))
          then Inl (RuntimeError ''Too many RF samples required. TODO: remove limitation'')
          else Inr ())"
    by (rule set_scan_sequence_check)
next
  show "fst (set_scan_sequence env seq' (t\<lparr>m_excitation := (m_excitation t)\<lparr>center_index := k\<rparr>\<rparr>))
       = fst (set_scan_sequence env seq' t)"
    by (simp add: set_scan_sequence_check)
qed

text \<open>
  Claim C10, an instance: the assembly after the run of the configured object (100 RF
  samples, center index 2, capacity 8192) reads in range; two lines that differ only at
  index 0 are the same to a loop that reads index 1; and \<^verbatim>\<open>set_scan_sequence\<close> accepts the
  sequence for an excitation whose center index is 9000, beyond the capacity.
\<close>

theorem host_line_reads_witness:
  "plan_fits example_ready
   \<and> beam_loop example_platform (\<lambda>b k. 0) (example_lines 1) 0 0 [0..<length (scanlines (example_lines 1))]
        (prepared example_ready) = (Inr (), example_done)
   \<and> center_index (m_excitation example_ready)
        + compute_num_rf_samples example_platform (m_param_sound_speed (base example_ready))
            (line_length (example_lines 1)) (sampling_frequency (m_excitation example_ready))
       \<le> m_num_time_samples example_ready
   \<and> assemble_lines (m_host_rf_lines example_done) 100 (m_radial_decimation (base example_done)) 2
        [0..<length (scanlines (example_lines 1))] []
       \<noteq> Some (Inl (UndefinedBehaviour ''host line read out of range''))
   \<and> collect_samples [9, 2, 3] 1 1 1 0 [] = collect_samples [1, 2, 3] 1 1 1 0 []
   \<and> center_index (m_excitation example_late_center) = 9000
   \<and> fst (set_scan_sequence example_platform (example_lines 1) example_late_center) = Inr ()"
proof -
  have b: "center_index (m_excitation example_ready)
        + compute_num_rf_samples example_platform (m_param_sound_speed (base example_ready))
            (line_length (example_lines 1)) (sampling_frequency (m_excitation example_ready))
       \<le> m_num_time_samples example_ready"
    unfolding example_ready_fields(18,19,20) by simp
  note t = host_line_reads [of "[9, 2, 3]" "[1, 2, 3]" 1 1 1 example_ready example_platform "\<lambda>b k. 0"
      "example_lines 1" 0 0 example_done "example_lines 1" example_excited 9000]
  have c: "assemble_lines (m_host_rf_lines example_done) 100 (m_radial_decimation (base example_done)) 2
        [0..<length (scanlines (example_lines 1))] []
       \<noteq> Some (Inl (UndefinedBehaviour ''host line read out of range''))"
    using t example_plan_fits example_done_loop b unfolding example_ready_fields(18,19) by blast
  have d: "collect_samples [9, 2, 3] 1 1 1 0 [] = collect_samples [1, 2, 3] 1 1 1 0 []"
    using t by simp
  have e: "fst (set_scan_sequence example_platform (example_lines 1) example_late_center) = Inr ()"
    using t by (simp add: example_late_center_def example_excited_fields example_num_rf)
  show ?thesis
    using example_plan_fits example_done_loop b c d e
    by (simp add: example_late_center_def)
qed

section \<open>An accepted configuration that reads past the host line\<close>










end
